theory Spec2Isabelle
  imports Complex_Main "HOL-Library.Multiset" "HOL-Library.Sublist"
begin

section \<open>Data model\<close>

text \<open>
  The Kubernetes API objects the analyzers read (package \<open>corev1\<close>), restricted to the
  fields the program touches, and the program's own domain types (package \<open>domain\<close>).
  A Go pointer that may be nil is an \<open>option\<close>; a Go \<open>string\<close> is a list of bytes;
  \<open>int32\<close> fields are integers (the program only compares and prints them, and the one
  product it forms is computed in 64 bits).
\<close>

text \<open>An instant; \<open>0\<close> is the zero value of \<open>time.Time\<close>, for which \<open>IsZero\<close> holds.\<close>

type_synonym Time = int

record ContainerStateWaiting =
  Waiting_Reason :: string
  Waiting_Message :: string

record ContainerStateRunning =
  Running_StartedAt :: Time

record ContainerStateTerminated =
  Terminated_ExitCode :: int
  Terminated_Reason :: string
  Terminated_Message :: string
  Terminated_FinishedAt :: Time

record ContainerState =
  Waiting :: "ContainerStateWaiting option"
  Running :: "ContainerStateRunning option"
  Terminated :: "ContainerStateTerminated option"

record ContainerStatus =
  CS_Name :: string
  State :: ContainerState
  LastTerminationState :: ContainerState
  Ready :: bool
  RestartCount :: int
  CS_Image :: string

record PodCondition =
  Cond_Type :: string
  Cond_Status :: string
  Cond_Reason :: string
  Cond_Message :: string

text \<open>\<open>corev1.PodStatus\<close>: the status block of a pod (not the program's status label).\<close>

record PodStatusV1 =
  Phase :: string
  Conditions :: "PodCondition list"
  Status_Message :: string
  Status_Reason :: string
  PodIP :: string
  InitContainerStatuses :: "ContainerStatus list"
  ContainerStatuses :: "ContainerStatus list"

text \<open>
  \<open>resource.Quantity\<close>: an exact decimal amount. \<open>Q_Value\<close> is the amount, which
  \<open>IsZero\<close> and \<open>Cmp\<close> read; \<open>Q_String\<close> is its canonical text, which \<open>String()\<close>
  returns. A \<open>ResourceList\<close> is a Go map from resource name to quantity, kept as an
  association list; only its length and its \<open>cpu\<close> and \<open>memory\<close> entries are read.
\<close>

record Quantity =
  Q_Value :: rat
  Q_String :: string

type_synonym ResourceList = "(string \<times> Quantity) list"

record ResourceRequirements =
  Limits :: ResourceList
  Requests :: ResourceList

record Probe =
  InitialDelaySeconds :: int
  TimeoutSeconds :: int
  PeriodSeconds :: int
  FailureThreshold :: int

record Container =
  C_Name :: string
  C_Image :: string
  Resources :: ResourceRequirements
  LivenessProbe :: "Probe option"
  ReadinessProbe :: "Probe option"
  StartupProbe :: "Probe option"

record PodSpec =
  NodeName :: string
  InitContainers :: "Container list"
  Containers :: "Container list"

record Pod =
  Pod_Name :: string
  Pod_Namespace :: string
  Pod_Labels :: "string \<rightharpoonup> string"
  CreationTimestamp :: Time
  DeletionTimestamp :: "Time option"
  Spec :: PodSpec
  Status :: PodStatusV1

text \<open>\<open>domain.PodStatus\<close>: the program's high-level status label, with its constants.\<close>

datatype PodStatus =
    StatusHealthy
  | StatusCrashLoop
  | StatusImagePull
  | StatusPending
  | StatusOOMKilled
  | StatusEvicted
  | StatusError
  | StatusTerminating
  | StatusUnknown
  | StatusNotReady
  | StatusInitializing
  | StatusCreateError
  | StatusConfigError

subsection \<open>Domain types\<close>

datatype Severity = SeverityCritical | SeverityWarning | SeverityInfo

text \<open>
  \<open>Details\<close> is a Go \<open>map[string]string\<close>; reading a key of a nil map finds nothing, so
  nil and the empty map are both \<open>Map.empty\<close>.
\<close>

record Issue =
  Severity :: Severity
  Category :: string
  Title :: string
  Description :: string
  Details :: "string \<rightharpoonup> string"

record Recommendation =
  Priority :: int
  Rec_Title :: string
  Rec_Description :: string
  Command :: string

record ContainerInfo =
  CI_Name :: string
  CI_Image :: string
  CI_Ready :: bool
  CI_RestartCount :: int
  CI_State :: string
  CI_Reason :: string
  CI_Message :: string
  CI_ExitCode :: int
  CI_StartedAt :: Time
  CI_FinishedAt :: Time

record PodInfo =
  Info_Name :: string
  Info_Namespace :: string
  Info_Node :: string
  Info_Age :: int
  Info_Phase :: string
  Info_IP :: string
  Info_Restarts :: int
  Info_Containers :: "ContainerInfo list"
  Info_Labels :: "string \<rightharpoonup> string"

record EventInfo =
  Ev_Type :: string
  Ev_Reason :: string
  Ev_Message :: string
  Ev_Count :: int
  FirstSeen :: Time
  LastSeen :: Time
  Source :: string

record NodeHealth =
  NH_Name :: string
  NH_Ready :: bool
  MemoryPressure :: bool
  DiskPressure :: bool
  PIDPressure :: bool
  NetworkUnavail :: bool

text \<open>
  \<open>domain.Diagnosis\<close>. Its fields \<open>Logs\<close> and \<open>Resources\<close> are never assigned by the
  program and are left out.
\<close>

record Diagnosis =
  D_Pod :: PodInfo
  D_Status :: PodStatus
  Issues :: "Issue list"
  Events :: "EventInfo list"
  Node :: "NodeHealth option"
  Recommendations :: "Recommendation list"
  DiagnosedAt :: Time

definition NewDiagnosis :: "Time \<Rightarrow> PodInfo \<Rightarrow> Diagnosis" where
  "NewDiagnosis now pod =
     \<lparr>D_Pod = pod, D_Status = StatusUnknown, Issues = [], Events = [], Node = None,
      Recommendations = [], DiagnosedAt = now\<rparr>"

definition AddIssue :: "Diagnosis \<Rightarrow> Issue \<Rightarrow> Diagnosis" where
  "AddIssue d issue = d\<lparr>Issues := Issues d @ [issue]\<rparr>"

definition IsHealthy :: "Diagnosis \<Rightarrow> bool" where
  "IsHealthy d = (length (Issues d) = 0 \<and> D_Status d = StatusHealthy)"

section \<open>Status classifier\<close>

text \<open>
  \<open>detectPodStatus\<close>, in the order of its statements. The \<open>switch\<close> on the waiting
  reason is \<open>waitingSwitch\<close>: \<open>None\<close> when no case matches, so that control falls
  through to the last-termination check of the same container.
\<close>

definition waitingSwitch :: "string \<Rightarrow> PodStatus option" where
  "waitingSwitch reason =
     (if reason = ''CrashLoopBackOff'' then Some StatusCrashLoop
      else if reason = ''ImagePullBackOff'' \<or> reason = ''ErrImagePull'' then Some StatusImagePull
      else if reason = ''CreateContainerError'' then Some StatusCreateError
      else if reason = ''CreateContainerConfigError'' then Some StatusConfigError
      else None)"

text \<open>The body of the first loop for one container: \<open>Some\<close> label when it returns.\<close>

definition containerVerdict :: "ContainerStatus \<Rightarrow> PodStatus option" where
  "containerVerdict cs =
     (case (case Waiting (State cs) of
              None \<Rightarrow> None
            | Some w \<Rightarrow> waitingSwitch (Waiting_Reason w)) of
        Some s \<Rightarrow> Some s
      | None \<Rightarrow>
          (case Terminated (LastTerminationState cs) of
             None \<Rightarrow> None
           | Some t \<Rightarrow> if Terminated_Reason t = ''OOMKilled'' then Some StatusOOMKilled else None))"

fun containerLoop :: "ContainerStatus list \<Rightarrow> PodStatus option" where
  "containerLoop [] = None"
| "containerLoop (cs # rest) =
     (case containerVerdict cs of
        Some s \<Rightarrow> Some s
      | None \<Rightarrow> containerLoop rest)"

text \<open>The second loop, under phase Running: the first container that is not ready.\<close>

fun readyLoop :: "ContainerStatus list \<Rightarrow> PodStatus" where
  "readyLoop [] = StatusHealthy"
| "readyLoop (cs # rest) = (if \<not> Ready cs then StatusNotReady else readyLoop rest)"

definition phaseSwitch :: "PodStatusV1 \<Rightarrow> PodStatus" where
  "phaseSwitch st =
     (if Phase st = ''Pending'' then StatusPending
      else if Phase st = ''Failed'' then
        (if Status_Reason st = ''Evicted'' then StatusEvicted else StatusError)
      else if Phase st = ''Running'' then readyLoop (ContainerStatuses st)
      else if Phase st = ''Succeeded'' then StatusHealthy
      else StatusUnknown)"

definition detectPodStatus :: "Pod \<Rightarrow> PodStatus" where
  "detectPodStatus pod =
     (if DeletionTimestamp pod \<noteq> None then StatusTerminating
      else case containerLoop (ContainerStatuses (Status pod)) of
             Some s \<Rightarrow> s
           | None \<Rightarrow> phaseSwitch (Status pod))"

section \<open>Recommendation engine\<close>

text \<open>\<open>strings.Contains s substr\<close>: \<open>substr\<close> occurs in \<open>s\<close> as a contiguous run of bytes.\<close>

definition strings_Contains :: "string \<Rightarrow> string \<Rightarrow> bool" where
  "strings_Contains s substr = sublist substr s"

definition containsReason :: "Issue \<Rightarrow> string \<Rightarrow> bool" where
  "containsReason issue reason =
     (case Details issue ''reason'' of
        Some r \<Rightarrow> if r = reason then True else Title issue = reason
      | None \<Rightarrow> Title issue = reason)"

definition recsContainer :: "Issue \<Rightarrow> PodInfo \<Rightarrow> Recommendation list" where
  "recsContainer issue pod =
     (if Title issue = ''CrashLoopBackOff'' \<or> containsReason issue ''CrashLoopBackOff'' then
        [\<lparr>Priority = 1, Rec_Title = ''Check container logs'',
          Rec_Description = ''Review container logs to identify the crash cause'',
          Command = ''kubectl logs '' @ Info_Name pod @ '' -n '' @ Info_Namespace pod @ '' --previous''\<rparr>]
      else [])
     @ (if containsReason issue ''ImagePullBackOff'' \<or> containsReason issue ''ErrImagePull'' then
        [\<lparr>Priority = 1, Rec_Title = ''Verify image exists'',
          Rec_Description = ''Check if the image exists and is accessible'',
          Command = ''kubectl describe pod '' @ Info_Name pod @ '' -n '' @ Info_Namespace pod\<rparr>,
         \<lparr>Priority = 2, Rec_Title = ''Check image pull secrets'',
          Rec_Description = ''Ensure imagePullSecrets are configured if using a private registry'',
          Command = []\<rparr>]
      else [])"

definition recsResources :: "Issue \<Rightarrow> Recommendation list" where
  "recsResources issue =
     (if containsReason issue ''OOMKilled'' then
        [\<lparr>Priority = 1, Rec_Title = ''Increase memory limit'',
          Rec_Description = ''Container exceeded memory limit; consider increasing it'',
          Command = ''kubectl set resources deployment/<deployment-name> -c <container> --limits=memory=<new-limit>''\<rparr>]
      else [])
     @ (if strings_Contains (Title issue) ''No resource limits'' then
        [\<lparr>Priority = 2, Rec_Title = ''Add resource limits'',
          Rec_Description = ''Set resource limits to prevent resource contention'',
          Command = ''kubectl set resources deployment/<deployment-name> -c <container> --limits=cpu=500m,memory=256Mi''\<rparr>]
      else [])
     @ (if strings_Contains (Title issue) ''BestEffort QoS'' then
        [\<lparr>Priority = 2, Rec_Title = ''Configure resource requests and limits'',
          Rec_Description = ''BestEffort pods are first to be evicted; add resources for better QoS'',
          Command = []\<rparr>]
      else [])"

definition recsProbes :: "Issue \<Rightarrow> PodInfo \<Rightarrow> Recommendation list" where
  "recsProbes issue pod =
     (if strings_Contains (Title issue) ''probe failed'' then
        [\<lparr>Priority = 1, Rec_Title = ''Check probe endpoint'',
          Rec_Description = ''Verify the probe endpoint is responding correctly'',
          Command = ''kubectl exec '' @ Info_Name pod @ '' -n '' @ Info_Namespace pod
                      @ '' -- curl -v localhost:<port>/<path>''\<rparr>]
      else [])
     @ (if strings_Contains (Title issue) ''No health probes'' then
        [\<lparr>Priority = 3, Rec_Title = ''Add health probes'',
          Rec_Description = ''Consider adding liveness and readiness probes for better health monitoring'',
          Command = []\<rparr>]
      else [])
     @ (if strings_Contains (Title issue) ''running but not ready'' then
        [\<lparr>Priority = 1, Rec_Title = ''Debug readiness probe'',
          Rec_Description = ''Check why readiness probe is failing'',
          Command = ''kubectl describe pod '' @ Info_Name pod @ '' -n '' @ Info_Namespace pod
                      @ '' | grep -A10 '' @ [CHR 0x27] @ ''Readiness'' @ [CHR 0x27]\<rparr>]
      else [])"

definition recsScheduling :: "Recommendation list" where
  "recsScheduling =
     [\<lparr>Priority = 1, Rec_Title = ''Check node resources'',
       Rec_Description = ''Verify cluster has nodes with sufficient resources'',
       Command = ''kubectl describe nodes | grep -A5 '' @ [CHR 0x27] @ ''Allocated resources'' @ [CHR 0x27]\<rparr>,
      \<lparr>Priority = 2, Rec_Title = ''Review pod tolerations'',
       Rec_Description = ''Check if pod has required tolerations for tainted nodes'',
       Command = []\<rparr>]"

definition recsNode :: "PodInfo \<Rightarrow> Recommendation list" where
  "recsNode pod =
     [\<lparr>Priority = 1, Rec_Title = ''Check node status'',
       Rec_Description = ''Review node conditions and events'',
       Command = ''kubectl describe node '' @ Info_Node pod\<rparr>]"

definition recsLogs :: "PodInfo \<Rightarrow> Recommendation list" where
  "recsLogs pod =
     [\<lparr>Priority = 2, Rec_Title = ''Review full logs'',
       Rec_Description = ''Check complete container logs for more context'',
       Command = ''kubectl logs '' @ Info_Name pod @ '' -n '' @ Info_Namespace pod @ '' --tail=100''\<rparr>]"

text \<open>The \<open>switch\<close> on the issue's category; an unlisted category gives no recommendation.\<close>

definition getRecommendationsForIssue :: "Issue \<Rightarrow> PodInfo \<Rightarrow> Recommendation list" where
  "getRecommendationsForIssue issue pod =
     (if Category issue = ''container'' then recsContainer issue pod
      else if Category issue = ''resources'' then recsResources issue
      else if Category issue = ''probes'' then recsProbes issue pod
      else if Category issue = ''scheduling'' then recsScheduling
      else if Category issue = ''node'' then recsNode pod
      else if Category issue = ''logs'' then recsLogs pod
      else [])"

text \<open>
  The accumulation loops of \<open>generateRecommendations\<close>. The state is the slice \<open>recs\<close>
  and the map \<open>seenRecs\<close>, a Go \<open>map[string]bool\<close> whose missing keys read as false.
\<close>

type_synonym recState = "Recommendation list \<times> (string \<Rightarrow> bool)"

definition acceptRec :: "recState \<Rightarrow> Recommendation \<Rightarrow> recState" where
  "acceptRec st rec =
     (case st of (recs, seenRecs) \<Rightarrow>
        if \<not> seenRecs (Rec_Title rec)
        then (recs @ [rec], seenRecs(Rec_Title rec := True))
        else (recs, seenRecs))"

definition acceptIssue :: "PodInfo \<Rightarrow> recState \<Rightarrow> Issue \<Rightarrow> recState" where
  "acceptIssue pod st issue = foldl acceptRec st (getRecommendationsForIssue issue pod)"

definition acceptedRecs :: "Diagnosis \<Rightarrow> Recommendation list" where
  "acceptedRecs diagnosis =
     fst (foldl (acceptIssue (D_Pod diagnosis)) ([], \<lambda>_. False) (Issues diagnosis))"

text \<open>The comparison handed to \<open>sort.Slice\<close>, on the elements at the two indices.\<close>

definition byPriority :: "Recommendation \<Rightarrow> Recommendation \<Rightarrow> bool" where
  "byPriority a b = (Priority a < Priority b)"

text \<open>
  \<open>sort.Slice\<close> belongs to Go's standard library, not to the program, and is a parameter
  \<open>sortSlice\<close> of the model: given the comparison and the slice it returns the slice
  as it is after the call.
\<close>

type_synonym sorter = "(Recommendation \<Rightarrow> Recommendation \<Rightarrow> bool) \<Rightarrow> Recommendation list \<Rightarrow> Recommendation list"

definition generateRecommendations :: "sorter \<Rightarrow> Diagnosis \<Rightarrow> Recommendation list" where
  "generateRecommendations sortSlice diagnosis = sortSlice byPriority (acceptedRecs diagnosis)"

text \<open>
  What the library documents of \<open>sort.Slice\<close>, on one slice: the result is a
  rearrangement of the slice in which no element is less than an earlier one. It
  documents no order among elements that compare equal.
\<close>

definition sortsSlice :: "sorter \<Rightarrow> Recommendation list \<Rightarrow> bool" where
  "sortsSlice sortSlice recs =
     (mset (sortSlice byPriority recs) = mset recs
      \<and> sorted_wrt (\<lambda>a b. \<not> byPriority b a) (sortSlice byPriority recs))"

subsection \<open>What the Go library runs for \<open>sort.Slice\<close>\<close>

text \<open>
  Two instances of the parameter, written after Go's standard library (package
  \<open>sort\<close>, since Go 1.19), which is outside the repository. A slice is a list, indices
  are Go \<open>int\<close>s, and \<open>data.Swap\<close> and \<open>data.Less\<close> act on positions. The routines
  below keep every index they pass on within the slice.
\<close>

definition Swap :: "'a list \<Rightarrow> int \<Rightarrow> int \<Rightarrow> 'a list" where
  "Swap data i j = data[nat i := data ! nat j, nat j := data ! nat i]"

definition Less :: "('a \<Rightarrow> 'a \<Rightarrow> bool) \<Rightarrow> 'a list \<Rightarrow> int \<Rightarrow> int \<Rightarrow> bool" where
  "Less lessf data i j = lessf (data ! nat i) (data ! nat j)"

text \<open>
  \<open>insertionSort_func\<close> on the whole slice: the inner loop moves the element at \<open>j\<close>
  down while it is less than its left neighbour.
\<close>

function insertionInner :: "('a \<Rightarrow> 'a \<Rightarrow> bool) \<Rightarrow> 'a list \<Rightarrow> int \<Rightarrow> 'a list" where
  "insertionInner lessf data j =
     (if j > 0 \<and> Less lessf data j (j - 1)
      then insertionInner lessf (Swap data j (j - 1)) (j - 1)
      else data)"
  by pat_completeness auto
termination
  by (relation "measure (\<lambda>(lessf, data, j). nat j)") auto

declare insertionInner.simps [simp del]

definition insertionSort_func :: "('a \<Rightarrow> 'a \<Rightarrow> bool) \<Rightarrow> 'a list \<Rightarrow> 'a list" where
  "insertionSort_func lessf data =
     foldl (\<lambda>d i. insertionInner lessf d (int i)) data [1..<length data]"

text \<open>
  \<open>choosePivot_func\<close> for a slice shorter than 50 elements: from 8 elements on, the
  median of the elements at the three quarter positions, with the number of exchanges
  that finding it took. (On longer slices the library first replaces each of the three
  by a median of its neighbours; that step is not modelled.)
\<close>

datatype sortedHint = unknownHint | increasingHint | decreasingHint

definition order2_func ::
  "('a \<Rightarrow> 'a \<Rightarrow> bool) \<Rightarrow> 'a list \<Rightarrow> int \<Rightarrow> int \<Rightarrow> nat \<Rightarrow> int \<times> int \<times> nat" where
  "order2_func lessf data a b swaps =
     (if Less lessf data b a then (b, a, swaps + 1) else (a, b, swaps))"

definition median_func ::
  "('a \<Rightarrow> 'a \<Rightarrow> bool) \<Rightarrow> 'a list \<Rightarrow> int \<Rightarrow> int \<Rightarrow> int \<Rightarrow> nat \<Rightarrow> int \<times> nat" where
  "median_func lessf data a b c swaps =
     (case order2_func lessf data a b swaps of (a1, b1, s1) \<Rightarrow>
      case order2_func lessf data b1 c s1 of (b2, c2, s2) \<Rightarrow>
      case order2_func lessf data a1 b2 s2 of (a3, b3, s3) \<Rightarrow> (b3, s3))"

definition choosePivot_func :: "('a \<Rightarrow> 'a \<Rightarrow> bool) \<Rightarrow> 'a list \<Rightarrow> int \<times> sortedHint" where
  "choosePivot_func lessf data =
     (let l = int (length data);
          i = l div 4 * 1;
          j = l div 4 * 2;
          k = l div 4 * 3
      in case (if l \<ge> 8 then median_func lessf data i j k 0 else (j, 0)) of
           (pivot, swaps) \<Rightarrow>
             if swaps = 0 then (pivot, increasingHint)
             else if swaps = 4 * 3 then (pivot, decreasingHint)
             else (pivot, unknownHint))"

text \<open>
  \<open>partialInsertionSort_func\<close> on a slice shorter than 50 elements: it reports whether
  the slice is already in order and moves nothing.
\<close>

fun partialInsertionSort_func :: "('a \<Rightarrow> 'a \<Rightarrow> bool) \<Rightarrow> 'a list \<Rightarrow> bool" where
  "partialInsertionSort_func lessf (x # y # rest) =
     (if lessf y x then False else partialInsertionSort_func lessf (y # rest))"
| "partialInsertionSort_func lessf data = True"

text \<open>\<open>partition_func\<close> on the whole slice, its two scanning loops first.\<close>

function scanUp :: "('a \<Rightarrow> 'a \<Rightarrow> bool) \<Rightarrow> 'a list \<Rightarrow> int \<Rightarrow> int \<Rightarrow> int" where
  "scanUp lessf data i j =
     (if i \<le> j \<and> Less lessf data i 0 then scanUp lessf data (i + 1) j else i)"
  by pat_completeness auto
termination
  by (relation "measure (\<lambda>(lessf, data, i, j). nat (j + 1 - i))") auto

function scanDown :: "('a \<Rightarrow> 'a \<Rightarrow> bool) \<Rightarrow> 'a list \<Rightarrow> int \<Rightarrow> int \<Rightarrow> int" where
  "scanDown lessf data i j =
     (if i \<le> j \<and> \<not> Less lessf data j 0 then scanDown lessf data i (j - 1) else j)"
  by pat_completeness auto
termination
  by (relation "measure (\<lambda>(lessf, data, i, j). nat (j + 1 - i))") auto

declare scanUp.simps [simp del] scanDown.simps [simp del]

text \<open>
  The unbounded \<open>for\<close> loop of \<open>partition_func\<close>. It ends: \<open>scanUp\<close> never moves \<open>i\<close> down
  and \<open>scanDown\<close> never moves \<open>j\<close> up, so each round that does not leave the loop brings
  the two indices closer.
\<close>

function partitionLoop ::
  "('a \<Rightarrow> 'a \<Rightarrow> bool) \<Rightarrow> 'a list \<Rightarrow> int \<Rightarrow> int \<Rightarrow> 'a list \<times> int" where
  "partitionLoop lessf data i j =
     (let i1 = scanUp lessf data i j;
          j1 = scanDown lessf data i1 j
      in if i1 > j1 then (data, j1)
         else partitionLoop lessf (Swap data i1 j1) (i1 + 1) (j1 - 1))"
  by pat_completeness auto
termination
proof (relation "measure (\<lambda>(lessf, data, i, j). nat (j + 1 - i))")
  show "wf (measure (\<lambda>(lessf :: 'a \<Rightarrow> 'a \<Rightarrow> bool, data :: 'a list, i :: int, j :: int).
                      nat (j + 1 - i)))"
    by simp
next
  fix lessf :: "'a \<Rightarrow> 'a \<Rightarrow> bool" and data :: "'a list" and i j i1 j1 :: int
  assume i1: "i1 = scanUp lessf data i j"
    and j1: "j1 = scanDown lessf data i1 j"
    and le: "\<not> j1 < i1"
  have up: "i \<le> scanUp lessf data i j"
    by (induction lessf data i j rule: scanUp.induct)
       (subst scanUp.simps, auto)
  have down: "scanDown lessf data i1 j \<le> j"
    by (induction lessf data i1 j rule: scanDown.induct)
       (subst scanDown.simps, auto)
  from up down i1 j1 le
  show "((lessf, Swap data i1 j1, i1 + 1, j1 - 1), lessf, data, i, j)
          \<in> measure (\<lambda>(lessf, data, i, j). nat (j + 1 - i))"
    by simp
qed

declare partitionLoop.simps [simp del]

definition partition_func ::
  "('a \<Rightarrow> 'a \<Rightarrow> bool) \<Rightarrow> 'a list \<Rightarrow> int \<Rightarrow> 'a list \<times> int \<times> bool" where
  "partition_func lessf data pivot =
     (let b = int (length data);
          d0 = Swap data 0 pivot;
          i = scanUp lessf d0 1 (b - 1);
          j = scanDown lessf d0 i (b - 1)
      in if i > j then (Swap d0 j 0, j, True)
         else case partitionLoop lessf (Swap d0 i j) (i + 1) (j - 1) of
                (d1, j1) \<Rightarrow> (Swap d1 j1 0, j1, False))"

text \<open>
  \<open>sort.Slice\<close> through \<open>pdqsort_func\<close>, for a slice of at most 13 elements: up to 12
  elements it is the insertion sort; with 13 it picks the pivot, returns at once when
  the slice is found in order, and otherwise partitions once and sorts both sides,
  each of at most 12 elements, by insertion. The recommendation table has 13 titles, so
  the program never sorts a longer slice; what the library does on one (pattern
  breaking, the heapsort fallback, the partition for equal elements) is not modelled,
  and \<open>None\<close> stands for it.
\<close>

definition reverseRange_func :: "'a list \<Rightarrow> 'a list" where
  "reverseRange_func data = rev data"

definition pdqsort_func :: "('a \<Rightarrow> 'a \<Rightarrow> bool) \<Rightarrow> 'a list \<Rightarrow> 'a list option" where
  "pdqsort_func lessf data =
     (if length data \<le> 12 then Some (insertionSort_func lessf data)
      else if length data > 13 then None
      else case choosePivot_func lessf data of (pivot0, hint0) \<Rightarrow>
        let d0 = (if hint0 = decreasingHint then reverseRange_func data else data);
            pivot = (if hint0 = decreasingHint then (int (length data) - 1) - pivot0 else pivot0);
            hint = (if hint0 = decreasingHint then increasingHint else hint0)
        in if hint = increasingHint \<and> partialInsertionSort_func lessf d0 then Some d0
           else case partition_func lessf d0 pivot of
                  (d1, mid, alreadyPartitioned) \<Rightarrow>
                    Some (insertionSort_func lessf (take (nat mid) d1)
                          @ (case drop (nat mid) d1 of
                               [] \<Rightarrow> []
                             | p # right \<Rightarrow> p # insertionSort_func lessf right)))"

text \<open>The sorter this gives; a slice outside the modelled range is handed back as it is.\<close>

definition goSortSlice :: sorter where
  "goSortSlice lessf data = (case pdqsort_func lessf data of Some d \<Rightarrow> d | None \<Rightarrow> data)"

section \<open>The cluster client\<close>

text \<open>
  A Go \<open>error\<close> value carries its message. A call returns \<open>Inl\<close> of the error or \<open>Inr\<close> of
  its result. A run-time panic (an index or slice bound out of range) is not an error
  value: where the source can panic the model returns an \<open>option\<close>, and \<open>None\<close> is the
  panic.
\<close>

datatype error = Error string

text \<open>
  The objects the API server returns beside pods: events and nodes, with the fields
  the client reads.
\<close>

record Event =
  E_Type :: string
  E_Reason :: string
  E_Message :: string
  E_Count :: int
  FirstTimestamp :: Time
  LastTimestamp :: Time
  Source_Component :: string

record NodeCondition =
  NC_Type :: string
  NC_Status :: string

record NodeV1 =
  Node_Conditions :: "NodeCondition list"

text \<open>
  \<open>kubernetes.Clientset\<close> is the transport to the cluster and outside the program. It
  is modelled by the answers it gives: to a pod lookup (namespace, name), a log request
  (namespace, pod, container, tail lines, previous), an event listing (namespace, field
  selector) and a node lookup (name). The same request gets the same answer throughout
  one diagnosis.
\<close>

record Clientset =
  Pods_Get :: "string \<Rightarrow> string \<Rightarrow> error + Pod"
  Pods_GetLogs :: "string \<Rightarrow> string \<Rightarrow> string \<Rightarrow> int \<Rightarrow> bool \<Rightarrow> error + string"
  Events_List :: "string \<Rightarrow> string \<Rightarrow> error + Event list"
  Nodes_Get :: "string \<Rightarrow> error + NodeV1"

definition GetPod :: "Clientset \<Rightarrow> string \<Rightarrow> string \<Rightarrow> error + Pod" where
  "GetPod c namespace name = Pods_Get c namespace name"

definition GetPodLogs ::
  "Clientset \<Rightarrow> string \<Rightarrow> string \<Rightarrow> string \<Rightarrow> int \<Rightarrow> bool \<Rightarrow> error + string" where
  "GetPodLogs c namespace name container tailLines previous =
     (case Pods_GetLogs c namespace name container tailLines previous of
        Inl err \<Rightarrow> Inl err
      | Inr result \<Rightarrow> Inr result)"

definition eventInfo :: "Event \<Rightarrow> EventInfo" where
  "eventInfo e =
     \<lparr>Ev_Type = E_Type e, Ev_Reason = E_Reason e, Ev_Message = E_Message e,
      Ev_Count = E_Count e, FirstSeen = FirstTimestamp e, LastSeen = LastTimestamp e,
      Source = Source_Component e\<rparr>"

definition GetPodEvents :: "Clientset \<Rightarrow> string \<Rightarrow> string \<Rightarrow> error + EventInfo list" where
  "GetPodEvents c namespace name =
     (let fieldSelector = ''involvedObject.name='' @ name @ '',involvedObject.namespace=''
                          @ namespace @ '',involvedObject.kind=Pod''
      in case Events_List c namespace fieldSelector of
           Inl err \<Rightarrow> Inl err
         | Inr events \<Rightarrow> Inr (map eventInfo events))"

definition GetNode :: "Clientset \<Rightarrow> string \<Rightarrow> error + NodeV1" where
  "GetNode c name = Nodes_Get c name"

definition nodeConditionStep :: "NodeHealth \<Rightarrow> NodeCondition \<Rightarrow> NodeHealth" where
  "nodeConditionStep health condition =
     (if NC_Type condition = ''Ready'' then health\<lparr>NH_Ready := (NC_Status condition = ''True'')\<rparr>
      else if NC_Type condition = ''MemoryPressure''
        then health\<lparr>MemoryPressure := (NC_Status condition = ''True'')\<rparr>
      else if NC_Type condition = ''DiskPressure''
        then health\<lparr>DiskPressure := (NC_Status condition = ''True'')\<rparr>
      else if NC_Type condition = ''PIDPressure''
        then health\<lparr>PIDPressure := (NC_Status condition = ''True'')\<rparr>
      else if NC_Type condition = ''NetworkUnavailable''
        then health\<lparr>NetworkUnavail := (NC_Status condition = ''True'')\<rparr>
      else health)"

definition GetNodeHealth :: "Clientset \<Rightarrow> string \<Rightarrow> error + NodeHealth" where
  "GetNodeHealth c nodeName =
     (case GetNode c nodeName of
        Inl err \<Rightarrow> Inl err
      | Inr node \<Rightarrow>
          Inr (foldl nodeConditionStep
                 \<lparr>NH_Name = nodeName, NH_Ready = False, MemoryPressure = False,
                  DiskPressure = False, PIDPressure = False, NetworkUnavail = False\<rparr>
                 (Node_Conditions node)))"

section \<open>Printing\<close>

text \<open>\<open>fmt.Sprintf\<close> with the verb \<open>%d\<close>: the decimal digits, with a minus sign if negative.\<close>

fun showNat :: "nat \<Rightarrow> string" where
  "showNat n =
     (if n < 10 then [''0123456789'' ! n]
      else showNat (n div 10) @ [''0123456789'' ! (n mod 10)])"

declare showNat.simps [simp del]

definition showInt :: "int \<Rightarrow> string" where
  "showInt i = (if i < 0 then ''-'' @ showNat (nat (- i)) else showNat (nat i))"

section \<open>Log analyzer\<close>

text \<open>
  The pattern table of \<open>NewLogAnalyzer\<close>. \<open>Pattern\<close> holds the source text of the regular
  expression that the program compiles; a backslash is written \<open>backslash\<close>.
\<close>

record errorPattern =
  Pattern :: string
  EP_Title :: string
  EP_Description :: string
  EP_Severity :: Severity

definition backslash :: string where
  "backslash = [CHR 0x5C]"

definition NewLogAnalyzer :: "errorPattern list" where
  "NewLogAnalyzer =
     [\<lparr>Pattern = ''(?i)panic:'', EP_Title = ''Panic detected'',
       EP_Description = ''Application panicked'', EP_Severity = SeverityCritical\<rparr>,
      \<lparr>Pattern = ''(?i)fatal'' @ backslash @ ''s*(error)?:'', EP_Title = ''Fatal error'',
       EP_Description = ''Fatal error occurred'', EP_Severity = SeverityCritical\<rparr>,
      \<lparr>Pattern = ''(?i)out'' @ backslash @ ''s*of'' @ backslash @ ''s*memory'',
       EP_Title = ''Out of memory'',
       EP_Description = ''Application ran out of memory'', EP_Severity = SeverityCritical\<rparr>,
      \<lparr>Pattern = ''(?i)killed'', EP_Title = ''Process killed'',
       EP_Description = ''Process was killed'', EP_Severity = SeverityWarning\<rparr>,
      \<lparr>Pattern = ''(?i)connection'' @ backslash @ ''s*refused'', EP_Title = ''Connection refused'',
       EP_Description = ''Cannot connect to a service'', EP_Severity = SeverityWarning\<rparr>,
      \<lparr>Pattern = ''(?i)ECONNREFUSED'', EP_Title = ''Connection refused'',
       EP_Description = ''TCP connection refused'', EP_Severity = SeverityWarning\<rparr>,
      \<lparr>Pattern = ''(?i)permission'' @ backslash @ ''s*denied'', EP_Title = ''Permission denied'',
       EP_Description = ''Insufficient permissions'', EP_Severity = SeverityWarning\<rparr>,
      \<lparr>Pattern = ''(?i)access'' @ backslash @ ''s*denied'', EP_Title = ''Access denied'',
       EP_Description = ''Access was denied'', EP_Severity = SeverityWarning\<rparr>,
      \<lparr>Pattern = ''(?i)no'' @ backslash @ ''s*such'' @ backslash @ ''s*file'',
       EP_Title = ''File not found'',
       EP_Description = ''Required file not found'', EP_Severity = SeverityWarning\<rparr>,
      \<lparr>Pattern = ''(?i)timeout|timed?'' @ backslash @ ''s*out'', EP_Title = ''Timeout'',
       EP_Description = ''Operation timed out'', EP_Severity = SeverityWarning\<rparr>,
      \<lparr>Pattern = ''(?i)deadline'' @ backslash @ ''s*exceeded'', EP_Title = ''Deadline exceeded'',
       EP_Description = ''Operation deadline was exceeded'', EP_Severity = SeverityWarning\<rparr>,
      \<lparr>Pattern = ''(?i)certificate'' @ backslash @ ''s*(verify|validation)'' @ backslash
                 @ ''s*failed'',
       EP_Title = ''Certificate error'',
       EP_Description = ''TLS certificate validation failed'', EP_Severity = SeverityWarning\<rparr>,
      \<lparr>Pattern = ''(?i)authentication'' @ backslash @ ''s*failed'', EP_Title = ''Auth failed'',
       EP_Description = ''Authentication failed'', EP_Severity = SeverityWarning\<rparr>,
      \<lparr>Pattern = ''(?i)unauthorized'', EP_Title = ''Unauthorized'',
       EP_Description = ''Unauthorized access attempt'', EP_Severity = SeverityWarning\<rparr>,
      \<lparr>Pattern = ''(?i)segmentation'' @ backslash @ ''s*fault'', EP_Title = ''Segfault'',
       EP_Description = ''Segmentation fault occurred'', EP_Severity = SeverityCritical\<rparr>,
      \<lparr>Pattern = ''(?i)stack'' @ backslash @ ''s*overflow'', EP_Title = ''Stack overflow'',
       EP_Description = ''Stack overflow error'', EP_Severity = SeverityCritical\<rparr>,
      \<lparr>Pattern = ''(?i)null'' @ backslash @ ''s*pointer'', EP_Title = ''Null pointer'',
       EP_Description = ''Null pointer exception'', EP_Severity = SeverityCritical\<rparr>]"

text \<open>
  \<open>truncateLine\<close>: \<open>len\<close> counts the bytes of the line, and the slice \<open>line[:maxLen-3]\<close>
  panics when \<open>maxLen - 3\<close> is negative.
\<close>

definition truncateLine :: "string \<Rightarrow> int \<Rightarrow> string option" where
  "truncateLine line maxLen =
     (if int (length line) \<le> maxLen then Some line
      else if maxLen - 3 < 0 then None
      else Some (take (nat (maxLen - 3)) line @ ''...''))"

text \<open>\<open>strings.Split(logs, "\n")\<close>: the pieces between the newline bytes.\<close>

fun strings_Split :: "string \<Rightarrow> string list" where
  "strings_Split [] = [[]]"
| "strings_Split (c # rest) =
     (case strings_Split rest of
        [] \<Rightarrow> (if c = CHR 0x0A then [[], []] else [[c]])
      | piece # pieces \<Rightarrow>
          if c = CHR 0x0A then [] # piece # pieces else (c # piece) # pieces)"

text \<open>
  \<open>regexp.MatchString\<close> and \<open>strings.TrimSpace\<close> are library functions outside the
  repository: parameters \<open>MatchString\<close> (pattern source, line) and \<open>TrimSpace\<close> of the
  model. \<open>matchedPatterns\<close> is a Go map from pattern title to the samples stored under
  it; appending to a missing key starts from the empty slice.
\<close>

type_synonym matchMap = "string \<rightharpoonup> string list"

fun matchLine ::
  "(string \<Rightarrow> string \<Rightarrow> bool) \<Rightarrow> errorPattern list \<Rightarrow> string \<Rightarrow> matchMap \<Rightarrow> matchMap option" where
  "matchLine MatchString [] line matchedPatterns = Some matchedPatterns"
| "matchLine MatchString (pattern # rest) line matchedPatterns =
     (if MatchString (Pattern pattern) line then
        (case truncateLine line 200 of
           None \<Rightarrow> None
         | Some sample \<Rightarrow>
             matchLine MatchString rest line
               (matchedPatterns(EP_Title pattern \<mapsto>
                  (case matchedPatterns (EP_Title pattern) of None \<Rightarrow> [] | Some old \<Rightarrow> old)
                  @ [sample])))
      else matchLine MatchString rest line matchedPatterns)"

fun scanLines ::
  "(string \<Rightarrow> string \<Rightarrow> bool) \<Rightarrow> (string \<Rightarrow> string) \<Rightarrow> errorPattern list
     \<Rightarrow> string list \<Rightarrow> matchMap \<Rightarrow> matchMap option" where
  "scanLines MatchString TrimSpace patterns [] matchedPatterns = Some matchedPatterns"
| "scanLines MatchString TrimSpace patterns (line # rest) matchedPatterns =
     (if TrimSpace line = [] then scanLines MatchString TrimSpace patterns rest matchedPatterns
      else case matchLine MatchString patterns line matchedPatterns of
             None \<Rightarrow> None
           | Some m \<Rightarrow> scanLines MatchString TrimSpace patterns rest m)"

text \<open>The issue for one matched pattern; \<open>matches[0]\<close> panics on an empty slice.\<close>

definition patternIssue :: "string \<Rightarrow> errorPattern \<Rightarrow> string list \<Rightarrow> Issue option" where
  "patternIssue containerName pattern matches =
     (case matches of
        [] \<Rightarrow> None
      | sample # _ \<Rightarrow>
          Some \<lparr>Severity = EP_Severity pattern,
                Category = ''logs'',
                Title = ''['' @ containerName @ ''] '' @ EP_Title pattern,
                Description = EP_Description pattern,
                Details =
                  (let details = [''container'' \<mapsto> containerName,
                                  ''match_count'' \<mapsto> showInt (int (length matches)),
                                  ''sample_match'' \<mapsto> sample]
                   in if length matches > 1
                      then details(''additional_matches'' \<mapsto>
                             showInt (int (length matches) - 1) @ '' more occurrences'')
                      else details)\<rparr>)"

fun emitIssues :: "string \<Rightarrow> matchMap \<Rightarrow> errorPattern list \<Rightarrow> Issue list \<Rightarrow> Issue list option" where
  "emitIssues containerName matchedPatterns [] issues = Some issues"
| "emitIssues containerName matchedPatterns (pattern # rest) issues =
     (case matchedPatterns (EP_Title pattern) of
        None \<Rightarrow> emitIssues containerName matchedPatterns rest issues
      | Some matches \<Rightarrow>
          (case patternIssue containerName pattern matches of
             None \<Rightarrow> None
           | Some issue \<Rightarrow> emitIssues containerName matchedPatterns rest (issues @ [issue])))"

definition analyzeContainerLogs ::
  "(string \<Rightarrow> string \<Rightarrow> bool) \<Rightarrow> (string \<Rightarrow> string) \<Rightarrow> errorPattern list \<Rightarrow> Clientset
     \<Rightarrow> string \<Rightarrow> string \<Rightarrow> string \<Rightarrow> bool \<Rightarrow> (error + Issue list) option" where
  "analyzeContainerLogs MatchString TrimSpace patterns client namespace podName containerName previous =
     (case GetPodLogs client namespace podName containerName 100 previous of
        Inl err \<Rightarrow> Some (Inl err)
      | Inr logs \<Rightarrow>
          if logs = [] then Some (Inr [])
          else case scanLines MatchString TrimSpace patterns (strings_Split logs) Map.empty of
                 None \<Rightarrow> None
               | Some matchedPatterns \<Rightarrow>
                   map_option Inr (emitIssues containerName matchedPatterns patterns []))"

text \<open>
  \<open>LogAnalyzer.Analyze\<close>: the loop over the containers. The error of the second attempt
  is discarded, and what that attempt returned beside it (nil) is appended.
\<close>

fun logContainers ::
  "(string \<Rightarrow> string \<Rightarrow> bool) \<Rightarrow> (string \<Rightarrow> string) \<Rightarrow> errorPattern list \<Rightarrow> Clientset
     \<Rightarrow> Pod \<Rightarrow> Container list \<Rightarrow> Issue list \<Rightarrow> Issue list option" where
  "logContainers MatchString TrimSpace patterns client pod [] issues = Some issues"
| "logContainers MatchString TrimSpace patterns client pod (container # rest) issues =
     (case analyzeContainerLogs MatchString TrimSpace patterns client
             (Pod_Namespace pod) (Pod_Name pod) (C_Name container) False of
        None \<Rightarrow> None
      | Some (Inr containerIssues) \<Rightarrow>
          logContainers MatchString TrimSpace patterns client pod rest (issues @ containerIssues)
      | Some (Inl err) \<Rightarrow>
          (case analyzeContainerLogs MatchString TrimSpace patterns client
                  (Pod_Namespace pod) (Pod_Name pod) (C_Name container) True of
             None \<Rightarrow> None
           | Some (Inr containerIssues) \<Rightarrow>
               logContainers MatchString TrimSpace patterns client pod rest (issues @ containerIssues)
           | Some (Inl err2) \<Rightarrow>
               logContainers MatchString TrimSpace patterns client pod rest (issues @ [])))"

definition LogAnalyzer_Analyze ::
  "(string \<Rightarrow> string \<Rightarrow> bool) \<Rightarrow> (string \<Rightarrow> string) \<Rightarrow> errorPattern list
     \<Rightarrow> Pod \<Rightarrow> Clientset \<Rightarrow> (error + Issue list) option" where
  "LogAnalyzer_Analyze MatchString TrimSpace patterns pod client =
     map_option Inr
       (logContainers MatchString TrimSpace patterns client pod (Containers (Spec pod)) [])"

section \<open>Status analyzer\<close>

definition waitingIssues :: "ContainerStatus \<Rightarrow> ContainerStateWaiting \<Rightarrow> Issue list" where
  "waitingIssues cs waiting =
     (if Waiting_Reason waiting = ''CrashLoopBackOff'' then
        [\<lparr>Severity = SeverityCritical, Category = ''container'',
          Title = ''Container '' @ CS_Name cs @ '' in CrashLoopBackOff'',
          Description = ''Container is repeatedly crashing after starting'',
          Details = [''container'' \<mapsto> CS_Name cs,
                     ''reason'' \<mapsto> Waiting_Reason waiting,
                     ''message'' \<mapsto> Waiting_Message waiting,
                     ''restart_count'' \<mapsto> showInt (RestartCount cs)]\<rparr>]
      else if Waiting_Reason waiting = ''ImagePullBackOff'' \<or> Waiting_Reason waiting = ''ErrImagePull'' then
        [\<lparr>Severity = SeverityCritical, Category = ''container'',
          Title = ''Cannot pull image for '' @ CS_Name cs,
          Description = Waiting_Message waiting,
          Details = [''container'' \<mapsto> CS_Name cs,
                     ''reason'' \<mapsto> Waiting_Reason waiting,
                     ''image'' \<mapsto> CS_Image cs]\<rparr>]
      else if Waiting_Reason waiting = ''CreateContainerConfigError'' then
        [\<lparr>Severity = SeverityCritical, Category = ''container'',
          Title = ''Config error for '' @ CS_Name cs,
          Description = Waiting_Message waiting,
          Details = [''container'' \<mapsto> CS_Name cs,
                     ''reason'' \<mapsto> Waiting_Reason waiting]\<rparr>]
      else if Waiting_Reason waiting = ''CreateContainerError'' then
        [\<lparr>Severity = SeverityCritical, Category = ''container'',
          Title = ''Cannot create container '' @ CS_Name cs,
          Description = Waiting_Message waiting,
          Details = [''container'' \<mapsto> CS_Name cs,
                     ''reason'' \<mapsto> Waiting_Reason waiting]\<rparr>]
      else if Waiting_Reason waiting \<noteq> [] \<and> Waiting_Reason waiting \<noteq> ''ContainerCreating''
              \<and> Waiting_Reason waiting \<noteq> ''PodInitializing'' then
        [\<lparr>Severity = SeverityWarning, Category = ''container'',
          Title = ''Container '' @ CS_Name cs @ '' waiting: '' @ Waiting_Reason waiting,
          Description = Waiting_Message waiting,
          Details = [''container'' \<mapsto> CS_Name cs,
                     ''reason'' \<mapsto> Waiting_Reason waiting]\<rparr>]
      else [])"

definition lastTerminationIssues :: "ContainerStatus \<Rightarrow> ContainerStateTerminated \<Rightarrow> Issue list" where
  "lastTerminationIssues cs terminated =
     (if Terminated_Reason terminated = ''OOMKilled'' then
        [\<lparr>Severity = SeverityCritical, Category = ''resources'',
          Title = ''Container '' @ CS_Name cs @ '' was OOMKilled'',
          Description = ''Container exceeded memory limit and was killed'',
          Details = [''container'' \<mapsto> CS_Name cs,
                     ''reason'' \<mapsto> ''OOMKilled'',
                     ''exit_code'' \<mapsto> showInt (Terminated_ExitCode terminated)]\<rparr>]
      else if Terminated_ExitCode terminated \<noteq> 0 then
        [\<lparr>Severity = SeverityWarning, Category = ''container'',
          Title = ''Container '' @ CS_Name cs @ '' exited with code ''
                  @ showInt (Terminated_ExitCode terminated),
          Description = Terminated_Message terminated,
          Details = [''container'' \<mapsto> CS_Name cs,
                     ''reason'' \<mapsto> Terminated_Reason terminated,
                     ''exit_code'' \<mapsto> showInt (Terminated_ExitCode terminated)]\<rparr>]
      else [])"

definition terminatedIssues :: "ContainerStatus \<Rightarrow> ContainerStateTerminated \<Rightarrow> Issue list" where
  "terminatedIssues cs terminated =
     (if Terminated_ExitCode terminated \<noteq> 0 then
        [\<lparr>Severity = SeverityCritical, Category = ''container'',
          Title = ''Container '' @ CS_Name cs @ '' terminated with exit code ''
                  @ showInt (Terminated_ExitCode terminated),
          Description = Terminated_Message terminated,
          Details = [''container'' \<mapsto> CS_Name cs,
                     ''reason'' \<mapsto> Terminated_Reason terminated,
                     ''exit_code'' \<mapsto> showInt (Terminated_ExitCode terminated)]\<rparr>]
      else [])"

definition Status_analyzeContainerStatus :: "ContainerStatus \<Rightarrow> Issue list" where
  "Status_analyzeContainerStatus cs =
     (case Waiting (State cs) of None \<Rightarrow> [] | Some waiting \<Rightarrow> waitingIssues cs waiting)
     @ (case Terminated (LastTerminationState cs) of
          None \<Rightarrow> []
        | Some terminated \<Rightarrow> lastTerminationIssues cs terminated)
     @ (case Terminated (State cs) of
          None \<Rightarrow> []
        | Some terminated \<Rightarrow> terminatedIssues cs terminated)"

definition analyzeInitContainerStatus :: "ContainerStatus \<Rightarrow> Issue list" where
  "analyzeInitContainerStatus cs =
     (case Waiting (State cs) of
        None \<Rightarrow> []
      | Some waiting \<Rightarrow>
          if Waiting_Reason waiting \<noteq> [] then
            [\<lparr>Severity = SeverityWarning, Category = ''container'',
              Title = ''Init container '' @ CS_Name cs @ '' waiting: '' @ Waiting_Reason waiting,
              Description = Waiting_Message waiting,
              Details = [''container'' \<mapsto> CS_Name cs,
                         ''type'' \<mapsto> ''init'',
                         ''reason'' \<mapsto> Waiting_Reason waiting]\<rparr>]
          else [])
     @ (case Terminated (State cs) of
          None \<Rightarrow> []
        | Some terminated \<Rightarrow>
            if Terminated_ExitCode terminated \<noteq> 0 then
              [\<lparr>Severity = SeverityCritical, Category = ''container'',
                Title = ''Init container '' @ CS_Name cs @ '' failed'',
                Description = ''Exit code: '' @ showInt (Terminated_ExitCode terminated)
                              @ '' - '' @ Terminated_Message terminated,
                Details = [''container'' \<mapsto> CS_Name cs,
                           ''type'' \<mapsto> ''init'',
                           ''exit_code'' \<mapsto> showInt (Terminated_ExitCode terminated)]\<rparr>]
            else [])"

definition conditionIssues :: "Pod \<Rightarrow> PodCondition \<Rightarrow> Issue list" where
  "conditionIssues pod cond =
     (if Cond_Type cond = ''PodScheduled'' then
        (if Cond_Status cond = ''False'' then
           [\<lparr>Severity = SeverityCritical, Category = ''scheduling'',
             Title = ''Pod cannot be scheduled'',
             Description = Cond_Message cond,
             Details = [''reason'' \<mapsto> Cond_Reason cond]\<rparr>]
         else [])
      else if Cond_Type cond = ''Ready'' then
        (if Cond_Status cond = ''False'' \<and> Phase (Status pod) = ''Running'' then
           [\<lparr>Severity = SeverityWarning, Category = ''container'',
             Title = ''Pod is not ready'',
             Description = Cond_Message cond,
             Details = [''reason'' \<mapsto> Cond_Reason cond]\<rparr>]
         else [])
      else if Cond_Type cond = ''ContainersReady'' then
        (if Cond_Status cond = ''False'' \<and> Phase (Status pod) = ''Running'' then
           [\<lparr>Severity = SeverityWarning, Category = ''container'',
             Title = ''Containers not ready'',
             Description = Cond_Message cond,
             Details = [''reason'' \<mapsto> Cond_Reason cond]\<rparr>]
         else [])
      else [])"

definition analyzePodConditions :: "Pod \<Rightarrow> Issue list" where
  "analyzePodConditions pod =
     concat (map (conditionIssues pod) (Conditions (Status pod)))
     @ (if Phase (Status pod) = ''Failed'' \<and> Status_Reason (Status pod) = ''Evicted'' then
          [\<lparr>Severity = SeverityCritical, Category = ''resources'',
            Title = ''Pod was evicted'',
            Description = Status_Message (Status pod),
            Details = [''reason'' \<mapsto> ''Evicted'']\<rparr>]
        else [])"

definition highRestartIssues :: "ContainerStatus \<Rightarrow> Issue list" where
  "highRestartIssues cs =
     (if RestartCount cs > 5 then
        [\<lparr>Severity = SeverityWarning, Category = ''container'',
          Title = ''High restart count for '' @ CS_Name cs,
          Description = ''Container has restarted '' @ showInt (RestartCount cs) @ '' times'',
          Details = [''container'' \<mapsto> CS_Name cs,
                     ''restart_count'' \<mapsto> showInt (RestartCount cs)]\<rparr>]
      else [])"

definition StatusAnalyzer_Analyze :: "Pod \<Rightarrow> Clientset \<Rightarrow> error + Issue list" where
  "StatusAnalyzer_Analyze pod client =
     Inr (concat (map Status_analyzeContainerStatus (ContainerStatuses (Status pod)))
          @ concat (map analyzeInitContainerStatus (InitContainerStatuses (Status pod)))
          @ analyzePodConditions pod
          @ concat (map highRestartIssues (ContainerStatuses (Status pod))))"

section \<open>Event analyzer\<close>

text \<open>
  \<open>time.Time.Format\<close> is a library function outside the repository: the parameter
  \<open>Format\<close> (time, layout) of the model.
\<close>

definition formatCount :: "int \<Rightarrow> string" where
  "formatCount n = (if n \<le> 1 then ''1'' else showInt n @ '' times'')"

definition eventSeverity :: "string \<Rightarrow> Severity" where
  "eventSeverity reason =
     (if reason = ''Failed'' \<or> reason = ''FailedScheduling'' \<or> reason = ''FailedMount''
         \<or> reason = ''FailedAttachVolume'' then SeverityCritical
      else if reason = ''Unhealthy'' \<or> reason = ''ProbeWarning'' then SeverityWarning
      else if reason = ''BackOff'' then SeverityCritical
      else SeverityWarning)"

definition eventCategory :: "string \<Rightarrow> string" where
  "eventCategory reason =
     (if strings_Contains reason ''Scheduling'' then ''scheduling''
      else if strings_Contains reason ''Volume'' \<or> strings_Contains reason ''Mount'' then ''storage''
      else if strings_Contains reason ''Probe'' \<or> reason = ''Unhealthy'' then ''health''
      else if strings_Contains reason ''Pull'' then ''container''
      else if strings_Contains reason ''OOM'' then ''resources''
      else ''events'')"

definition analyzeWarningEvent :: "(Time \<Rightarrow> string \<Rightarrow> string) \<Rightarrow> EventInfo \<Rightarrow> Issue option" where
  "analyzeWarningEvent Format event =
     (let severity = eventSeverity (Ev_Reason event);
          category = eventCategory (Ev_Reason event)
      in if Ev_Reason event = ''Scheduled'' \<or> Ev_Reason event = ''Pulled''
            \<or> Ev_Reason event = ''Created'' \<or> Ev_Reason event = ''Started'' then None
         else Some \<lparr>Severity = severity, Category = category,
                     Title = Ev_Reason event,
                     Description = Ev_Message event,
                     Details = [''count'' \<mapsto> formatCount (Ev_Count event),
                                ''source'' \<mapsto> Source event,
                                ''last_seen'' \<mapsto> Format (LastSeen event) ''2006-01-02 15:04:05'']\<rparr>)"

definition eventIssues :: "(Time \<Rightarrow> string \<Rightarrow> string) \<Rightarrow> EventInfo \<Rightarrow> Issue list" where
  "eventIssues Format event =
     (if Ev_Type event = ''Warning'' then
        (case analyzeWarningEvent Format event of None \<Rightarrow> [] | Some issue \<Rightarrow> [issue])
      else [])"

definition EventAnalyzer_Analyze ::
  "(Time \<Rightarrow> string \<Rightarrow> string) \<Rightarrow> Pod \<Rightarrow> Clientset \<Rightarrow> error + Issue list" where
  "EventAnalyzer_Analyze Format pod client =
     (case GetPodEvents client (Pod_Namespace pod) (Pod_Name pod) of
        Inl err \<Rightarrow> Inl err
      | Inr events \<Rightarrow> Inr (concat (map (eventIssues Format) events)))"

section \<open>Node analyzer\<close>

definition nodeIssue :: "Severity \<Rightarrow> string \<Rightarrow> string \<Rightarrow> (string \<rightharpoonup> string) \<Rightarrow> Issue" where
  "nodeIssue severity title description details =
     \<lparr>Severity = severity, Category = ''node'', Title = title, Description = description,
      Details = details\<rparr>"

definition NodeAnalyzer_Analyze :: "Pod \<Rightarrow> Clientset \<Rightarrow> error + Issue list" where
  "NodeAnalyzer_Analyze pod client =
     (if NodeName (Spec pod) = [] then Inr []
      else case GetNodeHealth client (NodeName (Spec pod)) of
             Inl err \<Rightarrow> Inl err
           | Inr nodeHealth \<Rightarrow>
               Inr ((if \<not> NH_Ready nodeHealth then
                       [nodeIssue SeverityCritical
                          (''Node '' @ NH_Name nodeHealth @ '' is not ready'')
                          ''The node where this pod is running is not in Ready state''
                          [''node'' \<mapsto> NH_Name nodeHealth]]
                     else [])
                    @ (if MemoryPressure nodeHealth then
                         [nodeIssue SeverityWarning
                            (''Node '' @ NH_Name nodeHealth @ '' has memory pressure'')
                            ''The node is experiencing memory pressure, which may cause pod evictions''
                            [''node'' \<mapsto> NH_Name nodeHealth, ''condition'' \<mapsto> ''MemoryPressure'']]
                       else [])
                    @ (if DiskPressure nodeHealth then
                         [nodeIssue SeverityWarning
                            (''Node '' @ NH_Name nodeHealth @ '' has disk pressure'')
                            ''The node is running low on disk space''
                            [''node'' \<mapsto> NH_Name nodeHealth, ''condition'' \<mapsto> ''DiskPressure'']]
                       else [])
                    @ (if PIDPressure nodeHealth then
                         [nodeIssue SeverityWarning
                            (''Node '' @ NH_Name nodeHealth @ '' has PID pressure'')
                            ''The node is running low on process IDs''
                            [''node'' \<mapsto> NH_Name nodeHealth, ''condition'' \<mapsto> ''PIDPressure'']]
                       else [])
                    @ (if NetworkUnavail nodeHealth then
                         [nodeIssue SeverityCritical
                            (''Node '' @ NH_Name nodeHealth @ '' network unavailable'')
                            (''The node'' @ [CHR 0x27] @ ''s network is not properly configured'')
                            [''node'' \<mapsto> NH_Name nodeHealth, ''condition'' \<mapsto> ''NetworkUnavailable'']]
                       else [])))"

section \<open>Resource analyzer\<close>

text \<open>
  \<open>ResourceList.Memory()\<close> and \<open>ResourceList.Cpu()\<close> return the entry of that name, or a
  zero quantity when the list has none; they never return nil, so the source's nil
  tests are always passed and are not repeated here.
\<close>

definition zeroQuantity :: Quantity where
  "zeroQuantity = \<lparr>Q_Value = 0, Q_String = ''0''\<rparr>"

definition resourceName :: "ResourceList \<Rightarrow> string \<Rightarrow> Quantity" where
  "resourceName rl name = (case map_of rl name of Some val \<Rightarrow> val | None \<Rightarrow> zeroQuantity)"

definition Memory :: "ResourceList \<Rightarrow> Quantity" where
  "Memory rl = resourceName rl ''memory''"

definition Cpu :: "ResourceList \<Rightarrow> Quantity" where
  "Cpu rl = resourceName rl ''cpu''"

definition IsZero :: "Quantity \<Rightarrow> bool" where
  "IsZero q = (Q_Value q = 0)"

definition Cmp :: "Quantity \<Rightarrow> Quantity \<Rightarrow> int" where
  "Cmp q y = (if Q_Value q < Q_Value y then - 1 else if Q_Value q = Q_Value y then 0 else 1)"

text \<open>\<open>resource.MustParse\<close> of the two floors: 64Mi is \<open>64 * 2^20\<close>, 50m is \<open>50 / 1000\<close>.\<close>

definition minMemory :: Quantity where
  "minMemory = \<lparr>Q_Value = 67108864, Q_String = ''64Mi''\<rparr>"

definition minCPU :: Quantity where
  "minCPU = \<lparr>Q_Value = 1 / 20, Q_String = ''50m''\<rparr>"

definition isGuaranteedQoS :: "ResourceRequirements \<Rightarrow> bool" where
  "isGuaranteedQoS resources =
     (let cpuLimit = Cpu (Limits resources);
          cpuRequest = Cpu (Requests resources);
          memLimit = Memory (Limits resources);
          memRequest = Memory (Requests resources)
      in if IsZero cpuLimit \<or> IsZero memLimit then False
         else Cmp cpuLimit cpuRequest = 0 \<and> Cmp memLimit memRequest = 0)"

definition isBurstableQoS :: "ResourceRequirements \<Rightarrow> bool" where
  "isBurstableQoS resources =
     ((length (Requests resources) > 0 \<or> length (Limits resources) > 0)
      \<and> \<not> isGuaranteedQoS resources)"

definition resourceIssue :: "Severity \<Rightarrow> string \<Rightarrow> string \<Rightarrow> (string \<rightharpoonup> string) \<Rightarrow> Issue" where
  "resourceIssue severity title description details =
     \<lparr>Severity = severity, Category = ''resources'', Title = title, Description = description,
      Details = details\<rparr>"

definition memoryIssues :: "Container \<Rightarrow> Issue list" where
  "memoryIssues container =
     (let memLimit = Memory (Limits (Resources container));
          memRequest = Memory (Requests (Resources container))
      in if \<not> IsZero memLimit then
           (if Cmp memLimit minMemory < 0 then
              [resourceIssue SeverityWarning (''Low memory limit for '' @ C_Name container)
                 ''Memory limit is very low and may cause OOMKill''
                 [''container'' \<mapsto> C_Name container,
                  ''memory_limit'' \<mapsto> Q_String memLimit,
                  ''minimum_recommended'' \<mapsto> ''64Mi'']]
            else [])
           @ (if \<not> IsZero memRequest \<and> Cmp memRequest memLimit > 0 then
                [resourceIssue SeverityWarning (''Memory request > limit for '' @ C_Name container)
                   ''Memory request exceeds limit, request will be set to limit''
                   [''container'' \<mapsto> C_Name container,
                    ''memory_request'' \<mapsto> Q_String memRequest,
                    ''memory_limit'' \<mapsto> Q_String memLimit]]
              else [])
         else [])"

definition cpuIssues :: "Container \<Rightarrow> Issue list" where
  "cpuIssues container =
     (let cpuLimit = Cpu (Limits (Resources container));
          cpuRequest = Cpu (Requests (Resources container))
      in if \<not> IsZero cpuLimit then
           (if Cmp cpuLimit minCPU < 0 then
              [resourceIssue SeverityWarning (''Very low CPU limit for '' @ C_Name container)
                 ''CPU limit is very low and may cause severe throttling''
                 [''container'' \<mapsto> C_Name container,
                  ''cpu_limit'' \<mapsto> Q_String cpuLimit,
                  ''minimum_recommended'' \<mapsto> ''50m'']]
            else [])
           @ (if \<not> IsZero cpuRequest \<and> Cmp cpuRequest cpuLimit > 0 then
                [resourceIssue SeverityWarning (''CPU request > limit for '' @ C_Name container)
                   ''CPU request exceeds limit, request will be set to limit''
                   [''container'' \<mapsto> C_Name container,
                    ''cpu_request'' \<mapsto> Q_String cpuRequest,
                    ''cpu_limit'' \<mapsto> Q_String cpuLimit]]
              else [])
         else [])"

definition analyzeContainer :: "Container \<Rightarrow> Issue list" where
  "analyzeContainer container =
     (if length (Limits (Resources container)) = 0 then
        [resourceIssue SeverityWarning (''No resource limits for '' @ C_Name container)
           ''Container has no resource limits set, which may lead to resource contention''
           [''container'' \<mapsto> C_Name container,
            ''recommendation'' \<mapsto> ''Set CPU and memory limits to prevent resource starvation'']]
      else [])
     @ (if length (Requests (Resources container)) = 0 then
          [resourceIssue SeverityInfo (''No resource requests for '' @ C_Name container)
             ''Container has no resource requests set, which may affect scheduling''
             [''container'' \<mapsto> C_Name container,
              ''recommendation'' \<mapsto> ''Set resource requests for better scheduling decisions'']]
        else [])
     @ memoryIssues container
     @ cpuIssues container
     @ (if isGuaranteedQoS (Resources container) then []
        else if isBurstableQoS (Resources container) then []
        else
          [resourceIssue SeverityWarning (''BestEffort QoS for '' @ C_Name container)
             ''Container has BestEffort QoS class and will be first to be evicted under memory pressure''
             [''container'' \<mapsto> C_Name container,
              ''qos_class'' \<mapsto> ''BestEffort'']])"

definition ResourceAnalyzer_Analyze :: "Pod \<Rightarrow> Clientset \<Rightarrow> error + Issue list" where
  "ResourceAnalyzer_Analyze pod client =
     Inr (concat (map analyzeContainer (Containers (Spec pod)))
          @ concat (map analyzeContainer (InitContainers (Spec pod))))"

section \<open>Probe analyzer\<close>

definition probeIssue :: "Severity \<Rightarrow> string \<Rightarrow> string \<Rightarrow> (string \<rightharpoonup> string) \<Rightarrow> Issue" where
  "probeIssue severity title description details =
     \<lparr>Severity = severity, Category = ''probes'', Title = title, Description = description,
      Details = details\<rparr>"

definition analyzeLivenessProbe :: "string \<Rightarrow> Probe \<Rightarrow> Issue list" where
  "analyzeLivenessProbe containerName probe =
     (if PeriodSeconds probe > 0 \<and> PeriodSeconds probe < 5 then
        [probeIssue SeverityWarning (''Aggressive liveness probe for '' @ containerName)
           ''Liveness probe runs very frequently, may cause unnecessary restarts''
           [''container'' \<mapsto> containerName,
            ''period'' \<mapsto> showInt (PeriodSeconds probe) @ ''s'',
            ''recommendation'' \<mapsto> ''Consider increasing periodSeconds to at least 10s'']]
      else [])
     @ (if FailureThreshold probe > 0 \<and> FailureThreshold probe < 3 then
          [probeIssue SeverityWarning (''Low liveness failureThreshold for '' @ containerName)
             ''Container will restart after very few probe failures''
             [''container'' \<mapsto> containerName,
              ''failure_threshold'' \<mapsto> showInt (FailureThreshold probe),
              ''recommendation'' \<mapsto> ''Consider increasing failureThreshold to at least 3'']]
        else [])
     @ (if TimeoutSeconds probe > 0 \<and> TimeoutSeconds probe < 2 then
          [probeIssue SeverityInfo (''Short liveness timeout for '' @ containerName)
             ''Liveness probe timeout is very short''
             [''container'' \<mapsto> containerName,
              ''timeout'' \<mapsto> showInt (TimeoutSeconds probe) @ ''s'',
              ''recommendation'' \<mapsto>
                 ''Consider increasing timeoutSeconds if probe target may be slow'']]
        else [])"

definition analyzeReadinessProbe :: "string \<Rightarrow> Probe \<Rightarrow> Issue list" where
  "analyzeReadinessProbe containerName probe =
     (if InitialDelaySeconds probe > 60 then
        [probeIssue SeverityInfo (''Long readiness initialDelaySeconds for '' @ containerName)
           (''Readiness probe starts very late, pod won'' @ [CHR 0x27]
            @ ''t receive traffic for a while'')
           [''container'' \<mapsto> containerName,
            ''initial_delay'' \<mapsto> showInt (InitialDelaySeconds probe) @ ''s'']]
      else [])"

definition analyzeStartupProbe :: "string \<Rightarrow> Probe \<Rightarrow> Issue list" where
  "analyzeStartupProbe containerName probe =
     (let maxStartupTime = FailureThreshold probe * PeriodSeconds probe
      in if maxStartupTime > 0 \<and> maxStartupTime < 30 then
           [probeIssue SeverityWarning (''Short startup window for '' @ containerName)
              ''Startup probe allows very little time for container to start''
              [''container'' \<mapsto> containerName,
               ''max_startup_time'' \<mapsto> showInt maxStartupTime @ ''s'',
               ''recommendation'' \<mapsto> ''Increase failureThreshold or periodSeconds'']]
         else [])"

definition analyzeContainerProbes :: "Container \<Rightarrow> Issue list" where
  "analyzeContainerProbes container =
     (let hasLiveness = (LivenessProbe container \<noteq> None);
          hasReadiness = (ReadinessProbe container \<noteq> None);
          hasStartup = (StartupProbe container \<noteq> None)
      in (if \<not> hasLiveness \<and> \<not> hasReadiness then
            [probeIssue SeverityInfo (''No health probes for '' @ C_Name container)
               ''Container has no liveness or readiness probes configured''
               [''container'' \<mapsto> C_Name container,
                ''recommendation'' \<mapsto> ''Consider adding probes for better health monitoring'']]
          else [])
         @ (case LivenessProbe container of
              None \<Rightarrow> []
            | Some probe \<Rightarrow> analyzeLivenessProbe (C_Name container) probe)
         @ (case ReadinessProbe container of
              None \<Rightarrow> []
            | Some probe \<Rightarrow> analyzeReadinessProbe (C_Name container) probe)
         @ (case StartupProbe container of
              None \<Rightarrow> []
            | Some probe \<Rightarrow> analyzeStartupProbe (C_Name container) probe)
         @ (case LivenessProbe container of
              None \<Rightarrow> []
            | Some liveness \<Rightarrow>
                if \<not> hasStartup \<and> InitialDelaySeconds liveness < 10 then
                  [probeIssue SeverityWarning
                     (''Low liveness initialDelaySeconds for '' @ C_Name container)
                     ''Liveness probe starts very early, may kill slow-starting containers''
                     [''container'' \<mapsto> C_Name container,
                      ''initial_delay'' \<mapsto> showInt (InitialDelaySeconds liveness) @ ''s'',
                      ''recommendation'' \<mapsto>
                         ''Consider using a startupProbe or increasing initialDelaySeconds'']]
                else []))"

definition probeEventIssues :: "(Time \<Rightarrow> string \<Rightarrow> string) \<Rightarrow> EventInfo \<Rightarrow> Issue list" where
  "probeEventIssues Format event =
     (if Ev_Type event \<noteq> ''Warning'' then []
      else if Ev_Reason event = ''Unhealthy'' then
        (let probeType =
               (if strings_Contains (Ev_Message event) ''Liveness'' then ''Liveness''
                else if strings_Contains (Ev_Message event) ''Readiness'' then ''Readiness''
                else if strings_Contains (Ev_Message event) ''Startup'' then ''Startup''
                else ''Unknown'');
             severity =
               (if strings_Contains (Ev_Message event) ''Liveness'' then SeverityCritical
                else if strings_Contains (Ev_Message event) ''Readiness'' then SeverityWarning
                else if strings_Contains (Ev_Message event) ''Startup'' then SeverityCritical
                else SeverityWarning)
         in [probeIssue severity (probeType @ '' probe failed'') (Ev_Message event)
               [''probe_type'' \<mapsto> probeType,
                ''count'' \<mapsto> showInt (Ev_Count event),
                ''last_seen'' \<mapsto> Format (LastSeen event) ''15:04:05'']])
      else [])"

definition analyzeProbeEvents :: "(Time \<Rightarrow> string \<Rightarrow> string) \<Rightarrow> EventInfo list \<Rightarrow> Issue list" where
  "analyzeProbeEvents Format events = concat (map (probeEventIssues Format) events)"

definition Probe_analyzeContainerStatus :: "ContainerStatus \<Rightarrow> Issue list" where
  "Probe_analyzeContainerStatus cs =
     (if \<not> Ready cs \<and> Running (State cs) \<noteq> None then
        [probeIssue SeverityWarning (''Container '' @ CS_Name cs @ '' running but not ready'')
           ''Container is running but readiness probe is failing''
           [''container'' \<mapsto> CS_Name cs, ''state'' \<mapsto> ''running'', ''ready'' \<mapsto> ''false'']]
      else [])
     @ (case Terminated (LastTerminationState cs) of
          None \<Rightarrow> []
        | Some terminated \<Rightarrow>
            if RestartCount cs > 0 \<and> Terminated_ExitCode terminated = 137 then
              [probeIssue SeverityWarning (''Container '' @ CS_Name cs @ '' killed (exit 137)'')
                 ''Container was killed with SIGKILL, possibly by liveness probe or OOM''
                 [''container'' \<mapsto> CS_Name cs,
                  ''exit_code'' \<mapsto> ''137'',
                  ''restart_count'' \<mapsto> showInt (RestartCount cs),
                  ''reason'' \<mapsto> Terminated_Reason terminated]]
            else [])"

definition ProbeAnalyzer_Analyze ::
  "(Time \<Rightarrow> string \<Rightarrow> string) \<Rightarrow> Pod \<Rightarrow> Clientset \<Rightarrow> error + Issue list" where
  "ProbeAnalyzer_Analyze Format pod client =
     Inr (concat (map analyzeContainerProbes (Containers (Spec pod)))
          @ (case GetPodEvents client (Pod_Namespace pod) (Pod_Name pod) of
               Inr events \<Rightarrow> analyzeProbeEvents Format events
             | Inl err \<Rightarrow> [])
          @ concat (map Probe_analyzeContainerStatus (ContainerStatuses (Status pod))))"

section \<open>Diagnostic pipeline\<close>

text \<open>\<open>int32\<close> addition wraps around.\<close>

definition int32 :: "int \<Rightarrow> int" where
  "int32 x = (x + 2147483648) mod 4294967296 - 2147483648"

text \<open>
  \<open>ExtractPodInfo\<close>. \<open>time.Since\<close> reads the clock and is the parameter \<open>Since\<close>. The map
  \<open>containerStatuses\<close> keeps, for a name, the last status of that name.
\<close>

definition containerInfo :: "(string \<rightharpoonup> ContainerStatus) \<Rightarrow> Container \<Rightarrow> ContainerInfo" where
  "containerInfo containerStatuses container =
     (let ci = \<lparr>CI_Name = C_Name container, CI_Image = C_Image container, CI_Ready = False,
                CI_RestartCount = 0, CI_State = [], CI_Reason = [], CI_Message = [],
                CI_ExitCode = 0, CI_StartedAt = 0, CI_FinishedAt = 0\<rparr>
      in case containerStatuses (C_Name container) of
           None \<Rightarrow> ci
         | Some status \<Rightarrow>
             (let ci1 = ci\<lparr>CI_Ready := Ready status, CI_RestartCount := RestartCount status\<rparr>
              in case Running (State status) of
                   Some running \<Rightarrow>
                     ci1\<lparr>CI_State := ''running'', CI_StartedAt := Running_StartedAt running\<rparr>
                 | None \<Rightarrow>
                     (case Waiting (State status) of
                        Some waiting \<Rightarrow>
                          ci1\<lparr>CI_State := ''waiting'', CI_Reason := Waiting_Reason waiting,
                              CI_Message := Waiting_Message waiting\<rparr>
                      | None \<Rightarrow>
                          (case Terminated (State status) of
                             Some terminated \<Rightarrow>
                               ci1\<lparr>CI_State := ''terminated'',
                                   CI_Reason := Terminated_Reason terminated,
                                   CI_Message := Terminated_Message terminated,
                                   CI_ExitCode := Terminated_ExitCode terminated,
                                   CI_FinishedAt := Terminated_FinishedAt terminated\<rparr>
                           | None \<Rightarrow> ci1))))"

definition ExtractPodInfo :: "(Time \<Rightarrow> int) \<Rightarrow> Pod \<Rightarrow> PodInfo" where
  "ExtractPodInfo Since pod =
     (let containerStatuses =
            foldl (\<lambda>m cs. m(CS_Name cs \<mapsto> cs)) Map.empty (ContainerStatuses (Status pod));
          restarts =
            foldl (\<lambda>r cs. int32 (r + RestartCount cs)) 0 (ContainerStatuses (Status pod))
      in \<lparr>Info_Name = Pod_Name pod,
          Info_Namespace = Pod_Namespace pod,
          Info_Node = NodeName (Spec pod),
          Info_Age = (if CreationTimestamp pod \<noteq> 0 then Since (CreationTimestamp pod) else 0),
          Info_Phase = Phase (Status pod),
          Info_IP = PodIP (Status pod),
          Info_Restarts = restarts,
          Info_Containers = map (containerInfo containerStatuses) (Containers (Spec pod)),
          Info_Labels = Pod_Labels pod\<rparr>)"

text \<open>
  What the program takes from outside the repository: the library functions named
  above, and the clock (\<open>time.Now\<close>, \<open>time.Since\<close>).
\<close>

record Runtime =
  regexp_MatchString :: "string \<Rightarrow> string \<Rightarrow> bool"
  strings_TrimSpace :: "string \<Rightarrow> string"
  time_Format :: "Time \<Rightarrow> string \<Rightarrow> string"
  sort_Slice :: sorter
  time_Since :: "Time \<Rightarrow> int"
  time_Now :: Time

text \<open>
  The \<open>Analyzer\<close> interface: \<open>Analyze\<close> returns the issues or an error, and \<open>None\<close> is a
  panic. \<open>NewPodAnalyzer\<close> lists the six analyzers in their fixed order.
\<close>

type_synonym Analyzer = "Pod \<Rightarrow> Clientset \<Rightarrow> (error + Issue list) option"

definition NewPodAnalyzer :: "Runtime \<Rightarrow> Analyzer list" where
  "NewPodAnalyzer rt =
     [\<lambda>pod client. Some (StatusAnalyzer_Analyze pod client),
      \<lambda>pod client. Some (EventAnalyzer_Analyze (time_Format rt) pod client),
      LogAnalyzer_Analyze (regexp_MatchString rt) (strings_TrimSpace rt) NewLogAnalyzer,
      \<lambda>pod client. Some (NodeAnalyzer_Analyze pod client),
      \<lambda>pod client. Some (ResourceAnalyzer_Analyze pod client),
      \<lambda>pod client. Some (ProbeAnalyzer_Analyze (time_Format rt) pod client)]"

text \<open>The loop of \<open>Diagnose\<close> over the analyzers: a failing analyzer is passed over.\<close>

fun runAnalyzers :: "Analyzer list \<Rightarrow> Pod \<Rightarrow> Clientset \<Rightarrow> Diagnosis \<Rightarrow> Diagnosis option" where
  "runAnalyzers [] pod client diagnosis = Some diagnosis"
| "runAnalyzers (analyzer # rest) pod client diagnosis =
     (case analyzer pod client of
        None \<Rightarrow> None
      | Some (Inl err) \<Rightarrow> runAnalyzers rest pod client diagnosis
      | Some (Inr issues) \<Rightarrow> runAnalyzers rest pod client (foldl AddIssue diagnosis issues))"

definition Diagnose ::
  "Runtime \<Rightarrow> Analyzer list \<Rightarrow> Clientset \<Rightarrow> string \<Rightarrow> string \<Rightarrow> (error + Diagnosis) option" where
  "Diagnose rt analyzers client namespace name =
     (case GetPod client namespace name of
        Inl err \<Rightarrow> Some (Inl err)
      | Inr pod \<Rightarrow>
          (let podInfo = ExtractPodInfo (time_Since rt) pod;
               d0 = NewDiagnosis (time_Now rt) podInfo;
               d1 = d0\<lparr>D_Status := detectPodStatus pod\<rparr>
           in case runAnalyzers analyzers pod client d1 of
                None \<Rightarrow> None
              | Some d2 \<Rightarrow>
                  (let d3 = (case GetPodEvents client namespace name of
                               Inr events \<Rightarrow> d2\<lparr>Events := events\<rparr>
                             | Inl err \<Rightarrow> d2);
                       d4 = (if NodeName (Spec pod) \<noteq> [] then
                               (case GetNodeHealth client (NodeName (Spec pod)) of
                                  Inr nodeHealth \<Rightarrow> d3\<lparr>Node := Some nodeHealth\<rparr>
                                | Inl err \<Rightarrow> d3)
                             else d3)
                   in Some (Inr (d4\<lparr>Recommendations :=
                                      generateRecommendations (sort_Slice rt) d4\<rparr>)))))"

section \<open>Scan\<close>

text \<open>The filter of \<open>runScan\<close> under the flag \<open>--unhealthy\<close>.\<close>

definition unhealthyFilter :: "bool \<Rightarrow> Diagnosis list \<Rightarrow> Diagnosis list" where
  "unhealthyFilter onlyUnhealthy diagnoses =
     (if onlyUnhealthy then filter (\<lambda>d. \<not> IsHealthy d) diagnoses else diagnoses)"

section \<open>The classifier's nine rules as a priority list\<close>

text \<open>
  The classifier as the specification words it, for comparison with the code: rules
  (1) to (9), each over the whole pod, the first matching rule deciding. Rule (2) looks
  at every container's waiting reason before rule (3) looks at any last termination.
  The waiting reasons of rule (2) and the label each one gives are the table
  \<open>waitingLabels\<close>.
\<close>

definition waitingLabels :: "(string \<times> PodStatus) list" where
  "waitingLabels =
     [(''CrashLoopBackOff'', StatusCrashLoop),
      (''ImagePullBackOff'', StatusImagePull),
      (''ErrImagePull'', StatusImagePull),
      (''CreateContainerError'', StatusCreateError),
      (''CreateContainerConfigError'', StatusConfigError)]"

definition listedWaiting :: "ContainerStatus \<Rightarrow> PodStatus option" where
  "listedWaiting cs =
     (case Waiting (State cs) of
        None \<Rightarrow> None
      | Some w \<Rightarrow> map_of waitingLabels (Waiting_Reason w))"

definition lastOOMKilled :: "ContainerStatus \<Rightarrow> bool" where
  "lastOOMKilled cs =
     (case Terminated (LastTerminationState cs) of
        None \<Rightarrow> False
      | Some t \<Rightarrow> Terminated_Reason t = ''OOMKilled'')"

definition phaseRules :: "PodStatusV1 \<Rightarrow> PodStatus" where
  "phaseRules st =
     (if Phase st = ''Pending'' then StatusPending
      else if Phase st = ''Failed'' \<and> Status_Reason st = ''Evicted'' then StatusEvicted
      else if Phase st = ''Failed'' then StatusError
      else if Phase st = ''Running'' \<and> list_ex (\<lambda>cs. \<not> Ready cs) (ContainerStatuses st)
        then StatusNotReady
      else if Phase st = ''Running'' \<or> Phase st = ''Succeeded'' then StatusHealthy
      else StatusUnknown)"

definition detectPodStatus_spec :: "Pod \<Rightarrow> PodStatus" where
  "detectPodStatus_spec pod =
     (if DeletionTimestamp pod \<noteq> None then StatusTerminating
      else case List.map_filter listedWaiting (ContainerStatuses (Status pod)) of
             s # _ \<Rightarrow> s
           | [] \<Rightarrow>
               if list_ex lastOOMKilled (ContainerStatuses (Status pod)) then StatusOOMKilled
               else phaseRules (Status pod))"

text \<open>
  The same list with rules (2) and (3) read container by container: the first container,
  in status order, that either waits with a listed reason or was last terminated with
  reason OOMKilled decides, its waiting reason first.
\<close>

definition containerRule :: "ContainerStatus \<Rightarrow> PodStatus option" where
  "containerRule cs =
     (case listedWaiting cs of
        Some s \<Rightarrow> Some s
      | None \<Rightarrow> if lastOOMKilled cs then Some StatusOOMKilled else None)"

definition detectPodStatus_rules :: "Pod \<Rightarrow> PodStatus" where
  "detectPodStatus_rules pod =
     (if DeletionTimestamp pod \<noteq> None then StatusTerminating
      else case List.map_filter containerRule (ContainerStatuses (Status pod)) of
             s # _ \<Rightarrow> s
           | [] \<Rightarrow> phaseRules (Status pod))"

subsection \<open>Example pods\<close>

definition noState :: ContainerState where
  "noState = \<lparr>Waiting = None, Running = None, Terminated = None\<rparr>"

definition waitingState :: "string \<Rightarrow> ContainerState" where
  "waitingState reason =
     \<lparr>Waiting = Some \<lparr>Waiting_Reason = reason, Waiting_Message = ''back-off''\<rparr>,
      Running = None, Terminated = None\<rparr>"

definition runningState :: ContainerState where
  "runningState = \<lparr>Waiting = None, Running = Some \<lparr>Running_StartedAt = 0\<rparr>, Terminated = None\<rparr>"

definition terminatedState :: "string \<Rightarrow> int \<Rightarrow> ContainerState" where
  "terminatedState reason code =
     \<lparr>Waiting = None, Running = None,
      Terminated = Some \<lparr>Terminated_ExitCode = code, Terminated_Reason = reason,
                          Terminated_Message = [], Terminated_FinishedAt = 0\<rparr>\<rparr>"

definition emptyResources :: ResourceRequirements where
  "emptyResources = \<lparr>Limits = [], Requests = []\<rparr>"

definition plainContainer :: "string \<Rightarrow> Container" where
  "plainContainer name =
     \<lparr>C_Name = name, C_Image = ''busybox'', Resources = emptyResources,
      LivenessProbe = None, ReadinessProbe = None, StartupProbe = None\<rparr>"

definition examplePod :: "string \<Rightarrow> Container list \<Rightarrow> ContainerStatus list \<Rightarrow> Pod" where
  "examplePod phase containers statuses =
     \<lparr>Pod_Name = ''web'', Pod_Namespace = ''default'', Pod_Labels = Map.empty,
      CreationTimestamp = 0, DeletionTimestamp = None,
      Spec = \<lparr>NodeName = [], InitContainers = [], Containers = containers\<rparr>,
      Status = \<lparr>Phase = phase, Conditions = [], Status_Message = [], Status_Reason = [],
                PodIP = [], InitContainerStatuses = [], ContainerStatuses = statuses\<rparr>\<rparr>"

text \<open>One container, waiting in CrashLoopBackOff, last terminated as OOMKilled.\<close>

definition crashLoopAfterOOM :: ContainerStatus where
  "crashLoopAfterOOM =
     \<lparr>CS_Name = ''app'', State = waitingState ''CrashLoopBackOff'',
      LastTerminationState = terminatedState ''OOMKilled'' 137,
      Ready = False, RestartCount = 3, CS_Image = ''busybox''\<rparr>"

definition podCrashLoopOOM :: Pod where
  "podCrashLoopOOM = examplePod ''Running'' [plainContainer ''app''] [crashLoopAfterOOM]"

text \<open>
  Two containers: the first runs again after an OOM kill, the second waits in
  CrashLoopBackOff.
\<close>

definition restartedAfterOOM :: ContainerStatus where
  "restartedAfterOOM =
     \<lparr>CS_Name = ''cache'', State = runningState,
      LastTerminationState = terminatedState ''OOMKilled'' 137,
      Ready = True, RestartCount = 1, CS_Image = ''busybox''\<rparr>"

definition crashLooping :: ContainerStatus where
  "crashLooping =
     \<lparr>CS_Name = ''app'', State = waitingState ''CrashLoopBackOff'',
      LastTerminationState = noState,
      Ready = False, RestartCount = 3, CS_Image = ''busybox''\<rparr>"

definition podOOMThenCrashLoop :: Pod where
  "podOOMThenCrashLoop =
     examplePod ''Running'' [plainContainer ''cache'', plainContainer ''app'']
       [restartedAfterOOM, crashLooping]"

section \<open>Notions used in the statements and proofs\<close>

text \<open>
  The returned list keeps the first-seen order among recommendations of equal priority:
  for every priority, the recommendations of that priority come in the returned list
  in the order in which they were accepted.
\<close>

definition firstSeenOrderKept :: "Recommendation list \<Rightarrow> Recommendation list \<Rightarrow> bool" where
  "firstSeenOrderKept accepted returned =
     (\<forall>p. filter (\<lambda>r. Priority r = p) returned = filter (\<lambda>r. Priority r = p) accepted)"

text \<open>
  The invariant of the accumulation loops: the accepted titles are pairwise different
  and \<open>seenRecs\<close> holds exactly the accepted titles.
\<close>

definition seenInv :: "recState \<Rightarrow> bool" where
  "seenInv st =
     (distinct (map Rec_Title (fst st))
      \<and> (\<forall>t. snd st t = (t \<in> set (map Rec_Title (fst st)))))"

text \<open>The thirteen titles of the recommendation table.\<close>

definition tableTitles :: "string list" where
  "tableTitles =
     [''Check container logs'', ''Verify image exists'', ''Check image pull secrets'',
      ''Increase memory limit'', ''Add resource limits'',
      ''Configure resource requests and limits'', ''Check probe endpoint'',
      ''Add health probes'', ''Debug readiness probe'', ''Check node resources'',
      ''Review pod tolerations'', ''Check node status'', ''Review full logs'']"

text \<open>
  The insertion sort as a function on lists, for the proofs: \<open>sinkInto\<close> puts an element
  into a prefix held in reverse, below every element it is less than.
\<close>

fun sinkInto :: "('a \<Rightarrow> 'a \<Rightarrow> bool) \<Rightarrow> 'a \<Rightarrow> 'a list \<Rightarrow> 'a list" where
  "sinkInto lessf x [] = [x]"
| "sinkInto lessf x (y # revPre) =
     (if lessf x y then y # sinkInto lessf x revPre else x # y # revPre)"

definition insertionSorted :: "('a \<Rightarrow> 'a \<Rightarrow> bool) \<Rightarrow> 'a list \<Rightarrow> 'a list" where
  "insertionSorted lessf xs = rev (foldl (\<lambda>acc x. sinkInto lessf x acc) [] xs)"

subsection \<open>Example diagnoses\<close>

definition exampleInfo :: PodInfo where
  "exampleInfo =
     \<lparr>Info_Name = ''web'', Info_Namespace = ''default'', Info_Node = ''node-1'', Info_Age = 0,
      Info_Phase = ''Running'', Info_IP = [], Info_Restarts = 0, Info_Containers = [],
      Info_Labels = Map.empty\<rparr>"

definition exampleIssue :: "Severity \<Rightarrow> string \<Rightarrow> string \<Rightarrow> (string \<rightharpoonup> string) \<Rightarrow> Issue" where
  "exampleIssue sev cat title details =
     \<lparr>Severity = sev, Category = cat, Title = title, Description = [], Details = details\<rparr>"

definition diagnosisOf :: "Issue list \<Rightarrow> Diagnosis" where
  "diagnosisOf issues = (NewDiagnosis 0 exampleInfo)\<lparr>Issues := issues\<rparr>"

text \<open>Three issues, the second and third leading to the same recommendation.\<close>

definition smallDiagnosis :: Diagnosis where
  "smallDiagnosis =
     diagnosisOf
       [exampleIssue SeverityInfo ''probes'' ''No health probes for app'' [''container'' \<mapsto> ''app''],
        exampleIssue SeverityCritical ''node'' ''Node node-1 is not ready'' [''node'' \<mapsto> ''node-1''],
        exampleIssue SeverityWarning ''node'' ''Node node-1 has disk pressure'' [''node'' \<mapsto> ''node-1'']]"

text \<open>
  Four issues with two recommendations of priority 2 and two of priority 1, accepted in
  the order 2, 1, 2, 1.
\<close>

definition mixedDiagnosis :: Diagnosis where
  "mixedDiagnosis =
     diagnosisOf
       [exampleIssue SeverityWarning ''logs'' ''[app] Timeout'' [''container'' \<mapsto> ''app''],
        exampleIssue SeverityCritical ''node'' ''Node node-1 is not ready'' [''node'' \<mapsto> ''node-1''],
        exampleIssue SeverityWarning ''resources'' ''BestEffort QoS for app'' [''container'' \<mapsto> ''app''],
        exampleIssue SeverityCritical ''resources'' ''Container app was OOMKilled''
          [''container'' \<mapsto> ''app'', ''reason'' \<mapsto> ''OOMKilled'']]"

subsection \<open>Notions for the log analyzer\<close>

text \<open>Every slice stored in \<open>matchedPatterns\<close> has at least one sample.\<close>

definition samplesNonEmpty :: "matchMap \<Rightarrow> bool" where
  "samplesNonEmpty m = (\<forall>t ms. m t = Some ms \<longrightarrow> ms \<noteq> [])"

text \<open>
  The issues \<open>analyzeContainerLogs\<close> makes of a log text that was fetched, and what one
  container contributes to \<open>Analyze\<close>: the issues of its current logs, or, when those
  cannot be fetched, of its previous logs, or, when neither can, nothing.
\<close>

definition logIssues ::
  "(string \<Rightarrow> string \<Rightarrow> bool) \<Rightarrow> (string \<Rightarrow> string) \<Rightarrow> errorPattern list
     \<Rightarrow> string \<Rightarrow> string \<Rightarrow> Issue list" where
  "logIssues MatchString TrimSpace patterns containerName logs =
     (if logs = [] then []
      else case scanLines MatchString TrimSpace patterns (strings_Split logs) Map.empty of
             None \<Rightarrow> []
           | Some matchedPatterns \<Rightarrow>
               (case emitIssues containerName matchedPatterns patterns [] of
                  None \<Rightarrow> []
                | Some issues \<Rightarrow> issues))"

definition containerLogIssues ::
  "(string \<Rightarrow> string \<Rightarrow> bool) \<Rightarrow> (string \<Rightarrow> string) \<Rightarrow> errorPattern list \<Rightarrow> Clientset
     \<Rightarrow> Pod \<Rightarrow> Container \<Rightarrow> Issue list" where
  "containerLogIssues MatchString TrimSpace patterns client pod container =
     (case GetPodLogs client (Pod_Namespace pod) (Pod_Name pod) (C_Name container) 100 False of
        Inr logs \<Rightarrow> logIssues MatchString TrimSpace patterns (C_Name container) logs
      | Inl err \<Rightarrow>
          (case GetPodLogs client (Pod_Namespace pod) (Pod_Name pod) (C_Name container) 100 True of
             Inr logs \<Rightarrow> logIssues MatchString TrimSpace patterns (C_Name container) logs
           | Inl err2 \<Rightarrow> []))"

text \<open>The issues the emission loop appends, pattern by pattern in table order.\<close>

definition emitted :: "string \<Rightarrow> matchMap \<Rightarrow> errorPattern list \<Rightarrow> Issue list" where
  "emitted containerName m patterns =
     List.map_filter
       (\<lambda>pattern. case m (EP_Title pattern) of
                     None \<Rightarrow> None
                   | Some matches \<Rightarrow> patternIssue containerName pattern matches)
       patterns"

subsection \<open>Notions for the pipeline\<close>

text \<open>What an analyzer adds to the diagnosis of a pod: its issues, or nothing if it fails.\<close>

definition analyzerIssues :: "Pod \<Rightarrow> Clientset \<Rightarrow> Analyzer \<Rightarrow> Issue list" where
  "analyzerIssues pod client analyzer =
     (case analyzer pod client of
        Some (Inr issues) \<Rightarrow> issues
      | Some (Inl err) \<Rightarrow> []
      | None \<Rightarrow> [])"

subsection \<open>The recommendations of the scenario without resources and probes\<close>

definition recAddResourceLimits :: Recommendation where
  "recAddResourceLimits =
     \<lparr>Priority = 2, Rec_Title = ''Add resource limits'',
      Rec_Description = ''Set resource limits to prevent resource contention'',
      Command = ''kubectl set resources deployment/<deployment-name> -c <container> --limits=cpu=500m,memory=256Mi''\<rparr>"

definition recConfigureResources :: Recommendation where
  "recConfigureResources =
     \<lparr>Priority = 2, Rec_Title = ''Configure resource requests and limits'',
      Rec_Description = ''BestEffort pods are first to be evicted; add resources for better QoS'',
      Command = []\<rparr>"

definition recAddHealthProbes :: Recommendation where
  "recAddHealthProbes =
     \<lparr>Priority = 3, Rec_Title = ''Add health probes'',
      Rec_Description = ''Consider adding liveness and readiness probes for better health monitoring'',
      Command = []\<rparr>"

subsection \<open>Library functions for the examples\<close>

text \<open>
  \<open>strings.TrimSpace\<close> on text whose white space is ASCII (tab, line feed, vertical tab,
  form feed, carriage return, space).
\<close>

definition asciiSpace :: "char \<Rightarrow> bool" where
  "asciiSpace c = (c \<in> set [CHR 0x09, CHR 0x0A, CHR 0x0B, CHR 0x0C, CHR 0x0D, CHR 0x20])"

definition trimSpaceASCII :: "string \<Rightarrow> string" where
  "trimSpaceASCII s = rev (dropWhile asciiSpace (rev (dropWhile asciiSpace s)))"

text \<open>
  A matcher that answers for three of the table's expressions, on lines in lower case
  for the first two: the literal text each of them finds.
\<close>

definition exampleMatchString :: "string \<Rightarrow> string \<Rightarrow> bool" where
  "exampleMatchString pattern line =
     (if pattern = ''(?i)panic:'' then strings_Contains line ''panic:''
      else if pattern = ''(?i)connection'' @ backslash @ ''s*refused''
        then strings_Contains line ''connection refused''
      else if pattern = ''(?i)ECONNREFUSED'' then strings_Contains line ''ECONNREFUSED''
      else False)"

subsection \<open>Example cluster answers\<close>

text \<open>
  A pod with three containers. The current logs of \<open>app\<close> can be fetched; those of
  \<open>cache\<close> cannot, but its previous logs can; neither can be fetched for \<open>side\<close>.
\<close>

definition newline :: string where
  "newline = [CHR 0x0A]"

definition appLogs :: string where
  "appLogs = ''starting server'' @ newline
             @ ''panic: runtime error: index out of range'' @ newline"

definition cacheLogs :: string where
  "cacheLogs = ''dial tcp 10.0.0.5:6379: connect: connection refused'' @ newline"

definition threeContainerPod :: Pod where
  "threeContainerPod =
     examplePod ''Running''
       [plainContainer ''app'', plainContainer ''cache'', plainContainer ''side''] []"

definition logsClient :: Clientset where
  "logsClient =
     \<lparr>Pods_Get = (\<lambda>namespace name. Inr threeContainerPod),
      Pods_GetLogs = (\<lambda>namespace name container tailLines previous.
         if container = ''app'' \<and> \<not> previous then Inr appLogs
         else if container = ''cache'' \<and> previous then Inr cacheLogs
         else Inl (Error ''container logs are not available'')),
      Events_List = (\<lambda>namespace fieldSelector. Inr []),
      Nodes_Get = (\<lambda>name. Inl (Error ''node not found''))\<rparr>"

text \<open>
  A running pod on \<open>node-1\<close> with one ready container \<open>app\<close> that sets no resource
  requests or limits and no probes; the cluster has no events for it, its logs are
  empty, and its node is ready and under no pressure.
\<close>

definition readyStatus :: "string \<Rightarrow> ContainerStatus" where
  "readyStatus name =
     \<lparr>CS_Name = name, State = runningState, LastTerminationState = noState,
      Ready = True, RestartCount = 0, CS_Image = ''busybox''\<rparr>"

definition bestEffortPod :: Pod where
  "bestEffortPod =
     (examplePod ''Running'' [plainContainer ''app''] [readyStatus ''app''])
       \<lparr>Spec := \<lparr>NodeName = ''node-1'', InitContainers = [],
                  Containers = [plainContainer ''app'']\<rparr>\<rparr>"

definition healthyNode :: NodeV1 where
  "healthyNode =
     \<lparr>Node_Conditions =
        [\<lparr>NC_Type = ''MemoryPressure'', NC_Status = ''False''\<rparr>,
         \<lparr>NC_Type = ''DiskPressure'', NC_Status = ''False''\<rparr>,
         \<lparr>NC_Type = ''PIDPressure'', NC_Status = ''False''\<rparr>,
         \<lparr>NC_Type = ''Ready'', NC_Status = ''True''\<rparr>]\<rparr>"

definition quietClient :: Clientset where
  "quietClient =
     \<lparr>Pods_Get = (\<lambda>namespace name.
         if namespace = ''default'' \<and> name = ''web'' then Inr bestEffortPod
         else Inl (Error ''pods not found'')),
      Pods_GetLogs = (\<lambda>namespace name container tailLines previous. Inr []),
      Events_List = (\<lambda>namespace fieldSelector. Inr []),
      Nodes_Get = (\<lambda>name. Inr healthyNode)\<rparr>"

text \<open>The same pod in a cluster that refuses to list events and to show nodes.\<close>

definition restrictedClient :: Clientset where
  "restrictedClient =
     quietClient\<lparr>Events_List := (\<lambda>namespace fieldSelector. Inl (Error ''events is forbidden'')),
                 Nodes_Get := (\<lambda>name. Inl (Error ''nodes is forbidden''))\<rparr>"

text \<open>
  A running pod whose one ready container sets equal requests and limits for cpu and
  memory and has no probes.
\<close>

definition guaranteedResources :: ResourceRequirements where
  "guaranteedResources =
     \<lparr>Limits = [(''cpu'', \<lparr>Q_Value = 1 / 2, Q_String = ''500m''\<rparr>),
                (''memory'', \<lparr>Q_Value = 268435456, Q_String = ''256Mi''\<rparr>)],
      Requests = [(''cpu'', \<lparr>Q_Value = 1 / 2, Q_String = ''500m''\<rparr>),
                  (''memory'', \<lparr>Q_Value = 268435456, Q_String = ''256Mi''\<rparr>)]\<rparr>"

definition guaranteedPod :: Pod where
  "guaranteedPod =
     examplePod ''Running'' [(plainContainer ''app'')\<lparr>Resources := guaranteedResources\<rparr>]
       [readyStatus ''app'']"

definition guaranteedClient :: Clientset where
  "guaranteedClient = quietClient\<lparr>Pods_Get := (\<lambda>namespace name. Inr guaranteedPod)\<rparr>"

text \<open>A runtime for the examples: the library as modelled above, and a clock.\<close>

definition exampleFormat :: "Time \<Rightarrow> string \<Rightarrow> string" where
  "exampleFormat t layout = showInt t"

definition exampleRuntime :: Runtime where
  "exampleRuntime =
     \<lparr>regexp_MatchString = exampleMatchString,
      strings_TrimSpace = trimSpaceASCII,
      time_Format = exampleFormat,
      sort_Slice = goSortSlice,
      time_Since = (\<lambda>t. 1000 - t),
      time_Now = 1000\<rparr>"

text \<open>The diagnosis a call returned, for the examples; \<open>fallback\<close> if it returned none.\<close>

definition diagnosisFrom :: "Diagnosis \<Rightarrow> (error + Diagnosis) option \<Rightarrow> Diagnosis" where
  "diagnosisFrom fallback r = (case r of Some (Inr d) \<Rightarrow> d | Some (Inl err) \<Rightarrow> fallback | None \<Rightarrow> fallback)"

definition guaranteedDiagnosis :: Diagnosis where
  "guaranteedDiagnosis =
     diagnosisFrom (diagnosisOf [])
       (Diagnose exampleRuntime (NewPodAnalyzer exampleRuntime) guaranteedClient ''default'' ''web'')"

text \<open>
  A pod in trouble on every side: \<open>app\<close> waits in CrashLoopBackOff and has panicked,
  the image of \<open>side\<close> cannot be pulled, \<open>cache\<close> runs again after an OOM kill but is not
  ready; the cluster holds a scheduling failure and a failed liveness probe among the
  pod's events, and the node is not ready. No container sets resources or probes.
\<close>

definition troubledPod :: Pod where
  "troubledPod =
     (examplePod ''Running''
        [plainContainer ''app'', plainContainer ''side'', plainContainer ''cache'']
        [crashLooping,
         \<lparr>CS_Name = ''side'', State = waitingState ''ImagePullBackOff'',
          LastTerminationState = noState, Ready = False, RestartCount = 0,
          CS_Image = ''busybox''\<rparr>,
         restartedAfterOOM\<lparr>Ready := False\<rparr>])
       \<lparr>Spec := \<lparr>NodeName = ''node-1'', InitContainers = [],
                  Containers = [plainContainer ''app'', plainContainer ''side'',
                                plainContainer ''cache'']\<rparr>\<rparr>"

definition troubledClient :: Clientset where
  "troubledClient =
     \<lparr>Pods_Get = (\<lambda>namespace name. Inr troubledPod),
      Pods_GetLogs = (\<lambda>namespace name container tailLines previous.
         if container = ''app'' then Inr appLogs else Inr []),
      Events_List = (\<lambda>namespace fieldSelector.
         Inr [\<lparr>E_Type = ''Warning'', E_Reason = ''FailedScheduling'',
               E_Message = ''0/3 nodes are available'', E_Count = 2,
               FirstTimestamp = 10, LastTimestamp = 20,
               Source_Component = ''default-scheduler''\<rparr>,
              \<lparr>E_Type = ''Warning'', E_Reason = ''Unhealthy'',
               E_Message = ''Liveness probe failed: connection refused'', E_Count = 4,
               FirstTimestamp = 30, LastTimestamp = 40,
               Source_Component = ''kubelet''\<rparr>]),
      Nodes_Get = (\<lambda>name.
         Inr \<lparr>Node_Conditions = [\<lparr>NC_Type = ''Ready'', NC_Status = ''False''\<rparr>]\<rparr>)\<rparr>"

definition thirteenDiagnosis :: Diagnosis where
  "thirteenDiagnosis =
     diagnosisFrom (diagnosisOf [])
       (Diagnose exampleRuntime (NewPodAnalyzer exampleRuntime) troubledClient ''default'' ''web'')"

definition bestEffortDiagnosis :: Diagnosis where
  "bestEffortDiagnosis =
     diagnosisFrom (diagnosisOf [])
       (Diagnose exampleRuntime (NewPodAnalyzer exampleRuntime) quietClient ''default'' ''web'')"

subsection \<open>Example pods for the nine rules\<close>

definition waitingStatus :: "string \<Rightarrow> ContainerStatus" where
  "waitingStatus reason =
     \<lparr>CS_Name = ''app'', State = waitingState reason, LastTerminationState = noState,
      Ready = False, RestartCount = 0, CS_Image = ''busybox''\<rparr>"

definition startingStatus :: ContainerStatus where
  "startingStatus = (readyStatus ''app'')\<lparr>Ready := False\<rparr>"

definition podWaiting :: "string \<Rightarrow> Pod" where
  "podWaiting reason = examplePod ''Pending'' [plainContainer ''app''] [waitingStatus reason]"

definition podCrashLoopThenOOM :: Pod where
  "podCrashLoopThenOOM =
     examplePod ''Running'' [plainContainer ''app'', plainContainer ''cache'']
       [crashLooping, restartedAfterOOM]"

definition podQuietThenImagePull :: Pod where
  "podQuietThenImagePull =
     examplePod ''Running'' [plainContainer ''web'', plainContainer ''app'', plainContainer ''cache'']
       [readyStatus ''web'', waitingStatus ''ErrImagePull'', restartedAfterOOM]"

definition podPhase :: "string \<Rightarrow> string \<Rightarrow> ContainerStatus list \<Rightarrow> Pod" where
  "podPhase phase reason statuses =
     (examplePod phase [plainContainer ''app''] statuses)
       \<lparr>Status := (Status (examplePod phase [plainContainer ''app''] statuses))
                    \<lparr>Status_Reason := reason\<rparr>\<rparr>"

definition podDeleted :: Pod where
  "podDeleted = podCrashLoopOOM\<lparr>DeletionTimestamp := Some 5\<rparr>"

subsection \<open>Lines as sequences of characters\<close>






section \<open>Properties of the status classifier\<close>

lemmas example_pod_defs =
  podCrashLoopOOM_def podOOMThenCrashLoop_def examplePod_def crashLoopAfterOOM_def
  restartedAfterOOM_def crashLooping_def waitingState_def runningState_def
  terminatedState_def noState_def plainContainer_def emptyResources_def

lemma waitingSwitch_labels: "waitingSwitch reason = map_of waitingLabels reason"
  by (simp add: waitingSwitch_def waitingLabels_def)

lemma containerVerdict_rule: "containerVerdict cs = containerRule cs"
  by (simp add: containerVerdict_def containerRule_def listedWaiting_def lastOOMKilled_def
      waitingSwitch_labels split: option.splits)

lemma map_filter_quiet:
  "\<forall>q \<in> set quiet. containerRule q = None
   \<Longrightarrow> List.map_filter containerRule (quiet @ css) = List.map_filter containerRule css"
  by (induction quiet) (simp_all add: List.map_filter_simps)

lemma containerRule_None:
  "containerRule q = None \<longleftrightarrow> listedWaiting q = None \<and> \<not> lastOOMKilled q"
  by (simp add: containerRule_def split: option.splits)

lemmas nine_rules_pod_defs =
  podWaiting_def podCrashLoopThenOOM_def podQuietThenImagePull_def podPhase_def
  podDeleted_def waitingStatus_def startingStatus_def readyStatus_def

lemmas nine_rules_defs =
  detectPodStatus_rules_def containerRule_def listedWaiting_def lastOOMKilled_def
  waitingLabels_def phaseRules_def List.map_filter_simps

lemma containerLoop_rules:
  "containerLoop css =
     (case List.map_filter containerRule css of s # _ \<Rightarrow> Some s | [] \<Rightarrow> None)"
  by (induction css)
     (simp_all add: List.map_filter_simps containerVerdict_rule split: option.splits)

lemma readyLoop_rules:
  "readyLoop css = (if list_ex (\<lambda>cs. \<not> Ready cs) css then StatusNotReady else StatusHealthy)"
  by (induction css) simp_all

lemma phaseSwitch_rules: "phaseSwitch st = phaseRules st"
  by (simp add: phaseSwitch_def phaseRules_def readyLoop_rules)

text \<open>
  Claim C1, as the code has it. For every pod not marked for deletion whose only
  container waits with reason CrashLoopBackOff and was last terminated with reason
  OOMKilled, \<open>detectPodStatus\<close> returns the label CrashLoopBackOff: within one container
  the waiting reason is examined before the last termination. (The claim names the
  label OOMKilled.)
\<close>

theorem detectPodStatus_crashloop_with_oom:
  assumes "DeletionTimestamp pod = None"
    and "ContainerStatuses (Status pod) = [cs]"
    and "Waiting (State cs) = Some w"
    and "Waiting_Reason w = ''CrashLoopBackOff''"
    and "Terminated (LastTerminationState cs) = Some t"
    and "Terminated_Reason t = ''OOMKilled''"
  shows "detectPodStatus pod = StatusCrashLoop"
  using assms by (simp add: detectPodStatus_def containerVerdict_def waitingSwitch_def)

theorem detectPodStatus_crashloop_with_oom_witness:
  "DeletionTimestamp podCrashLoopOOM = None
   \<and> ContainerStatuses (Status podCrashLoopOOM) = [crashLoopAfterOOM]
   \<and> Waiting (State crashLoopAfterOOM)
       = Some \<lparr>Waiting_Reason = ''CrashLoopBackOff'', Waiting_Message = ''back-off''\<rparr>
   \<and> Terminated (LastTerminationState crashLoopAfterOOM)
       = Some \<lparr>Terminated_ExitCode = 137, Terminated_Reason = ''OOMKilled'',
               Terminated_Message = [], Terminated_FinishedAt = 0\<rparr>
   \<and> detectPodStatus podCrashLoopOOM = StatusCrashLoop"
proof -
  have h1: "DeletionTimestamp podCrashLoopOOM = None"
    and h2: "ContainerStatuses (Status podCrashLoopOOM) = [crashLoopAfterOOM]"
    and h3: "Waiting (State crashLoopAfterOOM)
       = Some \<lparr>Waiting_Reason = ''CrashLoopBackOff'', Waiting_Message = ''back-off''\<rparr>"
    and h5: "Terminated (LastTerminationState crashLoopAfterOOM)
       = Some \<lparr>Terminated_ExitCode = 137, Terminated_Reason = ''OOMKilled'',
               Terminated_Message = [], Terminated_FinishedAt = 0\<rparr>"
    by (simp_all add: example_pod_defs)
  from detectPodStatus_crashloop_with_oom [OF h1 h2 h3 _ h5] h1 h2 h3 h5
  show ?thesis by simp
qed

text \<open>
  Claim C1 as stated fails: the pod \<open>podCrashLoopOOM\<close> is not marked for deletion, its
  one container waits in CrashLoopBackOff and was last terminated as OOMKilled, and the
  label is CrashLoopBackOff, not OOMKilled.
\<close>

theorem detectPodStatus_oom_label_counterexample:
  "DeletionTimestamp podCrashLoopOOM = None
   \<and> length (ContainerStatuses (Status podCrashLoopOOM)) = 1
   \<and> map (\<lambda>cs. map_option Waiting_Reason (Waiting (State cs)))
        (ContainerStatuses (Status podCrashLoopOOM)) = [Some ''CrashLoopBackOff'']
   \<and> map (\<lambda>cs. map_option Terminated_Reason (Terminated (LastTerminationState cs)))
        (ContainerStatuses (Status podCrashLoopOOM)) = [Some ''OOMKilled'']
   \<and> detectPodStatus podCrashLoopOOM \<noteq> StatusOOMKilled"
  by (simp add: example_pod_defs detectPodStatus_def containerVerdict_def waitingSwitch_def)

text \<open>
  Claim C2, as the code has it. \<open>detectPodStatus\<close> is the priority list
  \<open>detectPodStatus_rules\<close>: (1) deletion mark, then rules (2) and (3) taken together
  container by container in status order, the first container that waits with a listed
  reason or was last terminated as OOMKilled deciding (its waiting reason first), then
  the phase rules (4) to (9) in order. In particular: a deletion-marked pod is
  Terminating whatever else holds; in a pod not marked for deletion, the first container
  \<open>cs\<close> that rule (2) or rule (3) concerns gives the label of its listed waiting reason
  if it has one, and OOMKilled otherwise, whatever the containers after it hold; and
  when no container is concerned the phase rules (4) to (9) give the label.
\<close>

theorem detectPodStatus_priority_order:
  "detectPodStatus pod = detectPodStatus_rules pod
   \<and> (DeletionTimestamp pod \<noteq> None \<longrightarrow> detectPodStatus pod = StatusTerminating)
   \<and> (DeletionTimestamp pod = None
        \<and> ContainerStatuses (Status pod) = quiet @ cs # rest
        \<and> (\<forall>q \<in> set quiet. listedWaiting q = None \<and> \<not> lastOOMKilled q)
        \<longrightarrow> (listedWaiting cs = Some s \<longrightarrow> detectPodStatus pod = s)
          \<and> (listedWaiting cs = None \<and> lastOOMKilled cs
               \<longrightarrow> detectPodStatus pod = StatusOOMKilled))
   \<and> (DeletionTimestamp pod = None
        \<and> (\<forall>q \<in> set (ContainerStatuses (Status pod)).
              listedWaiting q = None \<and> \<not> lastOOMKilled q)
        \<longrightarrow> detectPodStatus pod = phaseRules (Status pod))"
proof -
  have eq: "detectPodStatus pod = detectPodStatus_rules pod"
    by (simp add: detectPodStatus_def detectPodStatus_rules_def containerLoop_rules
        phaseSwitch_rules split: list.splits)
  have del: "DeletionTimestamp pod \<noteq> None \<longrightarrow> detectPodStatus pod = StatusTerminating"
    by (simp add: detectPodStatus_def)
  have first: "(listedWaiting cs = Some s \<longrightarrow> detectPodStatus pod = s)
          \<and> (listedWaiting cs = None \<and> lastOOMKilled cs
               \<longrightarrow> detectPodStatus pod = StatusOOMKilled)"
    if nd: "DeletionTimestamp pod = None"
      and split: "ContainerStatuses (Status pod) = quiet @ cs # rest"
      and quiet: "\<forall>q \<in> set quiet. listedWaiting q = None \<and> \<not> lastOOMKilled q"
  proof -
    from quiet have "\<forall>q \<in> set quiet. containerRule q = None"
      by (simp add: containerRule_None)
    then have "List.map_filter containerRule (ContainerStatuses (Status pod))
        = List.map_filter containerRule (cs # rest)"
      unfolding split by (rule map_filter_quiet)
    then have "detectPodStatus pod
        = (case List.map_filter containerRule (cs # rest) of
             s # _ \<Rightarrow> s | [] \<Rightarrow> phaseRules (Status pod))"
      using nd by (simp add: eq detectPodStatus_rules_def)
    then show ?thesis
      by (simp add: List.map_filter_simps containerRule_def)
  qed
  have phase: "detectPodStatus pod = phaseRules (Status pod)"
    if nd: "DeletionTimestamp pod = None"
      and quiet: "\<forall>q \<in> set (ContainerStatuses (Status pod)).
              listedWaiting q = None \<and> \<not> lastOOMKilled q"
  proof -
    from quiet have "\<forall>q \<in> set (ContainerStatuses (Status pod)). containerRule q = None"
      by (simp add: containerRule_None)
    from map_filter_quiet[OF this, of "[]"]
    have "List.map_filter containerRule (ContainerStatuses (Status pod)) = []"
      by (simp add: List.map_filter_simps)
    then show ?thesis using nd by (simp add: eq detectPodStatus_rules_def)
  qed
  from eq del first phase show ?thesis by blast
qed

text \<open>
  The theorem at one pod for each rule: the five waiting reasons of rule (2), the two
  orders of a container waiting in CrashLoopBackOff and a container last terminated as
  OOMKilled, a container that rules (2) and (3) do not concern before one waiting with
  ErrImagePull, the phases of rules (4) to (9), and a pod marked for deletion.
\<close>

theorem detectPodStatus_priority_order_witness:
  "detectPodStatus (podWaiting ''CrashLoopBackOff'') = StatusCrashLoop
   \<and> detectPodStatus (podWaiting ''ImagePullBackOff'') = StatusImagePull
   \<and> detectPodStatus (podWaiting ''ErrImagePull'') = StatusImagePull
   \<and> detectPodStatus (podWaiting ''CreateContainerError'') = StatusCreateError
   \<and> detectPodStatus (podWaiting ''CreateContainerConfigError'') = StatusConfigError
   \<and> detectPodStatus (podWaiting ''ContainerCreating'') = StatusPending
   \<and> ContainerStatuses (Status podCrashLoopThenOOM) = [] @ crashLooping # [restartedAfterOOM]
   \<and> listedWaiting crashLooping = Some StatusCrashLoop
   \<and> detectPodStatus podCrashLoopThenOOM = StatusCrashLoop
   \<and> ContainerStatuses (Status podOOMThenCrashLoop) = [] @ restartedAfterOOM # [crashLooping]
   \<and> listedWaiting restartedAfterOOM = None \<and> lastOOMKilled restartedAfterOOM
   \<and> detectPodStatus podOOMThenCrashLoop = StatusOOMKilled
   \<and> ContainerStatuses (Status podQuietThenImagePull)
       = [readyStatus ''web''] @ waitingStatus ''ErrImagePull'' # [restartedAfterOOM]
   \<and> detectPodStatus podQuietThenImagePull = StatusImagePull
   \<and> detectPodStatus podCrashLoopOOM = StatusCrashLoop
   \<and> detectPodStatus (podPhase ''Failed'' ''Evicted'' [readyStatus ''app'']) = StatusEvicted
   \<and> detectPodStatus (podPhase ''Failed'' ''DeadlineExceeded'' [readyStatus ''app'']) = StatusError
   \<and> detectPodStatus (podPhase ''Running'' [] [readyStatus ''web'', startingStatus])
       = StatusNotReady
   \<and> detectPodStatus (podPhase ''Running'' [] [readyStatus ''web'', readyStatus ''app''])
       = StatusHealthy
   \<and> detectPodStatus (podPhase ''Succeeded'' [] [startingStatus]) = StatusHealthy
   \<and> detectPodStatus (podPhase ''Unknown'' [] [readyStatus ''app'']) = StatusUnknown
   \<and> DeletionTimestamp podDeleted \<noteq> None
   \<and> detectPodStatus podDeleted = StatusTerminating"
proof -
  have w1: "detectPodStatus_rules (podWaiting ''CrashLoopBackOff'') = StatusCrashLoop"
    and w2: "detectPodStatus_rules (podWaiting ''ImagePullBackOff'') = StatusImagePull"
    and w3: "detectPodStatus_rules (podWaiting ''ErrImagePull'') = StatusImagePull"
    and w4: "detectPodStatus_rules (podWaiting ''CreateContainerError'') = StatusCreateError"
    and w5: "detectPodStatus_rules (podWaiting ''CreateContainerConfigError'') = StatusConfigError"
    and w6: "detectPodStatus_rules (podWaiting ''ContainerCreating'') = StatusPending"
    and w7: "detectPodStatus_rules podCrashLoopOOM = StatusCrashLoop"
    by (simp_all add: example_pod_defs nine_rules_pod_defs nine_rules_defs)
  have nd1: "DeletionTimestamp podCrashLoopThenOOM = None"
    and s1: "ContainerStatuses (Status podCrashLoopThenOOM)
               = [] @ crashLooping # [restartedAfterOOM]"
    and l1: "listedWaiting crashLooping = Some StatusCrashLoop"
    by (simp_all add: example_pod_defs nine_rules_pod_defs nine_rules_defs)
  have nd2: "DeletionTimestamp podOOMThenCrashLoop = None"
    and s2: "ContainerStatuses (Status podOOMThenCrashLoop)
               = [] @ restartedAfterOOM # [crashLooping]"
    and l2: "listedWaiting restartedAfterOOM = None" "lastOOMKilled restartedAfterOOM"
    by (simp_all add: example_pod_defs nine_rules_pod_defs nine_rules_defs)
  have nd3: "DeletionTimestamp podQuietThenImagePull = None"
    and s3: "ContainerStatuses (Status podQuietThenImagePull)
       = [readyStatus ''web''] @ waitingStatus ''ErrImagePull'' # [restartedAfterOOM]"
    and q3: "\<forall>q \<in> set [readyStatus ''web'']. listedWaiting q = None \<and> \<not> lastOOMKilled q"
    and l3: "listedWaiting (waitingStatus ''ErrImagePull'') = Some StatusImagePull"
    by (simp_all add: example_pod_defs nine_rules_pod_defs nine_rules_defs)
  have p1: "phaseRules (Status (podPhase ''Failed'' ''Evicted'' [readyStatus ''app'']))
              = StatusEvicted"
    and p2: "phaseRules (Status (podPhase ''Failed'' ''DeadlineExceeded'' [readyStatus ''app'']))
              = StatusError"
    and p3: "phaseRules (Status (podPhase ''Running'' [] [readyStatus ''web'', startingStatus]))
              = StatusNotReady"
    and p4: "phaseRules (Status (podPhase ''Running'' [] [readyStatus ''web'', readyStatus ''app'']))
              = StatusHealthy"
    and p5: "phaseRules (Status (podPhase ''Succeeded'' [] [startingStatus])) = StatusHealthy"
    and p6: "phaseRules (Status (podPhase ''Unknown'' [] [readyStatus ''app''])) = StatusUnknown"
    by (simp_all add: example_pod_defs nine_rules_pod_defs nine_rules_defs)
  have q: "DeletionTimestamp (podPhase phase reason statuses) = None"
    "ContainerStatuses (Status (podPhase phase reason statuses)) = statuses"
    for phase reason statuses
    by (simp_all add: example_pod_defs nine_rules_pod_defs)
  have quiet: "listedWaiting (readyStatus name) = None \<and> \<not> lastOOMKilled (readyStatus name)"
    "listedWaiting startingStatus = None \<and> \<not> lastOOMKilled startingStatus" for name
    by (simp_all add: example_pod_defs nine_rules_pod_defs nine_rules_defs)
  have del: "DeletionTimestamp podDeleted \<noteq> None"
    by (simp add: podDeleted_def)
  note rules = detectPodStatus_priority_order
  note first = rules [THEN conjunct2, THEN conjunct2, THEN conjunct1]
  note phase = rules [THEN conjunct2, THEN conjunct2, THEN conjunct2]
  from rules [of "podWaiting ''CrashLoopBackOff''"] w1
  have c1: "detectPodStatus (podWaiting ''CrashLoopBackOff'') = StatusCrashLoop" by simp
  from rules [of "podWaiting ''ImagePullBackOff''"] w2
  have c2: "detectPodStatus (podWaiting ''ImagePullBackOff'') = StatusImagePull" by simp
  from rules [of "podWaiting ''ErrImagePull''"] w3
  have c3: "detectPodStatus (podWaiting ''ErrImagePull'') = StatusImagePull" by simp
  from rules [of "podWaiting ''CreateContainerError''"] w4
  have c4: "detectPodStatus (podWaiting ''CreateContainerError'') = StatusCreateError" by simp
  from rules [of "podWaiting ''CreateContainerConfigError''"] w5
  have c5: "detectPodStatus (podWaiting ''CreateContainerConfigError'') = StatusConfigError"
    by simp
  from rules [of "podWaiting ''ContainerCreating''"] w6
  have c6: "detectPodStatus (podWaiting ''ContainerCreating'') = StatusPending" by simp
  from rules [of podCrashLoopOOM] w7
  have c7: "detectPodStatus podCrashLoopOOM = StatusCrashLoop" by simp
  from first [of podCrashLoopThenOOM "[]" crashLooping "[restartedAfterOOM]" StatusCrashLoop]
    nd1 s1 l1
  have o1: "detectPodStatus podCrashLoopThenOOM = StatusCrashLoop" by simp
  from first [of podOOMThenCrashLoop "[]" restartedAfterOOM "[crashLooping]"] nd2 s2 l2
  have o2: "detectPodStatus podOOMThenCrashLoop = StatusOOMKilled" by simp
  from first [of podQuietThenImagePull "[readyStatus ''web'']" "waitingStatus ''ErrImagePull''"
      "[restartedAfterOOM]" StatusImagePull] nd3 s3 q3 l3
  have o3: "detectPodStatus podQuietThenImagePull = StatusImagePull" by simp
  from phase [of "podPhase ''Failed'' ''Evicted'' [readyStatus ''app'']"] q quiet p1
  have f1: "detectPodStatus (podPhase ''Failed'' ''Evicted'' [readyStatus ''app''])
              = StatusEvicted" by simp
  from phase [of "podPhase ''Failed'' ''DeadlineExceeded'' [readyStatus ''app'']"] q quiet p2
  have f2: "detectPodStatus (podPhase ''Failed'' ''DeadlineExceeded'' [readyStatus ''app''])
              = StatusError" by simp
  from phase [of "podPhase ''Running'' [] [readyStatus ''web'', startingStatus]"] q quiet p3
  have f3: "detectPodStatus (podPhase ''Running'' [] [readyStatus ''web'', startingStatus])
              = StatusNotReady" by simp
  from phase [of "podPhase ''Running'' [] [readyStatus ''web'', readyStatus ''app'']"] q quiet p4
  have f4: "detectPodStatus (podPhase ''Running'' [] [readyStatus ''web'', readyStatus ''app''])
              = StatusHealthy" by simp
  from phase [of "podPhase ''Succeeded'' [] [startingStatus]"] q quiet p5
  have f5: "detectPodStatus (podPhase ''Succeeded'' [] [startingStatus]) = StatusHealthy"
    by simp
  from phase [of "podPhase ''Unknown'' [] [readyStatus ''app'']"] q quiet p6
  have f6: "detectPodStatus (podPhase ''Unknown'' [] [readyStatus ''app'']) = StatusUnknown"
    by simp
  from rules [THEN conjunct2, THEN conjunct1, of podDeleted] del
  have d: "detectPodStatus podDeleted = StatusTerminating" by (rule mp)
  show ?thesis
    by (intro conjI c1 c2 c3 c4 c5 c6 s1 l1 o1 s2 l2 o2 s3 o3 c7 f1 f2 f3 f4 f5 f6 del d)
qed

text \<open>
  Claim C2 as stated fails where the container last terminated as OOMKilled comes before
  the one waiting in CrashLoopBackOff: rule (2) over the whole pod, as the claim orders
  it, gives CrashLoopBackOff, and the code gives OOMKilled.
\<close>

theorem detectPodStatus_whole_pod_order_counterexample:
  "map (\<lambda>cs. map_option Waiting_Reason (Waiting (State cs)))
        (ContainerStatuses (Status podOOMThenCrashLoop)) = [None, Some ''CrashLoopBackOff'']
   \<and> map (\<lambda>cs. map_option Terminated_Reason (Terminated (LastTerminationState cs)))
        (ContainerStatuses (Status podOOMThenCrashLoop)) = [Some ''OOMKilled'', None]
   \<and> detectPodStatus_spec podOOMThenCrashLoop = StatusCrashLoop
   \<and> detectPodStatus podOOMThenCrashLoop = StatusOOMKilled"
  by (simp add: example_pod_defs detectPodStatus_def detectPodStatus_spec_def
      containerVerdict_def waitingSwitch_def listedWaiting_def waitingLabels_def
      List.map_filter_simps)

section \<open>Properties of the recommendation engine\<close>

lemma acceptRec_seenInv: "seenInv st \<Longrightarrow> seenInv (acceptRec st r)"
  by (cases st) (auto simp: seenInv_def acceptRec_def)

lemma foldl_acceptRec_seenInv: "seenInv st \<Longrightarrow> seenInv (foldl acceptRec st rs)"
  by (induction rs arbitrary: st) (simp_all add: acceptRec_seenInv)

lemma foldl_acceptIssue_seenInv: "seenInv st \<Longrightarrow> seenInv (foldl (acceptIssue pod) st issues)"
  by (induction issues arbitrary: st) (simp_all add: acceptIssue_def foldl_acceptRec_seenInv)

lemma acceptedRecs_distinct: "distinct (map Rec_Title (acceptedRecs d))"
proof -
  have "seenInv ([], \<lambda>_. False)" by (simp add: seenInv_def)
  then have "seenInv (foldl (acceptIssue (D_Pod d)) ([], \<lambda>_. False) (Issues d))"
    by (rule foldl_acceptIssue_seenInv)
  then show ?thesis by (simp add: seenInv_def acceptedRecs_def)
qed

lemma sortsSlice_ascending:
  assumes "sortsSlice sortSlice recs"
  shows "sorted (map Priority (sortSlice byPriority recs))"
proof -
  from assms have "sorted_wrt (\<lambda>a b. \<not> byPriority b a) (sortSlice byPriority recs)"
    by (simp add: sortsSlice_def)
  then have "sorted_wrt (\<lambda>a b. Priority a \<le> Priority b) (sortSlice byPriority recs)"
    by (rule sorted_wrt_mono_rel[rotated]) (simp add: byPriority_def)
  then show ?thesis by (simp add: sorted_map)
qed

subsection \<open>The insertion sort\<close>

lemma insertionInner_sinks:
  "insertionInner lessf (pre @ x # post) (int (length pre))
     = rev (sinkInto lessf x (rev pre)) @ post"
proof (induction pre arbitrary: post rule: rev_induct)
  case Nil
  show ?case by (simp add: insertionInner.simps[of _ _ 0])
next
  case (snoc y pre)
  let ?data = "(pre @ [y]) @ x # post"
  let ?j = "int (length (pre @ [y]))"
  have n1: "nat ?j = Suc (length pre)" and n0: "nat (?j - 1) = length pre" by simp_all
  have l: "Less lessf ?data ?j (?j - 1) = lessf x y"
    unfolding Less_def n1 n0 by (simp add: nth_append)
  show ?case
  proof (cases "lessf x y")
    case True
    have "insertionInner lessf ?data ?j = insertionInner lessf (Swap ?data ?j (?j - 1)) (?j - 1)"
      using True l by (subst insertionInner.simps) simp
    also have "Swap ?data ?j (?j - 1) = pre @ x # y # post"
      unfolding Swap_def n1 n0 by (simp add: nth_append list_update_append)
    also have "?j - 1 = int (length pre)" by simp
    also have "insertionInner lessf (pre @ x # y # post) (int (length pre))
        = rev (sinkInto lessf x (rev pre)) @ y # post"
      by (rule snoc.IH)
    finally show ?thesis using True by simp
  next
    case False
    have "insertionInner lessf ?data ?j = ?data"
      using False l by (subst insertionInner.simps) simp
    then show ?thesis using False by simp
  qed
qed

lemma length_sinkInto: "length (sinkInto lessf x ys) = Suc (length ys)"
  by (induction ys) simp_all

lemma length_foldl_sinkInto:
  "length (foldl (\<lambda>acc x. sinkInto lessf x acc) acc xs) = length acc + length xs"
  by (induction xs arbitrary: acc) (simp_all add: length_sinkInto)

lemma length_insertionSorted: "length (insertionSorted lessf xs) = length xs"
  by (simp add: insertionSorted_def length_foldl_sinkInto)

lemma insertion_prefix:
  "k \<le> length data \<Longrightarrow>
   foldl (\<lambda>d i. insertionInner lessf d (int i)) data [1..<k]
     = insertionSorted lessf (take k data) @ drop k data"
proof (induction k)
  case 0
  then show ?case by (simp add: insertionSorted_def)
next
  case (Suc k)
  show ?case
  proof (cases "k = 0")
    case True
    with Suc.prems show ?thesis
      by (cases data) (simp_all add: insertionSorted_def)
  next
    case False
    from Suc.prems have k: "k < length data" by simp
    let ?pre = "insertionSorted lessf (take k data)"
    have len: "length ?pre = k" using k by (simp add: length_insertionSorted)
    have "[1..<Suc k] = [1..<k] @ [k]" using False by simp
    then have "foldl (\<lambda>d i. insertionInner lessf d (int i)) data [1..<Suc k]
        = insertionInner lessf (?pre @ drop k data) (int k)"
      using Suc.IH k by simp
    also have "drop k data = data ! k # drop (Suc k) data"
      using k by (simp add: Cons_nth_drop_Suc)
    also have "insertionInner lessf (?pre @ data ! k # drop (Suc k) data) (int k)
        = rev (sinkInto lessf (data ! k) (rev ?pre)) @ drop (Suc k) data"
      using insertionInner_sinks[of lessf ?pre "data ! k" "drop (Suc k) data"] len by simp
    also have "rev (sinkInto lessf (data ! k) (rev ?pre))
        = insertionSorted lessf (take (Suc k) data)"
      using k by (simp add: insertionSorted_def take_Suc_conv_app_nth)
    finally show ?thesis .
  qed
qed

lemma insertionSort_func_eq: "insertionSort_func lessf data = insertionSorted lessf data"
  using insertion_prefix[of "length data" data lessf] by (simp add: insertionSort_func_def)

lemma filter_sinkInto:
  assumes "\<And>y. lessf x y \<Longrightarrow> \<not> (P x \<and> P y)"
  shows "filter P (rev (sinkInto lessf x ys)) = filter P (rev ys @ [x])"
  using assms by (induction ys) auto

lemma filter_foldl_sinkInto:
  assumes "\<And>x y. lessf x y \<Longrightarrow> \<not> (P x \<and> P y)"
  shows "filter P (rev (foldl (\<lambda>acc x. sinkInto lessf x acc) acc xs)) = filter P (rev acc @ xs)"
proof (induction xs arbitrary: acc)
  case Nil
  show ?case by simp
next
  case (Cons x xs)
  have "filter P (rev (sinkInto lessf x acc)) = filter P (rev acc @ [x])"
    by (rule filter_sinkInto) (rule assms)
  with Cons.IH[of "sinkInto lessf x acc"] show ?case by simp
qed

lemma insertionSorted_stable:
  assumes "\<And>x y. lessf x y \<Longrightarrow> \<not> (P x \<and> P y)"
  shows "filter P (insertionSorted lessf xs) = filter P xs"
  using filter_foldl_sinkInto[of lessf P "[]" xs] assms by (simp add: insertionSorted_def)

lemma insertionSort_func_keeps_order:
  "firstSeenOrderKept recs (insertionSort_func byPriority recs)"
  unfolding firstSeenOrderKept_def insertionSort_func_eq
  by (intro allI insertionSorted_stable) (simp add: byPriority_def)

lemma mset_sinkInto: "mset (sinkInto lessf x ys) = add_mset x (mset ys)"
  by (induction ys) simp_all

lemma mset_foldl_sinkInto:
  "mset (foldl (\<lambda>acc x. sinkInto lessf x acc) acc xs) = mset acc + mset xs"
  by (induction xs arbitrary: acc) (simp_all add: mset_sinkInto)

lemma mset_insertionSorted: "mset (insertionSorted lessf xs) = mset xs"
  by (simp add: insertionSorted_def mset_foldl_sinkInto)

lemma set_sinkInto: "set (sinkInto lessf x ys) = insert x (set ys)"
  by (induction ys) auto

lemma descending_sinkInto:
  "sorted_wrt (\<lambda>a b. Priority b \<le> Priority a) ys
   \<Longrightarrow> sorted_wrt (\<lambda>a b. Priority b \<le> Priority a) (sinkInto byPriority x ys)"
  by (induction ys) (auto simp: set_sinkInto byPriority_def)

lemma descending_foldl_sinkInto:
  "sorted_wrt (\<lambda>a b. Priority b \<le> Priority a) acc
   \<Longrightarrow> sorted_wrt (\<lambda>a b. Priority b \<le> Priority a)
         (foldl (\<lambda>acc x. sinkInto byPriority x acc) acc xs)"
  by (induction xs arbitrary: acc) (simp_all add: descending_sinkInto)

lemma insertionSorted_ascending:
  "sorted_wrt (\<lambda>a b. \<not> byPriority b a) (insertionSorted byPriority xs)"
proof -
  have "sorted_wrt (\<lambda>a b. Priority b \<le> Priority a)
          (foldl (\<lambda>acc x. sinkInto byPriority x acc) [] xs)"
    by (rule descending_foldl_sinkInto) simp
  then show ?thesis
    by (simp add: insertionSorted_def sorted_wrt_rev byPriority_def not_less)
qed

lemma insertionSort_func_sorts: "sortsSlice insertionSort_func recs"
  by (simp add: sortsSlice_def insertionSort_func_eq mset_insertionSorted
      insertionSorted_ascending)

lemma goSortSlice_short:
  "length recs \<le> 12 \<Longrightarrow> goSortSlice lessf recs = insertionSort_func lessf recs"
  by (simp add: goSortSlice_def pdqsort_func_def)

lemma goSortSlice_short_sorts: "length recs \<le> 12 \<Longrightarrow> sortsSlice goSortSlice recs"
  using insertionSort_func_sorts[of recs] by (simp add: sortsSlice_def goSortSlice_short)

subsection \<open>The size of the accepted list\<close>

text \<open>
  Every accepted title is one of the thirteen titles of the table, and no title is
  accepted twice, so the slice handed to \<open>sort.Slice\<close> has at most thirteen elements:
  the modelled routine covers every slice the engine can produce.
\<close>

lemma getRecommendationsForIssue_titles:
  "r \<in> set (getRecommendationsForIssue issue pod) \<Longrightarrow> Rec_Title r \<in> set tableTitles"
  by (auto simp: getRecommendationsForIssue_def recsContainer_def recsResources_def
      recsProbes_def recsScheduling_def recsNode_def recsLogs_def tableTitles_def
      split: if_splits)

lemma acceptRec_subset: "set (fst (acceptRec st r)) \<subseteq> insert r (set (fst st))"
  by (cases st) (auto simp: acceptRec_def)

lemma foldl_acceptRec_subset: "set (fst (foldl acceptRec st rs)) \<subseteq> set (fst st) \<union> set rs"
proof (induction rs arbitrary: st)
  case Nil
  show ?case by simp
next
  case (Cons r rs)
  from Cons.IH[of "acceptRec st r"] acceptRec_subset[of st r] show ?case by auto
qed

lemma foldl_acceptIssue_titles:
  "Rec_Title ` set (fst st) \<subseteq> set tableTitles
   \<Longrightarrow> Rec_Title ` set (fst (foldl (acceptIssue pod) st issues)) \<subseteq> set tableTitles"
proof (induction issues arbitrary: st)
  case Nil
  then show ?case by simp
next
  case (Cons issue issues)
  have "Rec_Title ` set (fst (acceptIssue pod st issue)) \<subseteq> set tableTitles"
    using foldl_acceptRec_subset[of st "getRecommendationsForIssue issue pod"]
      Cons.prems getRecommendationsForIssue_titles[of _ issue pod]
    unfolding acceptIssue_def by blast
  from Cons.IH[OF this] show ?case by simp
qed

lemma acceptedRecs_at_most_thirteen: "length (acceptedRecs d) \<le> 13"
proof -
  have sub: "set (map Rec_Title (acceptedRecs d)) \<subseteq> set tableTitles"
    using foldl_acceptIssue_titles[of "([], \<lambda>_. False)" pod "Issues d" for pod]
    by (simp add: acceptedRecs_def)
  have "length (acceptedRecs d) = length (map Rec_Title (acceptedRecs d))" by simp
  also have "\<dots> = card (set (map Rec_Title (acceptedRecs d)))"
    using acceptedRecs_distinct[of d] by (rule distinct_card[symmetric])
  also have "\<dots> \<le> card (set tableTitles)"
    by (rule card_mono[OF _ sub]) simp
  also have "\<dots> \<le> length tableTitles" by (rule card_length)
  also have "\<dots> = 13" by (simp add: tableTitles_def)
  finally show ?thesis .
qed

lemma pdqsort_func_returns: "pdqsort_func byPriority (acceptedRecs d) \<noteq> None"
  using acceptedRecs_at_most_thirteen[of d]
  by (simp add: pdqsort_func_def Let_def split: prod.splits)

subsection \<open>The returned list\<close>

text \<open>
  Claim C3. For every list of issues, whenever \<open>sort.Slice\<close> does on the accepted slice
  what the library documents (a rearrangement in ascending order), the list
  \<open>generateRecommendations\<close> returns has no two entries with the same title, and its
  priorities never decrease from first to last.
\<close>

theorem generateRecommendations_distinct_sorted:
  assumes "sortsSlice sortSlice (acceptedRecs d)"
  shows "distinct (map Rec_Title (generateRecommendations sortSlice d))
       \<and> sorted (map Priority (generateRecommendations sortSlice d))"
proof -
  let ?out = "generateRecommendations sortSlice d"
  from assms have "mset ?out = mset (acceptedRecs d)"
    by (simp add: sortsSlice_def generateRecommendations_def)
  then have "mset (map Rec_Title ?out) = mset (map Rec_Title (acceptedRecs d))"
    by simp
  then have "distinct (map Rec_Title ?out) = distinct (map Rec_Title (acceptedRecs d))"
    by (rule mset_eq_imp_distinct_iff)
  then have "distinct (map Rec_Title ?out)"
    by (simp add: acceptedRecs_distinct)
  moreover have "sorted (map Priority ?out)"
    using sortsSlice_ascending[OF assms] by (simp add: generateRecommendations_def)
  ultimately show ?thesis by simp
qed

theorem generateRecommendations_distinct_sorted_witness:
  "sortsSlice goSortSlice (acceptedRecs smallDiagnosis)
   \<and> map Rec_Title (generateRecommendations goSortSlice smallDiagnosis)
       = [''Check node status'', ''Add health probes'']
   \<and> distinct (map Rec_Title (generateRecommendations goSortSlice smallDiagnosis))
   \<and> sorted (map Priority (generateRecommendations goSortSlice smallDiagnosis))"
proof -
  have len: "length (acceptedRecs smallDiagnosis) \<le> 12" by code_simp
  have h: "sortsSlice goSortSlice (acceptedRecs smallDiagnosis)"
    using len by (rule goSortSlice_short_sorts)
  have v: "map Rec_Title (generateRecommendations goSortSlice smallDiagnosis)
       = [''Check node status'', ''Add health probes'']"
    by code_simp
  from generateRecommendations_distinct_sorted [OF h] h v show ?thesis by simp
qed

lemma thirteenDiagnosis_order_changed:
  "length (acceptedRecs thirteenDiagnosis) = 13
   \<and> sortsSlice goSortSlice (acceptedRecs thirteenDiagnosis)
   \<and> \<not> firstSeenOrderKept (acceptedRecs thirteenDiagnosis)
         (generateRecommendations goSortSlice thirteenDiagnosis)"
proof -
  have len: "length (acceptedRecs thirteenDiagnosis) = 13"
    by code_simp
  have perm: "mset (goSortSlice byPriority (acceptedRecs thirteenDiagnosis))
      = mset (acceptedRecs thirteenDiagnosis)"
    by code_simp
  have asc: "sorted_wrt (\<lambda>a b. \<not> byPriority b a)
      (goSortSlice byPriority (acceptedRecs thirteenDiagnosis))"
    by code_simp
  have "map Rec_Title (filter (\<lambda>r. Priority r = 1)
          (generateRecommendations goSortSlice thirteenDiagnosis))
      \<noteq> map Rec_Title (filter (\<lambda>r. Priority r = 1) (acceptedRecs thirteenDiagnosis))"
    by code_simp
  then have "filter (\<lambda>r. Priority r = 1) (generateRecommendations goSortSlice thirteenDiagnosis)
      \<noteq> filter (\<lambda>r. Priority r = 1) (acceptedRecs thirteenDiagnosis)"
    by auto
  then have "\<not> firstSeenOrderKept (acceptedRecs thirteenDiagnosis)
         (generateRecommendations goSortSlice thirteenDiagnosis)"
    unfolding firstSeenOrderKept_def by blast
  with len perm asc show ?thesis by (simp add: sortsSlice_def)
qed

text \<open>
  Claim C4, as the code has it. The final sort is \<open>sort.Slice\<close>, not a stable sort.
  Whenever it does what the library documents, the returned list is in ascending
  priority and holds, for each priority, exactly the recommendations accepted with
  that priority, in some order. With the library's routine as modelled in
  \<open>goSortSlice\<close>, the first-seen order among equal priorities is kept whenever at most
  12 recommendations were accepted (the insertion sort runs). At most 13 can be
  accepted, and the first-seen order is not kept for every 13: there is a diagnosis with
  13 accepted recommendations that the routine sorts as documented without keeping the
  first-seen order among equal priorities.
\<close>

theorem generateRecommendations_sort_ties:
  "(sortsSlice sortSlice (acceptedRecs d) \<longrightarrow>
      sorted (map Priority (generateRecommendations sortSlice d))
      \<and> (\<forall>p. mset (filter (\<lambda>r. Priority r = p) (generateRecommendations sortSlice d))
             = mset (filter (\<lambda>r. Priority r = p) (acceptedRecs d))))
   \<and> (length (acceptedRecs d) \<le> 12 \<longrightarrow>
      firstSeenOrderKept (acceptedRecs d) (generateRecommendations goSortSlice d))
   \<and> length (acceptedRecs d) \<le> 13
   \<and> (\<exists>d13. length (acceptedRecs d13) = 13
         \<and> sortsSlice goSortSlice (acceptedRecs d13)
         \<and> \<not> firstSeenOrderKept (acceptedRecs d13) (generateRecommendations goSortSlice d13))"
proof (intro conjI impI allI)
  assume h: "sortsSlice sortSlice (acceptedRecs d)"
  show "sorted (map Priority (generateRecommendations sortSlice d))"
    using sortsSlice_ascending[OF h] by (simp add: generateRecommendations_def)
  fix p
  from h have "mset (generateRecommendations sortSlice d) = mset (acceptedRecs d)"
    by (simp add: sortsSlice_def generateRecommendations_def)
  then show "mset (filter (\<lambda>r. Priority r = p) (generateRecommendations sortSlice d))
      = mset (filter (\<lambda>r. Priority r = p) (acceptedRecs d))"
    by (simp only: mset_filter)
next
  assume "length (acceptedRecs d) \<le> 12"
  then show "firstSeenOrderKept (acceptedRecs d) (generateRecommendations goSortSlice d)"
    by (simp add: generateRecommendations_def goSortSlice_short
        insertionSort_func_keeps_order)
next
  show "length (acceptedRecs d) \<le> 13"
    by (rule acceptedRecs_at_most_thirteen)
next
  show "\<exists>d13. length (acceptedRecs d13) = 13
         \<and> sortsSlice goSortSlice (acceptedRecs d13)
         \<and> \<not> firstSeenOrderKept (acceptedRecs d13) (generateRecommendations goSortSlice d13)"
    using thirteenDiagnosis_order_changed by (rule exI)
qed

theorem generateRecommendations_sort_ties_witness:
  "sortsSlice goSortSlice (acceptedRecs mixedDiagnosis)
   \<and> length (acceptedRecs mixedDiagnosis) \<le> 12
   \<and> map Rec_Title (acceptedRecs mixedDiagnosis)
       = [''Review full logs'', ''Check node status'',
          ''Configure resource requests and limits'', ''Increase memory limit'']
   \<and> map Rec_Title (generateRecommendations goSortSlice mixedDiagnosis)
       = [''Check node status'', ''Increase memory limit'',
          ''Review full logs'', ''Configure resource requests and limits'']
   \<and> sorted (map Priority (generateRecommendations goSortSlice mixedDiagnosis))
   \<and> (\<forall>p. mset (filter (\<lambda>r. Priority r = p) (generateRecommendations goSortSlice mixedDiagnosis))
          = mset (filter (\<lambda>r. Priority r = p) (acceptedRecs mixedDiagnosis)))
   \<and> firstSeenOrderKept (acceptedRecs mixedDiagnosis)
        (generateRecommendations goSortSlice mixedDiagnosis)"
proof -
  have len: "length (acceptedRecs mixedDiagnosis) \<le> 12" by code_simp
  have h: "sortsSlice goSortSlice (acceptedRecs mixedDiagnosis)"
    using len by (rule goSortSlice_short_sorts)
  have a: "map Rec_Title (acceptedRecs mixedDiagnosis)
       = [''Review full logs'', ''Check node status'',
          ''Configure resource requests and limits'', ''Increase memory limit'']"
    by code_simp
  have v: "map Rec_Title (generateRecommendations goSortSlice mixedDiagnosis)
       = [''Check node status'', ''Increase memory limit'',
          ''Review full logs'', ''Configure resource requests and limits'']"
    by code_simp
  note ties = generateRecommendations_sort_ties [of goSortSlice mixedDiagnosis]
  from ties [THEN conjunct1] h
  have asc: "sorted (map Priority (generateRecommendations goSortSlice mixedDiagnosis))
     \<and> (\<forall>p. mset (filter (\<lambda>r. Priority r = p) (generateRecommendations goSortSlice mixedDiagnosis))
          = mset (filter (\<lambda>r. Priority r = p) (acceptedRecs mixedDiagnosis)))"
    by (rule mp)
  from ties [THEN conjunct2, THEN conjunct1] len
  have kept: "firstSeenOrderKept (acceptedRecs mixedDiagnosis)
        (generateRecommendations goSortSlice mixedDiagnosis)"
    by (rule mp)
  show ?thesis
    by (intro conjI h len a v asc [THEN conjunct1] asc [THEN conjunct2] kept)
qed

section \<open>Properties of the log analyzer\<close>

lemma truncateLine_200:
  "truncateLine line 200 = Some (if length line \<le> 200 then line else take 197 line @ ''...'')"
  by (simp add: truncateLine_def)









subsection \<open>No panic\<close>

lemma matchLine_total:
  "\<exists>m'. matchLine MatchString patterns line m = Some m'
        \<and> (samplesNonEmpty m \<longrightarrow> samplesNonEmpty m')
        \<and> (\<forall>t. m t \<noteq> None \<longrightarrow> m' t \<noteq> None)
        \<and> (\<forall>p \<in> set patterns. MatchString (Pattern p) line \<longrightarrow> m' (EP_Title p) \<noteq> None)"
proof (induction patterns arbitrary: m)
  case Nil
  show ?case by simp
next
  case (Cons p ps)
  show ?case
  proof (cases "MatchString (Pattern p) line")
    case False
    from Cons.IH[of m] obtain m' where
      r: "matchLine MatchString ps line m = Some m'"
      and ne: "samplesNonEmpty m \<longrightarrow> samplesNonEmpty m'"
      and keep: "\<forall>t. m t \<noteq> None \<longrightarrow> m' t \<noteq> None"
      and hit: "\<forall>p \<in> set ps. MatchString (Pattern p) line \<longrightarrow> m' (EP_Title p) \<noteq> None"
      by blast
    have "matchLine MatchString (p # ps) line m = Some m'"
      using False r by simp
    moreover have "\<forall>q \<in> set (p # ps). MatchString (Pattern q) line \<longrightarrow> m' (EP_Title q) \<noteq> None"
      using False hit by simp
    ultimately show ?thesis using ne keep by blast
  next
    case True
    define sample where "sample = (if length line \<le> 200 then line else take 197 line @ ''...'')"
    define m1 where "m1 = m(EP_Title p \<mapsto> (case m (EP_Title p) of None \<Rightarrow> [] | Some old \<Rightarrow> old) @ [sample])"
    have m1_ne: "samplesNonEmpty m \<longrightarrow> samplesNonEmpty m1"
      by (simp add: samplesNonEmpty_def m1_def)
    have m1_keep: "\<forall>t. m t \<noteq> None \<longrightarrow> m1 t \<noteq> None"
      by (simp add: m1_def)
    have m1_hit: "m1 (EP_Title p) \<noteq> None"
      by (simp add: m1_def)
    from Cons.IH[of m1] obtain m' where
      r: "matchLine MatchString ps line m1 = Some m'"
      and ne: "samplesNonEmpty m1 \<longrightarrow> samplesNonEmpty m'"
      and keep: "\<forall>t. m1 t \<noteq> None \<longrightarrow> m' t \<noteq> None"
      and hit: "\<forall>p \<in> set ps. MatchString (Pattern p) line \<longrightarrow> m' (EP_Title p) \<noteq> None"
      by blast
    have "matchLine MatchString (p # ps) line m = Some m'"
      using True r by (simp add: truncateLine_200 m1_def sample_def)
    moreover have "samplesNonEmpty m \<longrightarrow> samplesNonEmpty m'"
      using ne m1_ne by blast
    moreover have "\<forall>t. m t \<noteq> None \<longrightarrow> m' t \<noteq> None"
      using keep m1_keep by blast
    moreover have "\<forall>q \<in> set (p # ps). MatchString (Pattern q) line \<longrightarrow> m' (EP_Title q) \<noteq> None"
      using keep hit m1_hit by simp
    ultimately show ?thesis by blast
  qed
qed

lemma scanLines_total:
  "\<exists>m'. scanLines MatchString TrimSpace patterns lines m = Some m'
        \<and> (samplesNonEmpty m \<longrightarrow> samplesNonEmpty m')
        \<and> (\<forall>t. m t \<noteq> None \<longrightarrow> m' t \<noteq> None)
        \<and> (\<forall>line \<in> set lines. \<forall>p \<in> set patterns.
              TrimSpace line \<noteq> [] \<and> MatchString (Pattern p) line \<longrightarrow> m' (EP_Title p) \<noteq> None)"
proof (induction lines arbitrary: m)
  case Nil
  show ?case by simp
next
  case (Cons line rest)
  show ?case
  proof (cases "TrimSpace line = []")
    case True
    with Cons.IH[of m] show ?thesis by auto
  next
    case False
    from matchLine_total[of MatchString patterns line m] obtain m1 where
      s1: "matchLine MatchString patterns line m = Some m1"
      and ne1: "samplesNonEmpty m \<longrightarrow> samplesNonEmpty m1"
      and keep1: "\<forall>t. m t \<noteq> None \<longrightarrow> m1 t \<noteq> None"
      and hit1: "\<forall>p \<in> set patterns. MatchString (Pattern p) line \<longrightarrow> m1 (EP_Title p) \<noteq> None"
      by blast
    from Cons.IH[of m1] obtain m' where
      s2: "scanLines MatchString TrimSpace patterns rest m1 = Some m'"
      and ne2: "samplesNonEmpty m1 \<longrightarrow> samplesNonEmpty m'"
      and keep2: "\<forall>t. m1 t \<noteq> None \<longrightarrow> m' t \<noteq> None"
      and hit2: "\<forall>line \<in> set rest. \<forall>p \<in> set patterns.
              TrimSpace line \<noteq> [] \<and> MatchString (Pattern p) line \<longrightarrow> m' (EP_Title p) \<noteq> None"
      by blast
    have "scanLines MatchString TrimSpace patterns (line # rest) m = Some m'"
      using False s1 s2 by simp
    moreover have "samplesNonEmpty m \<longrightarrow> samplesNonEmpty m'"
      using ne1 ne2 by blast
    moreover have "\<forall>t. m t \<noteq> None \<longrightarrow> m' t \<noteq> None"
      using keep1 keep2 by blast
    moreover have "\<forall>l \<in> set (line # rest). \<forall>p \<in> set patterns.
              TrimSpace l \<noteq> [] \<and> MatchString (Pattern p) l \<longrightarrow> m' (EP_Title p) \<noteq> None"
      using hit1 keep2 hit2 by auto
    ultimately show ?thesis by blast
  qed
qed

lemma patternIssue_Some: "matches \<noteq> [] \<Longrightarrow> patternIssue c p matches \<noteq> None"
  by (cases matches) (simp_all add: patternIssue_def)

lemma emitIssues_emitted:
  "samplesNonEmpty m \<Longrightarrow> emitIssues c m patterns issues = Some (issues @ emitted c m patterns)"
proof (induction patterns arbitrary: issues)
  case Nil
  show ?case by (simp add: emitted_def List.map_filter_simps)
next
  case (Cons p ps)
  show ?case
  proof (cases "m (EP_Title p)")
    case None
    with Cons show ?thesis by (simp add: emitted_def List.map_filter_simps)
  next
    case (Some matches)
    with Cons.prems have "matches \<noteq> []" by (auto simp: samplesNonEmpty_def)
    then obtain issue where i: "patternIssue c p matches = Some issue"
      using patternIssue_Some[of matches c p] by auto
    with Some Cons show ?thesis by (simp add: emitted_def List.map_filter_simps)
  qed
qed

lemma samplesNonEmpty_empty: "samplesNonEmpty Map.empty"
  by (simp add: samplesNonEmpty_def)

lemma analyzeContainerLogs_result:
  "analyzeContainerLogs MatchString TrimSpace patterns client namespace podName containerName previous
     = (case GetPodLogs client namespace podName containerName 100 previous of
          Inl err \<Rightarrow> Some (Inl err)
        | Inr logs \<Rightarrow> Some (Inr (logIssues MatchString TrimSpace patterns containerName logs)))"
proof (cases "GetPodLogs client namespace podName containerName 100 previous")
  case (Inl err)
  then show ?thesis by (simp add: analyzeContainerLogs_def)
next
  case (Inr logs)
  from scanLines_total[of MatchString TrimSpace patterns "strings_Split logs" Map.empty]
  obtain m where s: "scanLines MatchString TrimSpace patterns (strings_Split logs) Map.empty = Some m"
    and ne: "samplesNonEmpty m"
    using samplesNonEmpty_empty by blast
  from Inr s emitIssues_emitted[OF ne, of containerName patterns "[]"] show ?thesis
    by (simp add: analyzeContainerLogs_def logIssues_def)
qed

lemma logContainers_result:
  "logContainers MatchString TrimSpace patterns client pod containers issues
     = Some (issues @ concat (map (containerLogIssues MatchString TrimSpace patterns client pod) containers))"
  by (induction containers arbitrary: issues)
     (simp_all add: analyzeContainerLogs_result containerLogIssues_def split: sum.splits)

text \<open>
  Claim C6. \<open>LogAnalyzer.Analyze\<close> neither panics nor returns an error: it returns, in
  container order, what each container contributes, which is the issues of its current
  logs, or of its previous logs when the current ones cannot be fetched, or nothing when
  both fetches fail; the contributions of the other containers are returned all the same.
\<close>

theorem LogAnalyzer_Analyze_never_fails:
  "LogAnalyzer_Analyze MatchString TrimSpace patterns pod client
     = Some (Inr (concat (map (containerLogIssues MatchString TrimSpace patterns client pod)
                            (Containers (Spec pod)))))"
  by (simp add: LogAnalyzer_Analyze_def logContainers_result)

theorem LogAnalyzer_Analyze_never_fails_witness:
  "GetPodLogs logsClient ''default'' ''web'' ''side'' 100 False
     = Inl (Error ''container logs are not available'')
   \<and> GetPodLogs logsClient ''default'' ''web'' ''side'' 100 True
     = Inl (Error ''container logs are not available'')
   \<and> LogAnalyzer_Analyze exampleMatchString trimSpaceASCII NewLogAnalyzer threeContainerPod logsClient
     = Some (Inr (concat (map (containerLogIssues exampleMatchString trimSpaceASCII NewLogAnalyzer
                                 logsClient threeContainerPod)
                            (Containers (Spec threeContainerPod)))))
   \<and> map (map Title)
        (map (containerLogIssues exampleMatchString trimSpaceASCII NewLogAnalyzer
                logsClient threeContainerPod)
           (Containers (Spec threeContainerPod)))
     = [[''[app] Panic detected''],
        [''[cache] Connection refused'', ''[cache] Connection refused''],
        []]"
proof -
  have f1: "GetPodLogs logsClient ''default'' ''web'' ''side'' 100 False
     = Inl (Error ''container logs are not available'')"
    and f2: "GetPodLogs logsClient ''default'' ''web'' ''side'' 100 True
     = Inl (Error ''container logs are not available'')"
    by (simp_all add: GetPodLogs_def logsClient_def)
  have v: "map (map Title)
        (map (containerLogIssues exampleMatchString trimSpaceASCII NewLogAnalyzer
                logsClient threeContainerPod)
           (Containers (Spec threeContainerPod)))
     = [[''[app] Panic detected''],
        [''[cache] Connection refused'', ''[cache] Connection refused''],
        []]"
    by code_simp
  from LogAnalyzer_Analyze_never_fails
         [of exampleMatchString trimSpaceASCII NewLogAnalyzer threeContainerPod logsClient]
    f1 f2 v
  show ?thesis by simp
qed

subsection \<open>Two table entries with one title\<close>

lemma patternIssue_Title:
  "patternIssue c p matches = Some issue \<Longrightarrow> Title issue = ''['' @ c @ ''] '' @ EP_Title p"
  by (cases matches) (auto simp: patternIssue_def)

lemma filter_emitted:
  "filter (\<lambda>i. Title i = ''['' @ c @ ''] '' @ T) (emitted c m patterns)
     = emitted c m (filter (\<lambda>p. EP_Title p = T) patterns)"
proof (induction patterns)
  case Nil
  show ?case by (simp add: emitted_def List.map_filter_simps)
next
  case (Cons p ps)
  show ?case
  proof (cases "m (EP_Title p)")
    case None
    with Cons show ?thesis by (auto simp: emitted_def List.map_filter_simps)
  next
    case (Some matches)
    show ?thesis
    proof (cases "patternIssue c p matches")
      case None
      with Some Cons show ?thesis by (auto simp: emitted_def List.map_filter_simps)
    next
      case (Some issue)
      from patternIssue_Title[OF Some]
      have "(Title issue = ''['' @ c @ ''] '' @ T) = (EP_Title p = T)" by simp
      with Some \<open>m (EP_Title p) = Some matches\<close> Cons show ?thesis
        by (auto simp: emitted_def List.map_filter_simps)
    qed
  qed
qed

lemma connection_refused_entries:
  "filter (\<lambda>p. EP_Title p = ''Connection refused'') NewLogAnalyzer
     = [\<lparr>Pattern = ''(?i)connection'' @ backslash @ ''s*refused'', EP_Title = ''Connection refused'',
         EP_Description = ''Cannot connect to a service'', EP_Severity = SeverityWarning\<rparr>,
        \<lparr>Pattern = ''(?i)ECONNREFUSED'', EP_Title = ''Connection refused'',
         EP_Description = ''TCP connection refused'', EP_Severity = SeverityWarning\<rparr>]"
  by (simp add: NewLogAnalyzer_def)

text \<open>
  Claim C9. Whenever the fetched log text has a line that is not blank and that either
  connection-refused expression matches, \<open>analyzeContainerLogs\<close> returns exactly two
  issues titled \<open>[<container>] Connection refused\<close>, one for each of the two table
  entries of that title; they carry the same details (the samples and count stored
  under the shared title) and differ in their descriptions.
\<close>

theorem analyzeContainerLogs_connection_refused_twice:
  assumes logs: "GetPodLogs client namespace podName containerName 100 previous = Inr logs"
    and trim: "TrimSpace [] = []"
    and line: "line \<in> set (strings_Split logs)"
    and nonblank: "TrimSpace line \<noteq> []"
    and matches: "MatchString (''(?i)connection'' @ backslash @ ''s*refused'') line
                  \<or> MatchString ''(?i)ECONNREFUSED'' line"
  shows "\<exists>issues first second.
           analyzeContainerLogs MatchString TrimSpace NewLogAnalyzer client namespace podName
             containerName previous = Some (Inr issues)
           \<and> filter (\<lambda>i. Title i = ''['' @ containerName @ ''] Connection refused'') issues
               = [first, second]
           \<and> Details first = Details second
           \<and> Description first = ''Cannot connect to a service''
           \<and> Description second = ''TCP connection refused''"
proof -
  have nonempty: "logs \<noteq> []"
  proof
    assume "logs = []"
    with line have "line = []" by simp
    with trim nonblank show False by simp
  qed
  from scanLines_total[of MatchString TrimSpace NewLogAnalyzer "strings_Split logs" Map.empty]
  obtain m where s: "scanLines MatchString TrimSpace NewLogAnalyzer (strings_Split logs) Map.empty = Some m"
    and ne: "samplesNonEmpty m"
    and hit: "\<forall>l \<in> set (strings_Split logs). \<forall>p \<in> set NewLogAnalyzer.
              TrimSpace l \<noteq> [] \<and> MatchString (Pattern p) l \<longrightarrow> m (EP_Title p) \<noteq> None"
    using samplesNonEmpty_empty by blast
  let ?p4 = "\<lparr>Pattern = ''(?i)connection'' @ backslash @ ''s*refused'', EP_Title = ''Connection refused'',
         EP_Description = ''Cannot connect to a service'', EP_Severity = SeverityWarning\<rparr>"
  let ?p5 = "\<lparr>Pattern = ''(?i)ECONNREFUSED'', EP_Title = ''Connection refused'',
         EP_Description = ''TCP connection refused'', EP_Severity = SeverityWarning\<rparr>"
  have in4: "?p4 \<in> set NewLogAnalyzer" and in5: "?p5 \<in> set NewLogAnalyzer"
    by (simp_all add: NewLogAnalyzer_def)
  have "m ''Connection refused'' \<noteq> None"
  proof (cases "MatchString (''(?i)connection'' @ backslash @ ''s*refused'') line")
    case True
    with hit line nonblank in4 have "m (EP_Title ?p4) \<noteq> None" by force
    then show ?thesis by simp
  next
    case False
    with matches have "MatchString ''(?i)ECONNREFUSED'' line" by simp
    with hit line nonblank in5 have "m (EP_Title ?p5) \<noteq> None" by force
    then show ?thesis by simp
  qed
  then obtain stored where st: "m ''Connection refused'' = Some stored" by blast
  with ne have "stored \<noteq> []" by (auto simp: samplesNonEmpty_def)
  then obtain sample more where sm: "stored = sample # more" by (cases stored) auto
  let ?issues = "emitted containerName m NewLogAnalyzer"
  have res: "analyzeContainerLogs MatchString TrimSpace NewLogAnalyzer client namespace podName
             containerName previous = Some (Inr ?issues)"
    using logs nonempty s emitIssues_emitted[OF ne, of containerName NewLogAnalyzer "[]"]
    by (simp add: analyzeContainerLogs_def)
  have "filter (\<lambda>i. Title i = ''['' @ containerName @ ''] '' @ ''Connection refused'') ?issues
          = emitted containerName m [?p4, ?p5]"
    by (simp only: filter_emitted connection_refused_entries)
  then have f: "filter (\<lambda>i. Title i = ''['' @ containerName @ ''] Connection refused'') ?issues
          = emitted containerName m [?p4, ?p5]"
    by simp
  obtain first second where
    e: "emitted containerName m [?p4, ?p5] = [first, second]"
    and d: "Details first = Details second"
    and d1: "Description first = ''Cannot connect to a service''"
    and d2: "Description second = ''TCP connection refused''"
    using st sm by (simp add: emitted_def List.map_filter_simps patternIssue_def)
  show ?thesis
    by (rule exI[of _ ?issues], rule exI[of _ first], rule exI[of _ second])
       (use res f e d d1 d2 in simp)
qed

theorem analyzeContainerLogs_connection_refused_twice_witness:
  "GetPodLogs logsClient ''default'' ''web'' ''cache'' 100 True = Inr cacheLogs
   \<and> trimSpaceASCII [] = []
   \<and> ''dial tcp 10.0.0.5:6379: connect: connection refused'' \<in> set (strings_Split cacheLogs)
   \<and> trimSpaceASCII ''dial tcp 10.0.0.5:6379: connect: connection refused'' \<noteq> []
   \<and> exampleMatchString (''(?i)connection'' @ backslash @ ''s*refused'')
         ''dial tcp 10.0.0.5:6379: connect: connection refused''
   \<and> (\<exists>issues first second.
         analyzeContainerLogs exampleMatchString trimSpaceASCII NewLogAnalyzer logsClient
           ''default'' ''web'' ''cache'' True = Some (Inr issues)
         \<and> filter (\<lambda>i. Title i = ''['' @ ''cache'' @ ''] Connection refused'') issues
             = [first, second]
         \<and> Details first = Details second
         \<and> Description first = ''Cannot connect to a service''
         \<and> Description second = ''TCP connection refused'')
   \<and> map_option (map_sum id (map (\<lambda>i. (Title i, Description i, Details i ''match_count''))))
        (analyzeContainerLogs exampleMatchString trimSpaceASCII NewLogAnalyzer logsClient
           ''default'' ''web'' ''cache'' True)
       = Some (Inr [(''[cache] Connection refused'', ''Cannot connect to a service'', Some ''1''),
                    (''[cache] Connection refused'', ''TCP connection refused'', Some ''1'')])"
proof -
  have h1: "GetPodLogs logsClient ''default'' ''web'' ''cache'' 100 True = Inr cacheLogs"
    by (simp add: GetPodLogs_def logsClient_def)
  have h2: "trimSpaceASCII [] = []"
    by (simp add: trimSpaceASCII_def)
  have h3: "''dial tcp 10.0.0.5:6379: connect: connection refused'' \<in> set (strings_Split cacheLogs)"
    by code_simp
  have h4: "trimSpaceASCII ''dial tcp 10.0.0.5:6379: connect: connection refused'' \<noteq> []"
    by code_simp
  have h5: "exampleMatchString (''(?i)connection'' @ backslash @ ''s*refused'')
         ''dial tcp 10.0.0.5:6379: connect: connection refused''"
    by code_simp
  have v: "map_option (map_sum id (map (\<lambda>i. (Title i, Description i, Details i ''match_count''))))
        (analyzeContainerLogs exampleMatchString trimSpaceASCII NewLogAnalyzer logsClient
           ''default'' ''web'' ''cache'' True)
       = Some (Inr [(''[cache] Connection refused'', ''Cannot connect to a service'', Some ''1''),
                    (''[cache] Connection refused'', ''TCP connection refused'', Some ''1'')])"
    by code_simp
  have h5d: "exampleMatchString (''(?i)connection'' @ backslash @ ''s*refused'')
           ''dial tcp 10.0.0.5:6379: connect: connection refused''
         \<or> exampleMatchString ''(?i)ECONNREFUSED''
           ''dial tcp 10.0.0.5:6379: connect: connection refused''"
    using h5 by simp
  from analyzeContainerLogs_connection_refused_twice
         [where MatchString = exampleMatchString and TrimSpace = trimSpaceASCII,
          OF h1 h2 h3 h4 h5d]
    h1 h2 h3 h4 h5 v
  show ?thesis by simp
qed

section \<open>Properties of the diagnostic pipeline\<close>

lemma foldl_AddIssue: "foldl AddIssue d issues = d\<lparr>Issues := Issues d @ issues\<rparr>"
  by (induction issues arbitrary: d) (simp_all add: AddIssue_def)

lemma runAnalyzers_result:
  "\<forall>a \<in> set analyzers. a pod client \<noteq> None \<Longrightarrow>
   runAnalyzers analyzers pod client d
     = Some (d\<lparr>Issues := Issues d @ concat (map (analyzerIssues pod client) analyzers)\<rparr>)"
proof (induction analyzers arbitrary: d)
  case Nil
  show ?case by simp
next
  case (Cons a rest)
  from Cons.prems obtain r where r: "a pod client = Some r" by auto
  from Cons.prems have rest: "\<forall>a \<in> set rest. a pod client \<noteq> None" by simp
  show ?case
  proof (cases r)
    case (Inl err)
    with r Cons.IH[OF rest, of d] show ?thesis by (simp add: analyzerIssues_def)
  next
    case (Inr issues)
    with r Cons.IH[OF rest, of "foldl AddIssue d issues"] show ?thesis
      by (simp add: analyzerIssues_def foldl_AddIssue)
  qed
qed

lemma NewPodAnalyzer_never_panics: "\<forall>a \<in> set (NewPodAnalyzer rt). a pod client \<noteq> None"
  by (simp add: NewPodAnalyzer_def LogAnalyzer_Analyze_def logContainers_result)

lemma Diagnose_result:
  assumes "GetPod client namespace name = Inr pod"
    and "\<forall>a \<in> set analyzers. a pod client \<noteq> None"
  shows "\<exists>d4. Diagnose rt analyzers client namespace name
                = Some (Inr (d4\<lparr>Recommendations := generateRecommendations (sort_Slice rt) d4\<rparr>))
              \<and> Issues d4 = concat (map (analyzerIssues pod client) analyzers)
              \<and> D_Pod d4 = ExtractPodInfo (time_Since rt) pod"
proof -
  let ?d1 = "(NewDiagnosis (time_Now rt) (ExtractPodInfo (time_Since rt) pod))
               \<lparr>D_Status := detectPodStatus pod\<rparr>"
  let ?d2 = "?d1\<lparr>Issues := Issues ?d1 @ concat (map (analyzerIssues pod client) analyzers)\<rparr>"
  let ?d3 = "case GetPodEvents client namespace name of
               Inr events \<Rightarrow> ?d2\<lparr>Events := events\<rparr>
             | Inl err \<Rightarrow> ?d2"
  let ?d4 = "if NodeName (Spec pod) \<noteq> [] then
               (case GetNodeHealth client (NodeName (Spec pod)) of
                  Inr nodeHealth \<Rightarrow> ?d3\<lparr>Node := Some nodeHealth\<rparr>
                | Inl err \<Rightarrow> ?d3)
             else ?d3"
  have r: "Diagnose rt analyzers client namespace name
        = Some (Inr (?d4\<lparr>Recommendations := generateRecommendations (sort_Slice rt) ?d4\<rparr>))"
    using assms(1) by (simp add: Diagnose_def Let_def runAnalyzers_result[OF assms(2)])
  have i: "Issues ?d4 = concat (map (analyzerIssues pod client) analyzers)"
    by (simp add: NewDiagnosis_def split: sum.splits)
  have p: "D_Pod ?d4 = ExtractPodInfo (time_Since rt) pod"
    by (simp add: NewDiagnosis_def split: sum.splits)
  show ?thesis
    by (rule exI[of _ ?d4]) (simp only: r i p simp_thms)
qed

text \<open>
  Claim C8. \<open>Diagnose\<close> returns the error of the pod fetch when that fetch fails, and
  otherwise, for analyzers that do not panic (as the six of \<open>NewPodAnalyzer\<close> do not), it
  returns a diagnosis, never an error: the issues are those of the analyzers that
  returned no error, in analyzer order, an analyzer that returned an error adding
  nothing; the events are the fetched ones, or none when their fetch fails; the node
  health is the fetched one, or absent when the pod has no node or the fetch fails.
\<close>

theorem Diagnose_fails_only_on_pod_fetch:
  "(GetPod client namespace name = Inl err \<longrightarrow>
      Diagnose rt analyzers client namespace name = Some (Inl err))
   \<and> (GetPod client namespace name = Inr pod \<and> (\<forall>a \<in> set analyzers. a pod client \<noteq> None) \<longrightarrow>
      (\<exists>d. Diagnose rt analyzers client namespace name = Some (Inr d)
         \<and> Issues d = concat (map (analyzerIssues pod client) analyzers)
         \<and> Events d = (case GetPodEvents client namespace name of
                          Inr events \<Rightarrow> events
                        | Inl e \<Rightarrow> [])
         \<and> Node d = (if NodeName (Spec pod) \<noteq> [] then
                        (case GetNodeHealth client (NodeName (Spec pod)) of
                           Inr nodeHealth \<Rightarrow> Some nodeHealth
                         | Inl e \<Rightarrow> None)
                      else None)))"
proof (intro conjI impI)
  assume "GetPod client namespace name = Inl err"
  then show "Diagnose rt analyzers client namespace name = Some (Inl err)"
    by (simp add: Diagnose_def)
next
  assume a: "GetPod client namespace name = Inr pod \<and> (\<forall>a \<in> set analyzers. a pod client \<noteq> None)"
  then have p: "GetPod client namespace name = Inr pod"
    and np: "\<forall>a \<in> set analyzers. a pod client \<noteq> None" by simp_all
  show "\<exists>d. Diagnose rt analyzers client namespace name = Some (Inr d)
         \<and> Issues d = concat (map (analyzerIssues pod client) analyzers)
         \<and> Events d = (case GetPodEvents client namespace name of
                          Inr events \<Rightarrow> events
                        | Inl e \<Rightarrow> [])
         \<and> Node d = (if NodeName (Spec pod) \<noteq> [] then
                        (case GetNodeHealth client (NodeName (Spec pod)) of
                           Inr nodeHealth \<Rightarrow> Some nodeHealth
                         | Inl e \<Rightarrow> None)
                      else None)"
    using p
    by (simp add: Diagnose_def Let_def runAnalyzers_result[OF np] NewDiagnosis_def
        split: sum.splits)
qed

theorem Diagnose_fails_only_on_pod_fetch_witness:
  "GetPod restrictedClient ''default'' ''gone'' = Inl (Error ''pods not found'')
   \<and> Diagnose exampleRuntime (NewPodAnalyzer exampleRuntime) restrictedClient ''default'' ''gone''
       = Some (Inl (Error ''pods not found''))
   \<and> GetPod restrictedClient ''default'' ''web'' = Inr bestEffortPod
   \<and> map (\<lambda>a. map_option (map_sum id (map Title)) (a bestEffortPod restrictedClient))
        (NewPodAnalyzer exampleRuntime)
       = [Some (Inr []),
          Some (Inl (Error ''events is forbidden'')),
          Some (Inr []),
          Some (Inl (Error ''nodes is forbidden'')),
          Some (Inr [''No resource limits for app'', ''No resource requests for app'',
                     ''BestEffort QoS for app'']),
          Some (Inr [''No health probes for app''])]
   \<and> (\<exists>d. Diagnose exampleRuntime (NewPodAnalyzer exampleRuntime) restrictedClient ''default'' ''web''
            = Some (Inr d)
          \<and> map Title (Issues d)
              = [''No resource limits for app'', ''No resource requests for app'',
                 ''BestEffort QoS for app'', ''No health probes for app'']
          \<and> Events d = []
          \<and> Node d = None)"
proof -
  have g: "GetPod restrictedClient ''default'' ''gone'' = Inl (Error ''pods not found'')"
    and w: "GetPod restrictedClient ''default'' ''web'' = Inr bestEffortPod"
    by (simp_all add: GetPod_def restrictedClient_def quietClient_def)
  have np: "\<forall>a \<in> set (NewPodAnalyzer exampleRuntime). a bestEffortPod restrictedClient \<noteq> None"
    by (rule NewPodAnalyzer_never_panics)
  have each: "map (\<lambda>a. map_option (map_sum id (map Title)) (a bestEffortPod restrictedClient))
        (NewPodAnalyzer exampleRuntime)
       = [Some (Inr []),
          Some (Inl (Error ''events is forbidden'')),
          Some (Inr []),
          Some (Inl (Error ''nodes is forbidden'')),
          Some (Inr [''No resource limits for app'', ''No resource requests for app'',
                     ''BestEffort QoS for app'']),
          Some (Inr [''No health probes for app''])]"
    by code_simp
  have titles: "map Title (concat (map (analyzerIssues bestEffortPod restrictedClient)
                                     (NewPodAnalyzer exampleRuntime)))
       = [''No resource limits for app'', ''No resource requests for app'',
          ''BestEffort QoS for app'', ''No health probes for app'']"
    by code_simp
  have ev: "GetPodEvents restrictedClient ''default'' ''web'' = Inl (Error ''events is forbidden'')"
    by (simp add: GetPodEvents_def restrictedClient_def quietClient_def)
  have nh: "GetNodeHealth restrictedClient (NodeName (Spec bestEffortPod))
              = Inl (Error ''nodes is forbidden'')"
    by (simp add: GetNodeHealth_def GetNode_def restrictedClient_def quietClient_def)
  from Diagnose_fails_only_on_pod_fetch
         [of restrictedClient "''default''" "''gone''" "Error ''pods not found''"
             exampleRuntime "NewPodAnalyzer exampleRuntime"]
    g
  have first: "Diagnose exampleRuntime (NewPodAnalyzer exampleRuntime) restrictedClient
                 ''default'' ''gone'' = Some (Inl (Error ''pods not found''))"
    by blast
  from Diagnose_fails_only_on_pod_fetch
         [of restrictedClient "''default''" "''web''" _
             exampleRuntime "NewPodAnalyzer exampleRuntime" bestEffortPod]
    w np
  obtain d where
    d: "Diagnose exampleRuntime (NewPodAnalyzer exampleRuntime) restrictedClient ''default'' ''web''
          = Some (Inr d)"
    and i: "Issues d = concat (map (analyzerIssues bestEffortPod restrictedClient)
                                 (NewPodAnalyzer exampleRuntime))"
    and e: "Events d = (case GetPodEvents restrictedClient ''default'' ''web'' of
                          Inr events \<Rightarrow> events
                        | Inl e \<Rightarrow> [])"
    and n: "Node d = (if NodeName (Spec bestEffortPod) \<noteq> [] then
                        (case GetNodeHealth restrictedClient (NodeName (Spec bestEffortPod)) of
                           Inr nodeHealth \<Rightarrow> Some nodeHealth
                         | Inl e \<Rightarrow> None)
                      else None)"
    by blast
  have t: "map Title (Issues d)
          = [''No resource limits for app'', ''No resource requests for app'',
             ''BestEffort QoS for app'', ''No health probes for app'']"
    using i titles by simp
  have e0: "Events d = []" using e ev by simp
  have n0: "Node d = None" using n nh by simp
  have ex: "\<exists>d. Diagnose exampleRuntime (NewPodAnalyzer exampleRuntime) restrictedClient
                 ''default'' ''web'' = Some (Inr d)
          \<and> map Title (Issues d)
              = [''No resource limits for app'', ''No resource requests for app'',
                 ''BestEffort QoS for app'', ''No health probes for app'']
          \<and> Events d = []
          \<and> Node d = None"
    by (rule exI[of _ d]) (simp only: d t e0 n0 simp_thms)
  show ?thesis by (intro conjI g first w each ex)
qed

subsection \<open>A container without resources and probes\<close>

lemma no_space_not_contained:
  "CHR '' '' \<notin> set name \<Longrightarrow> CHR '' '' \<in> set pat \<Longrightarrow> \<not> sublist pat name"
  using set_mono_sublist by fastforce

lemma analyzeContainer_best_effort:
  assumes "Limits (Resources c) = []" "Requests (Resources c) = []"
  shows "analyzeContainer c
    = [resourceIssue SeverityWarning (''No resource limits for '' @ C_Name c)
         ''Container has no resource limits set, which may lead to resource contention''
         [''container'' \<mapsto> C_Name c,
          ''recommendation'' \<mapsto> ''Set CPU and memory limits to prevent resource starvation''],
       resourceIssue SeverityInfo (''No resource requests for '' @ C_Name c)
         ''Container has no resource requests set, which may affect scheduling''
         [''container'' \<mapsto> C_Name c,
          ''recommendation'' \<mapsto> ''Set resource requests for better scheduling decisions''],
       resourceIssue SeverityWarning (''BestEffort QoS for '' @ C_Name c)
         ''Container has BestEffort QoS class and will be first to be evicted under memory pressure''
         [''container'' \<mapsto> C_Name c, ''qos_class'' \<mapsto> ''BestEffort'']]"
  using assms
  by (simp add: analyzeContainer_def memoryIssues_def cpuIssues_def Memory_def Cpu_def
      resourceName_def zeroQuantity_def IsZero_def isGuaranteedQoS_def isBurstableQoS_def)

lemma analyzeContainerProbes_none:
  assumes "LivenessProbe c = None" "ReadinessProbe c = None" "StartupProbe c = None"
  shows "analyzeContainerProbes c
    = [probeIssue SeverityInfo (''No health probes for '' @ C_Name c)
         ''Container has no liveness or readiness probes configured''
         [''container'' \<mapsto> C_Name c,
          ''recommendation'' \<mapsto> ''Consider adding probes for better health monitoring'']]"
  using assms by (simp add: analyzeContainerProbes_def)

lemma recs_no_limits:
  assumes "CHR '' '' \<notin> set name"
  shows "getRecommendationsForIssue
           (resourceIssue SeverityWarning (''No resource limits for '' @ name) descr
              [''container'' \<mapsto> name, ''recommendation'' \<mapsto> advice]) pod
         = [recAddResourceLimits]"
  using assms
  by (simp add: getRecommendationsForIssue_def recsResources_def resourceIssue_def
      containsReason_def strings_Contains_def recAddResourceLimits_def
      sublist_Cons_right no_space_not_contained)

lemma recs_no_requests:
  assumes "CHR '' '' \<notin> set name"
  shows "getRecommendationsForIssue
           (resourceIssue SeverityInfo (''No resource requests for '' @ name) descr
              [''container'' \<mapsto> name, ''recommendation'' \<mapsto> advice]) pod
         = []"
  using assms
  by (simp add: getRecommendationsForIssue_def recsResources_def resourceIssue_def
      containsReason_def strings_Contains_def
      sublist_Cons_right no_space_not_contained)

lemma recs_best_effort:
  assumes "CHR '' '' \<notin> set name"
  shows "getRecommendationsForIssue
           (resourceIssue SeverityWarning (''BestEffort QoS for '' @ name) descr
              [''container'' \<mapsto> name, ''qos_class'' \<mapsto> ''BestEffort'']) pod
         = [recConfigureResources]"
  using assms
  by (simp add: getRecommendationsForIssue_def recsResources_def resourceIssue_def
      containsReason_def strings_Contains_def recConfigureResources_def
      sublist_Cons_right no_space_not_contained)

lemma recs_no_probes:
  assumes "CHR '' '' \<notin> set name"
  shows "getRecommendationsForIssue
           (probeIssue SeverityInfo (''No health probes for '' @ name) descr
              [''container'' \<mapsto> name, ''recommendation'' \<mapsto> advice]) pod
         = [recAddHealthProbes]"
  using assms
  by (simp add: getRecommendationsForIssue_def recsProbes_def probeIssue_def
      strings_Contains_def recAddHealthProbes_def
      sublist_Cons_right no_space_not_contained)

lemma mset_two: "mset [x, y] = mset [a, b] \<Longrightarrow> (x = a \<and> y = b) \<or> (x = b \<and> y = a)"
  by (auto simp: add_eq_conv_ex)

lemma sorted_three:
  fixes f :: "'a \<Rightarrow> int"
  assumes m: "mset xs = mset [a, b, c]" and s: "sorted (map f xs)"
    and fa: "f a = 2" and fb: "f b = 2" and fc: "f c = 3"
  shows "xs = [a, b, c] \<or> xs = [b, a, c]"
proof -
  from m have "length xs = length [a, b, c]" by (rule mset_eq_length)
  then obtain x y z where xs: "xs = [x, y, z]"
    by (cases xs; cases "tl xs"; cases "tl (tl xs)") auto
  from m xs have set: "set [x, y, z] = set [a, b, c]" by (metis mset_eq_setD)
  have vals: "f x \<in> {2, 3}" "f y \<in> {2, 3}" "f z \<in> {2, 3}"
    using set fa fb fc by auto
  from m xs have "sum_mset (image_mset f (mset [x, y, z]))
      = sum_mset (image_mset f (mset [a, b, c]))"
    by simp
  then have sum: "f x + f y + f z = 7" using fa fb fc by simp
  from s xs have ord: "f x \<le> f y" "f y \<le> f z" by simp_all
  from vals sum ord have fz: "f z = 3" by auto
  have "z \<in> set [a, b, c]" using set by auto
  with fz fa fb have "z = c" by auto
  with m xs have "mset [x, y] = mset [a, b]" by (simp add: add_mset_commute)
  from mset_two[OF this] \<open>z = c\<close> xs show ?thesis by auto
qed

lemma acceptedRecs_best_effort:
  assumes "CHR '' '' \<notin> set name"
    and "Issues d =
      [resourceIssue SeverityWarning (''No resource limits for '' @ name) descr1
         [''container'' \<mapsto> name, ''recommendation'' \<mapsto> advice1],
       resourceIssue SeverityInfo (''No resource requests for '' @ name) descr2
         [''container'' \<mapsto> name, ''recommendation'' \<mapsto> advice2],
       resourceIssue SeverityWarning (''BestEffort QoS for '' @ name) descr3
         [''container'' \<mapsto> name, ''qos_class'' \<mapsto> ''BestEffort''],
       probeIssue SeverityInfo (''No health probes for '' @ name) descr4
         [''container'' \<mapsto> name, ''recommendation'' \<mapsto> advice4]]"
  shows "acceptedRecs d = [recAddResourceLimits, recConfigureResources, recAddHealthProbes]"
proof -
  have "acceptedRecs d
      = fst (foldl acceptRec ([], \<lambda>_. False)
               [recAddResourceLimits, recConfigureResources, recAddHealthProbes])"
    by (simp only: acceptedRecs_def assms(2) acceptIssue_def foldl.simps
        recs_no_limits[OF assms(1)] recs_no_requests[OF assms(1)]
        recs_best_effort[OF assms(1)] recs_no_probes[OF assms(1)])
  also have "\<dots> = [recAddResourceLimits, recConfigureResources, recAddHealthProbes]"
    by (simp add: acceptRec_def recAddResourceLimits_def recConfigureResources_def
        recAddHealthProbes_def)
  finally show ?thesis .
qed

text \<open>
  Claim C7, as the code has it. Take a pod with one container, whose name has no space
  in it, that sets no resource requests, no resource limits and no probe; let there be no
  events and no log output, and let the status and node analyzers find nothing. Then
  the diagnosis has exactly four issues, in this order: the resources warning
  \<open>No resource limits for <container>\<close>, the resources info
  \<open>No resource requests for <container>\<close>, the resources warning
  \<open>BestEffort QoS for <container>\<close> and the probes info \<open>No health probes for <container>\<close>.
  Whenever \<open>sort.Slice\<close> does what the library documents, the recommendations are
  \<open>Add resource limits\<close> and \<open>Configure resource requests and limits\<close>, both of
  priority 2 and in either order, followed by \<open>Add health probes\<close> of priority 3.
\<close>

theorem Diagnose_no_resources_no_probes:
  assumes pod: "GetPod client namespace name = Inr pod"
    and ns: "Pod_Namespace pod = namespace"
    and nm: "Pod_Name pod = name"
    and one: "Containers (Spec pod) = [c]"
    and noinit: "InitContainers (Spec pod) = []"
    and nospace: "CHR '' '' \<notin> set (C_Name c)"
    and lim: "Limits (Resources c) = []"
    and req: "Requests (Resources c) = []"
    and lp: "LivenessProbe c = None"
    and rp: "ReadinessProbe c = None"
    and sp: "StartupProbe c = None"
    and events: "GetPodEvents client namespace name = Inr []"
    and status: "StatusAnalyzer_Analyze pod client = Inr []"
    and pstatus: "concat (map Probe_analyzeContainerStatus (ContainerStatuses (Status pod))) = []"
    and logs: "GetPodLogs client namespace name (C_Name c) 100 False = Inr []"
    and node: "NodeAnalyzer_Analyze pod client = Inr []"
    and sort: "sortsSlice (sort_Slice rt)
                 [recAddResourceLimits, recConfigureResources, recAddHealthProbes]"
  shows "\<exists>d. Diagnose rt (NewPodAnalyzer rt) client namespace name = Some (Inr d)
           \<and> map (\<lambda>i. (Severity i, Category i, Title i)) (Issues d)
               = [(SeverityWarning, ''resources'', ''No resource limits for '' @ C_Name c),
                  (SeverityInfo, ''resources'', ''No resource requests for '' @ C_Name c),
                  (SeverityWarning, ''resources'', ''BestEffort QoS for '' @ C_Name c),
                  (SeverityInfo, ''probes'', ''No health probes for '' @ C_Name c)]
           \<and> (Recommendations d
                 = [recAddResourceLimits, recConfigureResources, recAddHealthProbes]
               \<or> Recommendations d
                 = [recConfigureResources, recAddResourceLimits, recAddHealthProbes])"
proof -
  have np: "\<forall>a \<in> set (NewPodAnalyzer rt). a pod client \<noteq> None"
    by (rule NewPodAnalyzer_never_panics)
  have ev: "EventAnalyzer_Analyze (time_Format rt) pod client = Inr []"
    using events ns nm by (simp add: EventAnalyzer_Analyze_def)
  have lg: "LogAnalyzer_Analyze (regexp_MatchString rt) (strings_TrimSpace rt) NewLogAnalyzer
              pod client = Some (Inr [])"
    using logs ns nm one
    by (simp add: LogAnalyzer_Analyze_def logContainers_result containerLogIssues_def
        logIssues_def)
  have rs: "ResourceAnalyzer_Analyze pod client = Inr (analyzeContainer c)"
    using one noinit by (simp add: ResourceAnalyzer_Analyze_def)
  have pr: "ProbeAnalyzer_Analyze (time_Format rt) pod client = Inr (analyzeContainerProbes c)"
    using one events ns nm pstatus
    by (simp add: ProbeAnalyzer_Analyze_def analyzeProbeEvents_def)
  have all: "concat (map (analyzerIssues pod client) (NewPodAnalyzer rt))
               = analyzeContainer c @ analyzeContainerProbes c"
    by (simp add: NewPodAnalyzer_def analyzerIssues_def status ev lg node rs pr)
  from Diagnose_result[OF pod np, of rt] obtain d4 where
    r: "Diagnose rt (NewPodAnalyzer rt) client namespace name
          = Some (Inr (d4\<lparr>Recommendations := generateRecommendations (sort_Slice rt) d4\<rparr>))"
    and i: "Issues d4 = concat (map (analyzerIssues pod client) (NewPodAnalyzer rt))"
    by blast
  let ?d = "d4\<lparr>Recommendations := generateRecommendations (sort_Slice rt) d4\<rparr>"
  have issues: "Issues d4 = analyzeContainer c @ analyzeContainerProbes c"
    using i all by simp
  have full: "Issues d4 =
      [resourceIssue SeverityWarning (''No resource limits for '' @ C_Name c)
         ''Container has no resource limits set, which may lead to resource contention''
         [''container'' \<mapsto> C_Name c,
          ''recommendation'' \<mapsto> ''Set CPU and memory limits to prevent resource starvation''],
       resourceIssue SeverityInfo (''No resource requests for '' @ C_Name c)
         ''Container has no resource requests set, which may affect scheduling''
         [''container'' \<mapsto> C_Name c,
          ''recommendation'' \<mapsto> ''Set resource requests for better scheduling decisions''],
       resourceIssue SeverityWarning (''BestEffort QoS for '' @ C_Name c)
         ''Container has BestEffort QoS class and will be first to be evicted under memory pressure''
         [''container'' \<mapsto> C_Name c, ''qos_class'' \<mapsto> ''BestEffort''],
       probeIssue SeverityInfo (''No health probes for '' @ C_Name c)
         ''Container has no liveness or readiness probes configured''
         [''container'' \<mapsto> C_Name c,
          ''recommendation'' \<mapsto> ''Consider adding probes for better health monitoring'']]"
    by (simp only: issues analyzeContainer_best_effort[OF lim req]
        analyzeContainerProbes_none[OF lp rp sp] append.simps)
  have acc: "acceptedRecs d4 = [recAddResourceLimits, recConfigureResources, recAddHealthProbes]"
    by (rule acceptedRecs_best_effort[OF nospace full])
  have tuples: "map (\<lambda>i. (Severity i, Category i, Title i)) (Issues ?d)
               = [(SeverityWarning, ''resources'', ''No resource limits for '' @ C_Name c),
                  (SeverityInfo, ''resources'', ''No resource requests for '' @ C_Name c),
                  (SeverityWarning, ''resources'', ''BestEffort QoS for '' @ C_Name c),
                  (SeverityInfo, ''probes'', ''No health probes for '' @ C_Name c)]"
    by (simp add: full resourceIssue_def probeIssue_def)
  have out: "Recommendations ?d
      = sort_Slice rt byPriority [recAddResourceLimits, recConfigureResources, recAddHealthProbes]"
    by (simp add: generateRecommendations_def acc)
  from sort have m: "mset (Recommendations ?d)
      = mset [recAddResourceLimits, recConfigureResources, recAddHealthProbes]"
    by (simp only: out sortsSlice_def)
  have s: "sorted (map Priority (Recommendations ?d))"
    using sortsSlice_ascending[OF sort] by (simp only: out)
  have order: "Recommendations ?d
                 = [recAddResourceLimits, recConfigureResources, recAddHealthProbes]
               \<or> Recommendations ?d
                 = [recConfigureResources, recAddResourceLimits, recAddHealthProbes]"
    by (rule sorted_three[OF m s])
       (simp_all add: recAddResourceLimits_def recConfigureResources_def recAddHealthProbes_def)
  show ?thesis
    by (rule exI[of _ ?d]) (intro conjI r tuples order)
qed

theorem Diagnose_no_resources_no_probes_witness:
  "GetPod quietClient ''default'' ''web'' = Inr bestEffortPod
   \<and> Containers (Spec bestEffortPod) = [plainContainer ''app'']
   \<and> Resources (plainContainer ''app'') = \<lparr>Limits = [], Requests = []\<rparr>
   \<and> LivenessProbe (plainContainer ''app'') = None
   \<and> ReadinessProbe (plainContainer ''app'') = None
   \<and> GetPodEvents quietClient ''default'' ''web'' = Inr []
   \<and> StatusAnalyzer_Analyze bestEffortPod quietClient = Inr []
   \<and> NodeAnalyzer_Analyze bestEffortPod quietClient = Inr []
   \<and> sortsSlice (sort_Slice exampleRuntime)
        [recAddResourceLimits, recConfigureResources, recAddHealthProbes]
   \<and> (\<exists>d. Diagnose exampleRuntime (NewPodAnalyzer exampleRuntime) quietClient ''default'' ''web''
             = Some (Inr d)
           \<and> map (\<lambda>i. (Severity i, Category i, Title i)) (Issues d)
               = [(SeverityWarning, ''resources'', ''No resource limits for app''),
                  (SeverityInfo, ''resources'', ''No resource requests for app''),
                  (SeverityWarning, ''resources'', ''BestEffort QoS for app''),
                  (SeverityInfo, ''probes'', ''No health probes for app'')]
           \<and> map (\<lambda>r. (Priority r, Rec_Title r)) (Recommendations d)
               = [(2, ''Add resource limits''),
                  (2, ''Configure resource requests and limits''),
                  (3, ''Add health probes'')])"
proof -
  have pod: "GetPod quietClient ''default'' ''web'' = Inr bestEffortPod"
    by (simp add: GetPod_def quietClient_def)
  have ns: "Pod_Namespace bestEffortPod = ''default''" and nm: "Pod_Name bestEffortPod = ''web''"
    by (simp_all add: bestEffortPod_def examplePod_def)
  have one: "Containers (Spec bestEffortPod) = [plainContainer ''app'']"
    and noinit: "InitContainers (Spec bestEffortPod) = []"
    by (simp_all add: bestEffortPod_def)
  have nospace: "CHR '' '' \<notin> set (C_Name (plainContainer ''app''))"
    by (simp add: plainContainer_def)
  have res: "Resources (plainContainer ''app'') = \<lparr>Limits = [], Requests = []\<rparr>"
    by (simp add: plainContainer_def emptyResources_def)
  then have lim: "Limits (Resources (plainContainer ''app'')) = []"
    and req: "Requests (Resources (plainContainer ''app'')) = []"
    by simp_all
  have lp: "LivenessProbe (plainContainer ''app'') = None"
    and rp: "ReadinessProbe (plainContainer ''app'') = None"
    and sp: "StartupProbe (plainContainer ''app'') = None"
    by (simp_all add: plainContainer_def)
  have events: "GetPodEvents quietClient ''default'' ''web'' = Inr []"
    by (simp add: GetPodEvents_def quietClient_def)
  have status: "StatusAnalyzer_Analyze bestEffortPod quietClient = Inr []"
    by (simp add: StatusAnalyzer_Analyze_def bestEffortPod_def examplePod_def readyStatus_def
        runningState_def noState_def Status_analyzeContainerStatus_def
        analyzePodConditions_def highRestartIssues_def)
  have pstatus: "concat (map Probe_analyzeContainerStatus
                           (ContainerStatuses (Status bestEffortPod))) = []"
    by (simp add: bestEffortPod_def examplePod_def readyStatus_def runningState_def
        noState_def Probe_analyzeContainerStatus_def)
  have logs: "GetPodLogs quietClient ''default'' ''web'' (C_Name (plainContainer ''app'')) 100 False
                = Inr []"
    by (simp add: GetPodLogs_def quietClient_def)
  have node: "NodeAnalyzer_Analyze bestEffortPod quietClient = Inr []"
    by (simp add: NodeAnalyzer_Analyze_def GetNodeHealth_def GetNode_def quietClient_def
        healthyNode_def nodeConditionStep_def bestEffortPod_def examplePod_def)
  have sort: "sortsSlice (sort_Slice exampleRuntime)
                [recAddResourceLimits, recConfigureResources, recAddHealthProbes]"
    using goSortSlice_short_sorts
            [of "[recAddResourceLimits, recConfigureResources, recAddHealthProbes]"]
    by (simp add: exampleRuntime_def)
  have recs: "map (\<lambda>r. (Priority r, Rec_Title r))
                [recAddResourceLimits, recConfigureResources, recAddHealthProbes]
              = [(2, ''Add resource limits''),
                 (2, ''Configure resource requests and limits''),
                 (3, ''Add health probes'')]"
    by (simp add: recAddResourceLimits_def recConfigureResources_def recAddHealthProbes_def)
  have order: "map (\<lambda>r. (Priority r, Rec_Title r))
        (Recommendations bestEffortDiagnosis)
      = [(2, ''Add resource limits''),
         (2, ''Configure resource requests and limits''),
         (3, ''Add health probes'')]"
    by code_simp
  from Diagnose_no_resources_no_probes
         [OF pod ns nm one noinit nospace lim req lp rp sp events status pstatus logs node sort]
  obtain d where
    dall: "Diagnose exampleRuntime (NewPodAnalyzer exampleRuntime) quietClient ''default'' ''web''
          = Some (Inr d)
      \<and> map (\<lambda>i. (Severity i, Category i, Title i)) (Issues d)
               = [(SeverityWarning, ''resources'', ''No resource limits for '' @ C_Name (plainContainer ''app'')),
                  (SeverityInfo, ''resources'', ''No resource requests for '' @ C_Name (plainContainer ''app'')),
                  (SeverityWarning, ''resources'', ''BestEffort QoS for '' @ C_Name (plainContainer ''app'')),
                  (SeverityInfo, ''probes'', ''No health probes for '' @ C_Name (plainContainer ''app''))]
      \<and> (Recommendations d
                 = [recAddResourceLimits, recConfigureResources, recAddHealthProbes]
               \<or> Recommendations d
                 = [recConfigureResources, recAddResourceLimits, recAddHealthProbes])"
    ..
  from dall have
    d: "Diagnose exampleRuntime (NewPodAnalyzer exampleRuntime) quietClient ''default'' ''web''
          = Some (Inr d)"
    by (rule conjunct1)
  from dall have
    t: "map (\<lambda>i. (Severity i, Category i, Title i)) (Issues d)
               = [(SeverityWarning, ''resources'', ''No resource limits for '' @ C_Name (plainContainer ''app'')),
                  (SeverityInfo, ''resources'', ''No resource requests for '' @ C_Name (plainContainer ''app'')),
                  (SeverityWarning, ''resources'', ''BestEffort QoS for '' @ C_Name (plainContainer ''app'')),
                  (SeverityInfo, ''probes'', ''No health probes for '' @ C_Name (plainContainer ''app''))]"
    by (rule conjunct1[OF conjunct2])
  have dd: "bestEffortDiagnosis = d"
    by (simp add: bestEffortDiagnosis_def diagnosisFrom_def d)
  have t2: "map (\<lambda>i. (Severity i, Category i, Title i)) (Issues d)
               = [(SeverityWarning, ''resources'', ''No resource limits for app''),
                  (SeverityInfo, ''resources'', ''No resource requests for app''),
                  (SeverityWarning, ''resources'', ''BestEffort QoS for app''),
                  (SeverityInfo, ''probes'', ''No health probes for app'')]"
    using t by (simp add: plainContainer_def)
  have o2: "map (\<lambda>r. (Priority r, Rec_Title r)) (Recommendations d)
               = [(2, ''Add resource limits''),
                  (2, ''Configure resource requests and limits''),
                  (3, ''Add health probes'')]"
    using order dd by simp
  have ex: "\<exists>d. Diagnose exampleRuntime (NewPodAnalyzer exampleRuntime) quietClient ''default'' ''web''
             = Some (Inr d)
           \<and> map (\<lambda>i. (Severity i, Category i, Title i)) (Issues d)
               = [(SeverityWarning, ''resources'', ''No resource limits for app''),
                  (SeverityInfo, ''resources'', ''No resource requests for app''),
                  (SeverityWarning, ''resources'', ''BestEffort QoS for app''),
                  (SeverityInfo, ''probes'', ''No health probes for app'')]
           \<and> map (\<lambda>r. (Priority r, Rec_Title r)) (Recommendations d)
               = [(2, ''Add resource limits''),
                  (2, ''Configure resource requests and limits''),
                  (3, ''Add health probes'')]"
    by (rule exI[of _ d]) (intro conjI d t2 o2)
  show ?thesis
    by (intro conjI pod one res lp rp events status node sort ex)
qed

text \<open>
  Claim C7 as stated fails on that pod: its diagnosis has two warnings of category
  resources, \<open>No resource limits for app\<close> beside \<open>BestEffort QoS for app\<close>, and three
  issues of that category in all, not one.
\<close>

theorem Diagnose_one_resources_warning_counterexample:
  "Resources (hd (Containers (Spec bestEffortPod))) = \<lparr>Limits = [], Requests = []\<rparr>
   \<and> LivenessProbe (hd (Containers (Spec bestEffortPod))) = None
   \<and> ReadinessProbe (hd (Containers (Spec bestEffortPod))) = None
   \<and> map_option (map_sum id (\<lambda>d. map (\<lambda>i. (Severity i, Category i, Title i)) (Issues d)))
        (Diagnose exampleRuntime (NewPodAnalyzer exampleRuntime) quietClient ''default'' ''web'')
       = Some (Inr [(SeverityWarning, ''resources'', ''No resource limits for app''),
                    (SeverityInfo, ''resources'', ''No resource requests for app''),
                    (SeverityWarning, ''resources'', ''BestEffort QoS for app''),
                    (SeverityInfo, ''probes'', ''No health probes for app'')])
   \<and> length (filter (\<lambda>i. Category i = ''resources'' \<and> Severity i = SeverityWarning)
               (Issues bestEffortDiagnosis)) = 2
   \<and> length (filter (\<lambda>i. Category i = ''resources'') (Issues bestEffortDiagnosis)) = 3"
  by code_simp

subsection \<open>A diagnosis with all thirteen recommendations\<close>

text \<open>
  Claim C4 as stated fails on the diagnosis of \<open>troubledPod\<close>, which \<open>Diagnose\<close> returns
  as \<open>thirteenDiagnosis\<close> and in which all thirteen recommendations are accepted. The
  returned recommendations are in ascending priority, yet the recommendation accepted
  first, \<open>Check container logs\<close>, comes after \<open>Check node status\<close>, accepted eighth with
  the same priority 1.
\<close>

theorem generateRecommendations_stable_counterexample:
  "Diagnose exampleRuntime (NewPodAnalyzer exampleRuntime) troubledClient ''default'' ''web''
     = Some (Inr thirteenDiagnosis)
   \<and> map (\<lambda>r. (Priority r, Rec_Title r)) (acceptedRecs thirteenDiagnosis)
     = [(1, ''Check container logs''), (1, ''Verify image exists''),
        (2, ''Check image pull secrets''), (1, ''Increase memory limit''),
        (1, ''Check node resources''), (2, ''Review pod tolerations''),
        (2, ''Review full logs''), (1, ''Check node status''),
        (2, ''Add resource limits''), (2, ''Configure resource requests and limits''),
        (3, ''Add health probes''), (1, ''Check probe endpoint''),
        (1, ''Debug readiness probe'')]
   \<and> map (\<lambda>r. (Priority r, Rec_Title r)) (generateRecommendations goSortSlice thirteenDiagnosis)
     = [(1, ''Check node status''), (1, ''Verify image exists''),
        (1, ''Debug readiness probe''), (1, ''Increase memory limit''),
        (1, ''Check node resources''), (1, ''Check probe endpoint''),
        (1, ''Check container logs''), (2, ''Review full logs''),
        (2, ''Add resource limits''), (2, ''Configure resource requests and limits''),
        (2, ''Review pod tolerations''), (2, ''Check image pull secrets''),
        (3, ''Add health probes'')]
   \<and> map Rec_Title (Recommendations thirteenDiagnosis)
     = map Rec_Title (generateRecommendations goSortSlice thirteenDiagnosis)
   \<and> \<not> firstSeenOrderKept (acceptedRecs thirteenDiagnosis)
         (generateRecommendations goSortSlice thirteenDiagnosis)"
proof -
  have pod: "GetPod troubledClient ''default'' ''web'' = Inr troubledPod"
    by (simp add: GetPod_def troubledClient_def)
  from Diagnose_result[OF pod NewPodAnalyzer_never_panics, of exampleRuntime exampleRuntime]
  obtain d4 where
    "Diagnose exampleRuntime (NewPodAnalyzer exampleRuntime) troubledClient ''default'' ''web''
       = Some (Inr (d4\<lparr>Recommendations :=
                         generateRecommendations (sort_Slice exampleRuntime) d4\<rparr>))"
    by blast
  then have run: "Diagnose exampleRuntime (NewPodAnalyzer exampleRuntime) troubledClient
                    ''default'' ''web'' = Some (Inr thirteenDiagnosis)"
    by (simp add: thirteenDiagnosis_def diagnosisFrom_def)
  have a: "map (\<lambda>r. (Priority r, Rec_Title r)) (acceptedRecs thirteenDiagnosis)
     = [(1, ''Check container logs''), (1, ''Verify image exists''),
        (2, ''Check image pull secrets''), (1, ''Increase memory limit''),
        (1, ''Check node resources''), (2, ''Review pod tolerations''),
        (2, ''Review full logs''), (1, ''Check node status''),
        (2, ''Add resource limits''), (2, ''Configure resource requests and limits''),
        (3, ''Add health probes''), (1, ''Check probe endpoint''),
        (1, ''Debug readiness probe'')]"
    by code_simp
  have v: "map (\<lambda>r. (Priority r, Rec_Title r)) (generateRecommendations goSortSlice thirteenDiagnosis)
     = [(1, ''Check node status''), (1, ''Verify image exists''),
        (1, ''Debug readiness probe''), (1, ''Increase memory limit''),
        (1, ''Check node resources''), (1, ''Check probe endpoint''),
        (1, ''Check container logs''), (2, ''Review full logs''),
        (2, ''Add resource limits''), (2, ''Configure resource requests and limits''),
        (2, ''Review pod tolerations''), (2, ''Check image pull secrets''),
        (3, ''Add health probes'')]"
    by code_simp
  have same: "map Rec_Title (Recommendations thirteenDiagnosis)
     = map Rec_Title (generateRecommendations goSortSlice thirteenDiagnosis)"
    by code_simp
  have "map Rec_Title (filter (\<lambda>r. Priority r = 1) (generateRecommendations goSortSlice thirteenDiagnosis))
      \<noteq> map Rec_Title (filter (\<lambda>r. Priority r = 1) (acceptedRecs thirteenDiagnosis))"
    by code_simp
  then have "filter (\<lambda>r. Priority r = 1) (generateRecommendations goSortSlice thirteenDiagnosis)
      \<noteq> filter (\<lambda>r. Priority r = 1) (acceptedRecs thirteenDiagnosis)"
    by auto
  then have unstable: "\<not> firstSeenOrderKept (acceptedRecs thirteenDiagnosis)
         (generateRecommendations goSortSlice thirteenDiagnosis)"
    unfolding firstSeenOrderKept_def by blast
  show ?thesis by (intro conjI run a v same unstable)
qed

section \<open>Properties of the scan\<close>

text \<open>
  Claim C10. A diagnosis counts as healthy exactly when its status label is Healthy and
  it has no issue. So the filter for unhealthy diagnoses keeps exactly those that have
  an issue or a label other than Healthy: every diagnosis with at least one issue, of
  whatever severity, is kept, also under the label Healthy.
\<close>

theorem IsHealthy_requires_no_issue:
  "(IsHealthy d \<longleftrightarrow> D_Status d = StatusHealthy \<and> Issues d = [])
   \<and> unhealthyFilter True ds
       = filter (\<lambda>d. Issues d \<noteq> [] \<or> D_Status d \<noteq> StatusHealthy) ds
   \<and> (d \<in> set ds \<and> Issues d \<noteq> [] \<longrightarrow> d \<in> set (unhealthyFilter True ds))"
proof -
  have "(\<lambda>d. \<not> IsHealthy d) = (\<lambda>d. Issues d \<noteq> [] \<or> D_Status d \<noteq> StatusHealthy)"
    by (auto simp: IsHealthy_def)
  then show ?thesis by (auto simp: unhealthyFilter_def IsHealthy_def)
qed

theorem IsHealthy_requires_no_issue_witness:
  "Phase (Status guaranteedPod) = ''Running''
   \<and> map Ready (ContainerStatuses (Status guaranteedPod)) = [True]
   \<and> D_Status guaranteedDiagnosis = StatusHealthy
   \<and> map (\<lambda>i. (Severity i, Category i, Title i)) (Issues guaranteedDiagnosis)
       = [(SeverityInfo, ''probes'', ''No health probes for app'')]
   \<and> \<not> IsHealthy guaranteedDiagnosis
   \<and> guaranteedDiagnosis \<in> set (unhealthyFilter True [guaranteedDiagnosis])"
proof -
  have p: "Phase (Status guaranteedPod) = ''Running''
           \<and> map Ready (ContainerStatuses (Status guaranteedPod)) = [True]"
    by code_simp
  have s: "D_Status guaranteedDiagnosis = StatusHealthy"
    by code_simp
  have i: "map (\<lambda>i. (Severity i, Category i, Title i)) (Issues guaranteedDiagnosis)
       = [(SeverityInfo, ''probes'', ''No health probes for app'')]"
    by code_simp
  then have ne: "Issues guaranteedDiagnosis \<noteq> []" by auto
  from IsHealthy_requires_no_issue [of guaranteedDiagnosis "[guaranteedDiagnosis]"] p s i ne
  show ?thesis by simp
qed

end
